(* ===== verification/Prelude.thy ===== *)
theory Prelude
  imports Complex_Main "HOL-Library.Sublist"
begin

text \<open>
  Shared vocabulary of the CardioSense development: the types that name the model's
  values, the configuration constants of \<open>App\<close> in \<open>src/src/main.jsx\<close> (lines 165--171),
  the few JavaScript built-ins the code relies on (\<open>Array.prototype.slice\<close> with a
  negative start, \<open>Math.round\<close>, number-to-string conversion, \<open>String.prototype.includes\<close>
  and \<open>toLowerCase\<close>), and the generic lemmas on lists, folds and square roots that the
  component theories share.

  JavaScript numbers are IEEE doubles; the model reads them as exact \<open>real\<close>s (samples,
  intervals, rates) and as \<open>nat\<close> where the code only ever stores non-negative integers
  (array indices, the playback cursor, millisecond clocks).  Rounding error of doubles is
  therefore not modelled.
\<close>

named_theorems window_simps "rewrite rules for the sliding-window helper"
named_theorems result_defs "unfolding rules of the fixed analysis results"

type_synonym sample = real
type_synonym signal = "sample list"
type_synonym msec = nat

subsection \<open>Configuration of the application\<close>

definition SAMPLE_RATE :: nat where
  "SAMPLE_RATE = 200"

definition WINDOW_SIZE_SECONDS :: nat where
  "WINDOW_SIZE_SECONDS = 3"

definition POINTS_PER_WINDOW :: nat where
  "POINTS_PER_WINDOW = SAMPLE_RATE * WINDOW_SIZE_SECONDS"

definition SAMPLES_PER_FRAME :: nat where
  "SAMPLES_PER_FRAME = 4"

lemma POINTS_PER_WINDOW_val [simp]: "POINTS_PER_WINDOW = 600"
  by (simp add: POINTS_PER_WINDOW_def SAMPLE_RATE_def WINDOW_SIZE_SECONDS_def)

lemma SAMPLE_RATE_val [simp]: "SAMPLE_RATE = 200"
  by (simp add: SAMPLE_RATE_def)

lemma SAMPLES_PER_FRAME_val [simp]: "SAMPLES_PER_FRAME = 4"
  by (simp add: SAMPLES_PER_FRAME_def)

subsection \<open>JavaScript built-ins\<close>

text \<open>
  \<open>xs.slice(-n)\<close> for \<open>n > 0\<close>, and \<open>xs.slice(length - n)\<close>: the last \<open>n\<close> elements,
  or the whole array when it is shorter.
\<close>

definition slice_last :: "nat \<Rightarrow> 'a list \<Rightarrow> 'a list" where
  "slice_last n xs = drop (length xs - n) xs"

text \<open>\<open>Math.round\<close> rounds to the nearest integer, halves towards \<open>+\<infinity>\<close>.\<close>

definition js_round :: "real \<Rightarrow> int" where
  "js_round x = \<lfloor>x + 1 / 2\<rfloor>"

text \<open>The decimal text of an integral number, as a template literal prints it.\<close>

fun nat_digits :: "nat \<Rightarrow> string" where
  "nat_digits n =
     (if n < 10 then [char_of (48 + n)]
      else nat_digits (n div 10) @ [char_of (48 + n mod 10)])"

definition int_to_string :: "int \<Rightarrow> string" where
  "int_to_string i = (if i < 0 then CHR ''-'' # nat_digits (nat (- i)) else nat_digits (nat i))"

text \<open>\<open>toLowerCase\<close> on ASCII text.\<close>

definition lower_char :: "char \<Rightarrow> char" where
  "lower_char c = (let n = (of_char c :: nat) in if 65 \<le> n \<and> n \<le> 90 then char_of (n + 32) else c)"

definition to_lower :: "string \<Rightarrow> string" where
  "to_lower s = map lower_char s"

text \<open>\<open>s.includes(p)\<close>: \<open>p\<close> occurs in \<open>s\<close> as a contiguous substring.\<close>

fun js_includes :: "string \<Rightarrow> string \<Rightarrow> bool" where
  "js_includes [] p = (p = [])"
| "js_includes (c # s) p = (prefix p (c # s) \<or> js_includes s p)"

subsection \<open>Lemmas on the built-ins\<close>

lemma length_slice_last [window_simps]: "length (slice_last n xs) = min n (length xs)"
  by (simp add: slice_last_def)

lemma slice_last_short [window_simps]: "length xs \<le> n \<Longrightarrow> slice_last n xs = xs"
  by (simp add: slice_last_def)

lemma slice_last_suffix [window_simps]: "suffix (slice_last n xs) xs"
  by (simp add: slice_last_def suffix_drop)

text \<open>Cutting a window before appending changes nothing once the window is cut again.\<close>

lemma slice_last_append_slice [window_simps]:
  "slice_last n (slice_last n xs @ ys) = slice_last n (xs @ ys)"
proof (cases "length xs \<le> n")
  case True
  then show ?thesis by (simp add: slice_last_def)
next
  case False
  then have len: "length (drop (length xs - n) xs) = n" by simp
  have "drop (length ys) (drop (length xs - n) xs @ ys) = drop (length xs - n + length ys) (xs @ ys)"
    using False by (simp add: drop_append add.commute)
  with len False show ?thesis
    by (simp add: slice_last_def add.commute)
qed

lemma js_includes_sublist: "js_includes s p \<longleftrightarrow> sublist p s"
  by (induction s) (auto simp: sublist_Cons_right)

declare nat_digits.simps [simp del]

lemma nat_digits_nonempty: "nat_digits n \<noteq> []"
  by (subst nat_digits.simps) simp

subsection \<open>Folds and sums\<close>

lemma foldl_add_sum_list: "foldl (+) a xs = a + sum_list (xs :: 'a :: comm_monoid_add list)"
  by (induction xs arbitrary: a) (simp_all add: add.assoc)

lemma foldl_add_map_sum_list:
  "foldl (\<lambda>acc v. acc + f v) a xs = a + sum_list (map f xs :: 'a :: comm_monoid_add list)"
  by (induction xs arbitrary: a) (simp_all add: add.assoc)

lemma fold_max_Max: "fold max xs x = Max (set (x # xs))"
  by (rule Max.set_eq_fold [symmetric])

lemma fold_min_Min: "fold min xs x = Min (set (x # xs))"
  by (rule Min.set_eq_fold [symmetric])

lemma sum_list_lower_bound:
  "(\<And>v. v \<in> set xs \<Longrightarrow> c \<le> v) \<Longrightarrow> real (length xs) * c \<le> sum_list (xs :: real list)"
  by (induction xs) (auto simp: algebra_simps intro: add_mono)

subsection \<open>Square roots\<close>

lemma less_sqrt_iff: "0 \<le> c \<Longrightarrow> c < sqrt x \<longleftrightarrow> c\<^sup>2 < x"
  by (metis abs_of_nonneg real_sqrt_abs real_sqrt_less_iff)

end
