(* ===== verification/SignalAnalyzer.thy ===== *)
theory SignalAnalyzer
  imports Prelude
begin

text \<open>
  The analysis engine \<open>analyzeECGSignal\<close> of \<open>src/src/main.jsx\<close> (lines 175--254): range
  and flat-line test, threshold, R-peak scan with a symmetric window and a refractory
  distance, R-R intervals, mean rate and SDNN, and the rhythm classification by
  successive overrides.  Each block of the JavaScript function is one definition here,
  composed in \<open>analyzeECGSignal\<close> in the code's order.  The lemmas characterise the peak
  scan (spacing, soundness, equivalence with a filter-then-thin reference), the
  statistics, the classification table, and the results on ideal spike trains.
\<close>

section \<open>Definitions\<close>

text \<open>The object the function returns: \<open>{hr, rhythm, risk, explanation, alert}\<close>.\<close>

record analysis =
  hr :: real
  rhythm :: string
  risk :: int
  explanation :: string
  alert :: "string option"

text \<open>The early return of a flat (or empty) recording, line 181.\<close>

definition asystole_result :: analysis where
  "asystole_result =
     \<lparr>hr = 0, rhythm = ''Asystole / No Signal'', risk = 100,
      explanation = ''No cardiac electrical activity detected (Isoelectric line).'',
      alert = Some ''Asystole Warning''\<rparr>"

text \<open>The early return when fewer than two R-peaks were found, line 208.\<close>

definition signal_error_result :: analysis where
  "signal_error_result =
     \<lparr>hr = 0, rhythm = ''Signal Error'', risk = 0,
      explanation = ''Unable to detect distinct R-peaks. Signal may be too noisy or disconnected.'',
      alert = Some ''Check Electrodes''\<rparr>"

declare asystole_result_def [result_defs] signal_error_result_def [result_defs]

text \<open>\<open>const windowSize = 10\<close>, line 187.\<close>

definition windowSize :: nat where
  "windowSize = 10"

text \<open>
  The inner loop of lines 191--197: \<open>isMax\<close> stays true unless some neighbour at distance
  \<open>j \<in> [1, windowSize]\<close> is strictly greater.  The \<open>break\<close> only shortens the loop; the
  value is the conjunction over all \<open>j\<close>.
\<close>

definition isMax :: "signal \<Rightarrow> nat \<Rightarrow> bool" where
  "isMax data i =
     list_all (\<lambda>j. \<not> (data ! i < data ! (i - j) \<or> data ! i < data ! (i + j))) [1..<Suc windowSize]"

text \<open>
  One iteration of the scan loop (lines 190--204) on the loop state
  \<open>(lastPeakIndex, peaks)\<close>; \<open>peaks.push(i)\<close> appends.
\<close>

definition peak_step :: "signal \<Rightarrow> real \<Rightarrow> int \<times> nat list \<Rightarrow> nat \<Rightarrow> int \<times> nat list" where
  "peak_step data threshold st i =
     (case st of (lastPeakIndex, peaks) \<Rightarrow>
        if data ! i > threshold then
          (if isMax data i then
             (if int i - lastPeakIndex > 40 then (int i, peaks @ [i]) else (lastPeakIndex, peaks))
           else (lastPeakIndex, peaks))
        else (lastPeakIndex, peaks))"

text \<open>
  The scan of lines 185--205: \<open>lastPeakIndex\<close> starts at \<open>-100\<close>, \<open>i\<close> runs over
  \<open>[windowSize, data.length - windowSize)\<close> (empty when the recording is shorter than
  \<open>2 * windowSize + 1\<close>, as the JavaScript comparison with a negative bound is).
\<close>

definition detect_peaks :: "signal \<Rightarrow> real \<Rightarrow> nat list" where
  "detect_peaks data threshold =
     snd (foldl (peak_step data threshold) (-100, []) [windowSize..<length data - windowSize])"

text \<open>The R-R intervals in milliseconds, lines 211--216.\<close>

fun rr_intervals :: "nat list \<Rightarrow> real list" where
  "rr_intervals (p # q # ps) = (real (q - p) / real SAMPLE_RATE * 1000) # rr_intervals (q # ps)"
| "rr_intervals _ = []"

text \<open>
  Mean interval, rate and SDNN (population variance), lines 218--222; the result is the
  pair \<open>(bpm, sdnn)\<close>.
\<close>

definition rr_stats :: "real list \<Rightarrow> real \<times> real" where
  "rr_stats intervals =
     (let avgInterval = foldl (+) 0 intervals / real (length intervals);
          bpm = 60000 / avgInterval;
          variance = foldl (\<lambda>acc v. acc + (v - avgInterval)\<^sup>2) 0 intervals / real (length intervals);
          sdnn = sqrt variance
      in (bpm, sdnn))"

text \<open>
  The classification, lines 224--253: a default verdict, overridden by the rate tier
  (\<open>if / else if / else if\<close>), then overridden again by the irregularity test, which
  is guarded so that it never replaces the noise verdict.  The verdict is the tuple
  \<open>(rhythm, explanation, risk, alert)\<close> the code mutates.
\<close>

definition classify :: "real \<Rightarrow> real \<Rightarrow> analysis" where
  "classify bpm sdnn =
     (let v0 = (''Normal Sinus'', ''Regular R-R intervals. Heart rate within normal range.'',
                15::int, None :: string option);
          v1 = (if bpm > 180 then
                  (''Noise / Artifact'',
                   ''Detected rate > 180 BPM. Likely motion artifact or electrode noise.'',
                   0, Some ''High Noise Level'')
                else if bpm > 100 then
                  (''Sinus Tachycardia'',
                   ''Heart rate elevated ('' @ int_to_string (js_round bpm)
                     @ '' BPM). R-R intervals consistent but shortened.'',
                   65, Some ''Tachycardia Detected'')
                else if bpm < 60 then
                  (''Sinus Bradycardia'',
                   ''Heart rate depressed ('' @ int_to_string (js_round bpm)
                     @ '' BPM). R-R intervals prolonged.'',
                   45, Some ''Bradycardia Detected'')
                else v0);
          v2 = (if sdnn > 100 \<and> bpm \<le> 180 then
                  (''Arrhythmia / Irregular'',
                   ''High variability in R-R intervals detected (Possible AFib or Ectopy).'',
                   85, Some ''Irregular Rhythm'')
                else v1)
      in case v2 of (rh, ex, rk, al) \<Rightarrow>
           \<lparr>hr = bpm, rhythm = rh, risk = rk, explanation = ex, alert = al\<rparr>)"

text \<open>
  The whole function.  \<open>Math.max(...data)\<close> and \<open>Math.min(...data)\<close> are folds of
  \<open>max\<close> and \<open>min\<close>; on an empty array they are \<open>-Infinity\<close> and \<open>Infinity\<close>, the
  range is \<open>-Infinity < 0.05\<close>, and the function returns the asystole verdict: that is
  the \<open>[]\<close> branch.
\<close>

definition analyzeECGSignal :: "signal \<Rightarrow> analysis" where
  "analyzeECGSignal data =
     (case data of
        [] \<Rightarrow> asystole_result
      | x # xs \<Rightarrow>
          (let mx = fold max xs x; mn = fold min xs x; range = mx - mn in
           if range < 0.05 then asystole_result
           else
             (let threshold = mn + range * 0.75;
                  peaks = detect_peaks data threshold
              in if length peaks < 2 then signal_error_result
                 else case rr_stats (rr_intervals peaks) of (bpm, sdnn) \<Rightarrow> classify bpm sdnn)))"

section \<open>Reference definitions\<close>

text \<open>
  The specification's reading of the scan: first the candidates (above the threshold and
  a local maximum of the window), then a greedy thinning that keeps a candidate only
  when it lies more than 40 samples after the last kept one.  \<open>detect_peaks_thin\<close>
  shows that the code's fused loop computes exactly this.
\<close>

definition peak_candidate :: "signal \<Rightarrow> real \<Rightarrow> nat \<Rightarrow> bool" where
  "peak_candidate data threshold i \<longleftrightarrow> threshold < data ! i \<and> isMax data i"

fun thin_refractory :: "int \<Rightarrow> nat list \<Rightarrow> nat list" where
  "thin_refractory l [] = []"
| "thin_refractory l (i # is) =
     (if int i - l > 40 then i # thin_refractory (int i) is else thin_refractory l is)"

text \<open>
  Test inputs of the specification (section 8): a recording of \<open>len\<close> samples that is
  \<open>1\<close> at the positions \<open>ps\<close> and \<open>0\<close> elsewhere, and the positions of \<open>n\<close> beats
  spaced \<open>p\<close> samples apart from \<open>a\<close>.
\<close>

definition spike_signal :: "nat list \<Rightarrow> nat \<Rightarrow> signal" where
  "spike_signal ps len = map (\<lambda>i. if i \<in> set ps then 1 else 0) [0..<len]"

definition train :: "nat \<Rightarrow> nat \<Rightarrow> nat \<Rightarrow> nat list" where
  "train a p n = map (\<lambda>k. a + k * p) [0..<n]"

text \<open>
  The specification's design note (section 9) asks for the classification as an ordered
  rule list evaluated top to bottom, each rule a complete verdict.  \<open>classify_table\<close> is
  that list; \<open>classify_matches_rule_table\<close> shows the code's sequence of overrides
  computes it.
\<close>

fun first_match :: "(bool \<times> 'a) list \<Rightarrow> 'a \<Rightarrow> 'a" where
  "first_match [] d = d"
| "first_match ((c, v) # rs) d = (if c then v else first_match rs d)"

definition classify_table :: "real \<Rightarrow> real \<Rightarrow> analysis" where
  "classify_table bpm sdnn =
     first_match
       [(180 < bpm,
         \<lparr>hr = bpm, rhythm = ''Noise / Artifact'', risk = 0,
          explanation = ''Detected rate > 180 BPM. Likely motion artifact or electrode noise.'',
          alert = Some ''High Noise Level''\<rparr>),
        (100 < sdnn,
         \<lparr>hr = bpm, rhythm = ''Arrhythmia / Irregular'', risk = 85,
          explanation = ''High variability in R-R intervals detected (Possible AFib or Ectopy).'',
          alert = Some ''Irregular Rhythm''\<rparr>),
        (100 < bpm,
         \<lparr>hr = bpm, rhythm = ''Sinus Tachycardia'', risk = 65,
          explanation = ''Heart rate elevated ('' @ int_to_string (js_round bpm)
            @ '' BPM). R-R intervals consistent but shortened.'',
          alert = Some ''Tachycardia Detected''\<rparr>),
        (bpm < 60,
         \<lparr>hr = bpm, rhythm = ''Sinus Bradycardia'', risk = 45,
          explanation = ''Heart rate depressed ('' @ int_to_string (js_round bpm)
            @ '' BPM). R-R intervals prolonged.'',
          alert = Some ''Bradycardia Detected''\<rparr>)]
       \<lparr>hr = bpm, rhythm = ''Normal Sinus'', risk = 15,
        explanation = ''Regular R-R intervals. Heart rate within normal range.'', alert = None\<rparr>"

text \<open>
  The verdicts of the engine, as (rhythm label, risk, alert): the two early returns and
  the five outcomes of the classification.  The specification requires every input to
  map to a defined result variant (section 7).
\<close>

definition verdicts :: "(string \<times> int \<times> string option) list" where
  "verdicts =
     [(''Asystole / No Signal'', 100, Some ''Asystole Warning''),
      (''Signal Error'', 0, Some ''Check Electrodes''),
      (''Noise / Artifact'', 0, Some ''High Noise Level''),
      (''Arrhythmia / Irregular'', 85, Some ''Irregular Rhythm''),
      (''Sinus Tachycardia'', 65, Some ''Tachycardia Detected''),
      (''Sinus Bradycardia'', 45, Some ''Bradycardia Detected''),
      (''Normal Sinus'', 15, None)]"

definition well_typed_analysis :: "analysis \<Rightarrow> bool" where
  "well_typed_analysis a \<longleftrightarrow> (rhythm a, risk a, alert a) \<in> set verdicts"

section \<open>Lemmas\<close>

subsection \<open>The peak scan\<close>

lemma foldl_peak_step:
  "foldl (peak_step data thr) (l, acc) is =
     (let ps = thin_refractory l (filter (peak_candidate data thr) is)
      in (if ps = [] then l else int (last ps), acc @ ps))"
proof (induction "is" arbitrary: l acc)
  case Nil
  then show ?case by simp
next
  case (Cons i "is")
  show ?case
    using Cons.IH [of "int i" "acc @ [i]"] Cons.IH [of l acc]
    by (auto simp: peak_step_def peak_candidate_def Let_def)
qed

lemma set_thin_refractory: "set (thin_refractory l is) \<subseteq> set is"
  by (induction l "is" rule: thin_refractory.induct) auto

lemma thin_refractory_gap:
  "(\<forall>p \<in> set (thin_refractory l is). l + 40 < int p) \<and>
   sorted_wrt (\<lambda>p q. p + 40 < q) (thin_refractory l is)"
  by (induction l "is" rule: thin_refractory.induct) force+

lemma thin_refractory_id:
  "sorted_wrt (\<lambda>p q. p + 40 < q) is \<Longrightarrow> \<forall>p \<in> set is. l + 40 < int p \<Longrightarrow> thin_refractory l is = is"
proof (induction l "is" rule: thin_refractory.induct)
  case (2 l i "is")
  then have "\<forall>p \<in> set is. int i + 40 < int p" by force
  with "2" show ?case by simp
qed simp

lemma isMax_iff:
  "isMax data i \<longleftrightarrow> (\<forall>j \<in> {1..windowSize}. data ! (i - j) \<le> data ! i \<and> data ! (i + j) \<le> data ! i)"
  by (auto simp: isMax_def list_all_iff not_less)

lemma analyzeECGSignal_nonempty:
  "data \<noteq> [] \<Longrightarrow> analyzeECGSignal data =
     (let range = Max (set data) - Min (set data) in
      if range < 0.05 then asystole_result
      else let peaks = detect_peaks data (Min (set data) + range * 0.75) in
        if length peaks < 2 then signal_error_result
        else case rr_stats (rr_intervals peaks) of (bpm, sdnn) \<Rightarrow> classify bpm sdnn)"
  by (cases data) (simp_all add: analyzeECGSignal_def fold_max_Max fold_min_Min Let_def)

lemma length_rr_intervals: "length (rr_intervals ps) = length ps - 1"
  by (induction ps rule: rr_intervals.induct) auto

lemma nth_rr_intervals:
  "k < length ps - 1 \<Longrightarrow> rr_intervals ps ! k = real (ps ! Suc k - ps ! k) * 5"
proof (induction ps arbitrary: k rule: rr_intervals.induct)
  case (1 p q ps)
  then show ?case by (cases k) auto
qed auto

lemma rr_intervals_ge:
  "sorted_wrt (\<lambda>p q. p + 40 < q) ps \<Longrightarrow> v \<in> set (rr_intervals ps) \<Longrightarrow> 205 \<le> v"
  by (induction ps rule: rr_intervals.induct) auto

lemma rr_stats_bpm_bounds:
  assumes "intervals \<noteq> []" and "\<And>v. v \<in> set intervals \<Longrightarrow> 205 \<le> v"
  shows "0 < fst (rr_stats intervals) \<and> fst (rr_stats intervals) \<le> 60000 / 205"
proof -
  let ?n = "real (length intervals)"
  have n: "0 < ?n" using assms(1) by simp
  have lb: "?n * 205 \<le> sum_list intervals" using sum_list_lower_bound assms(2) by blast
  then have sum_pos: "0 < sum_list intervals" using n by linarith
  from lb have avg: "205 \<le> sum_list intervals / ?n" using n by (simp add: pos_le_divide_eq mult.commute)
  have "fst (rr_stats intervals) = 60000 / (sum_list intervals / ?n)"
    by (simp add: rr_stats_def Let_def foldl_add_sum_list)
  moreover have "60000 / (sum_list intervals / ?n) \<le> 60000 / 205"
    by (rule frac_le) (use avg in auto)
  moreover have "0 < 60000 / (sum_list intervals / ?n)"
    using sum_pos n by simp
  ultimately show ?thesis by simp
qed

lemma rr_stats_replicate:
  "0 < m \<Longrightarrow> rr_stats (replicate m c) = (60000 / c, 0)"
  by (simp add: rr_stats_def Let_def foldl_add_sum_list foldl_add_map_sum_list sum_list_replicate)

lemma classify_fields:
  "hr (classify bpm sdnn) = bpm \<and>
   rhythm (classify bpm sdnn) =
     (if 180 < bpm then ''Noise / Artifact'' else if 100 < sdnn then ''Arrhythmia / Irregular''
      else if 100 < bpm then ''Sinus Tachycardia'' else if bpm < 60 then ''Sinus Bradycardia''
      else ''Normal Sinus'') \<and>
   risk (classify bpm sdnn) =
     (if 180 < bpm then 0 else if 100 < sdnn then 85 else if 100 < bpm then 65
      else if bpm < 60 then 45 else 15) \<and>
   alert (classify bpm sdnn) =
     (if 180 < bpm then Some ''High Noise Level'' else if 100 < sdnn then Some ''Irregular Rhythm''
      else if 100 < bpm then Some ''Tachycardia Detected''
      else if bpm < 60 then Some ''Bradycardia Detected'' else None)"
  by (simp add: classify_def Let_def)

lemma classify_hr_risk:
  "hr (classify bpm sdnn) = bpm \<and> 0 \<le> risk (classify bpm sdnn) \<and> risk (classify bpm sdnn) \<le> 85"
  by (simp add: classify_def Let_def)

subsection \<open>Ideal spike trains\<close>

lemma length_spike_signal [simp]: "length (spike_signal ps len) = len"
  by (simp add: spike_signal_def)

lemma filter_upt_sorted_set:
  "sorted_wrt (<) ps \<Longrightarrow> set ps \<subseteq> {a..<b} \<Longrightarrow> filter (\<lambda>i. i \<in> set ps) [a..<b] = ps"
  by (rule sorted_distinct_set_unique) (auto simp: strict_sorted_iff intro: sorted_wrt_filter)

lemma spike_candidates:
  assumes "sorted_wrt (<) ps" and "\<forall>p \<in> set ps. windowSize \<le> p \<and> p + windowSize < len"
  shows "filter (peak_candidate (spike_signal ps len) (3 / 4)) [windowSize..<len - windowSize] = ps"
proof -
  have "filter (peak_candidate (spike_signal ps len) (3 / 4)) [windowSize..<len - windowSize]
      = filter (\<lambda>i. i \<in> set ps) [windowSize..<len - windowSize]"
  proof (rule filter_cong [OF refl])
    fix i assume "i \<in> set [windowSize..<len - windowSize]"
    then have i: "i + windowSize < len" by auto
    have le1: "\<And>k. k < len \<Longrightarrow> spike_signal ps len ! k \<le> 1"
      by (simp add: spike_signal_def)
    show "peak_candidate (spike_signal ps len) (3 / 4) i \<longleftrightarrow> i \<in> set ps"
      using i le1 by (auto simp: peak_candidate_def isMax_iff spike_signal_def)
  qed
  also have "\<dots> = ps"
    using assms by (intro filter_upt_sorted_set) auto
  finally show ?thesis .
qed

lemma set_spike_signal:
  assumes "ps \<noteq> []" and "0 \<notin> set ps" and "\<forall>p \<in> set ps. p < len"
  shows "set (spike_signal ps len) = {0, 1}"
proof -
  obtain p where p: "p \<in> set ps" using assms(1) by (cases ps) auto
  with assms(3) have "p < len" by blast
  then have "0 < len" by simp
  have "set (spike_signal ps len) = (\<lambda>i. if i \<in> set ps then 1 else 0) ` {0..<len}"
    by (simp add: spike_signal_def)
  also have "\<dots> = {0, 1}"
    using p \<open>p < len\<close> \<open>0 < len\<close> assms(2) by (auto simp: image_iff)
  finally show ?thesis .
qed

lemma analyze_spike_signal:
  assumes "sorted_wrt (<) ps" and "ps \<noteq> []"
    and "\<forall>p \<in> set ps. windowSize \<le> p \<and> p + windowSize < len"
  shows "analyzeECGSignal (spike_signal ps len) =
           (let peaks = thin_refractory (-100) ps in
            if length peaks < 2 then signal_error_result
            else case rr_stats (rr_intervals peaks) of (bpm, sdnn) \<Rightarrow> classify bpm sdnn)"
proof -
  have z: "0 \<notin> set ps" and lt: "\<forall>p \<in> set ps. p < len"
    using assms(3) by (auto simp: windowSize_def)
  have set: "set (spike_signal ps len) = {0, 1}" using assms(2) z lt by (rule set_spike_signal)
  then have ne: "spike_signal ps len \<noteq> []" by auto
  have peaks: "detect_peaks (spike_signal ps len) (3 / 4) = thin_refractory (-100) ps"
    using spike_candidates [OF assms(1,3)] by (simp add: detect_peaks_def foldl_peak_step Let_def)
  show ?thesis
    using analyzeECGSignal_nonempty [OF ne] set peaks by simp
qed

lemma train_gap: "40 < p \<Longrightarrow> sorted_wrt (\<lambda>x y. x + 40 < y) (train a p n)"
proof (unfold sorted_wrt_iff_nth_less, intro allI impI)
  fix i j assume "40 < p" "i < j" "j < length (train a p n)"
  then have "Suc i * p \<le> j * p" by (intro mult_le_mono1) simp
  with \<open>40 < p\<close> \<open>j < _\<close> \<open>i < j\<close> show "train a p n ! i + 40 < train a p n ! j"
    by (simp add: train_def)
qed

lemma train_bounds: "k \<in> set (train a p n) \<Longrightarrow> a \<le> k \<and> k \<le> a + (n - 1) * p"
  by (auto simp: train_def intro: mult_le_mono1)

lemma rr_intervals_train: "rr_intervals (train a p n) = replicate (n - 1) (real p * 5)"
proof (rule nth_equalityI)
  show "length (rr_intervals (train a p n)) = length (replicate (n - 1) (real p * 5))"
    by (simp add: length_rr_intervals train_def)
next
  fix k assume "k < length (rr_intervals (train a p n))"
  then have k: "k < length (train a p n) - 1" by (simp add: length_rr_intervals)
  then have "Suc k < n" by (simp add: train_def)
  then have "train a p n ! Suc k - train a p n ! k = p" by (simp add: train_def)
  with k show "rr_intervals (train a p n) ! k = replicate (n - 1) (real p * 5) ! k"
    by (simp add: nth_rr_intervals train_def)
qed

lemma regular_train_classify:
  assumes "40 < p" and "2 \<le> n" and "windowSize \<le> a" and "a + (n - 1) * p + windowSize < len"
  shows "analyzeECGSignal (spike_signal (train a p n) len) = classify (12000 / real p) 0"
proof -
  have gap: "sorted_wrt (\<lambda>x y. x + 40 < y) (train a p n)" using assms(1) by (rule train_gap)
  have sorted: "sorted_wrt (<) (train a p n)" by (rule sorted_wrt_mono_rel [OF _ gap]) simp
  have ne: "train a p n \<noteq> []" using assms(2) by (simp add: train_def)
  have range: "\<forall>k \<in> set (train a p n). windowSize \<le> k \<and> k + windowSize < len"
    using assms(3,4) train_bounds by fastforce
  have thin: "thin_refractory (-100) (train a p n) = train a p n"
    using gap by (rule thin_refractory_id) simp
  have len: "\<not> length (train a p n) < 2" using assms(2) by (simp add: train_def)
  have "rr_stats (rr_intervals (train a p n)) = (60000 / (real p * 5), 0)"
    using assms(2) by (simp add: rr_intervals_train rr_stats_replicate)
  then show ?thesis
    using analyze_spike_signal [OF sorted ne range] thin len by simp
qed

section \<open>Properties of the analysis engine\<close>

text \<open>
  C1. A flat recording (range of the samples below 0.05) is classified as asystole with
  risk 100 and rate 0, whatever its length; the peak scan is not reached.
\<close>

theorem analyze_flat_asystole:
  assumes "data \<noteq> []" and "Max (set data) - Min (set data) < 0.05"
  shows "analyzeECGSignal data = asystole_result"
  using assms by (simp add: analyzeECGSignal_nonempty)

theorem analyze_flat_asystole_witness:
  "[1, 1.01 :: real] \<noteq> [] \<and> Max (set [1, 1.01 :: real]) - Min (set [1, 1.01 :: real]) < 0.05 \<and>
   rhythm (analyzeECGSignal [1, 1.01]) = ''Asystole / No Signal''"
  using analyze_flat_asystole [of "[1, 1.01]"] by (simp add: asystole_result_def)

text \<open>
  C2. A recording that is not flat but yields fewer than two accepted R-peaks is
  classified as a signal error with risk 0 and rate 0.
\<close>

theorem analyze_few_peaks_error:
  assumes "data \<noteq> []" and "\<not> Max (set data) - Min (set data) < 0.05"
    and "length (detect_peaks data (Min (set data) + (Max (set data) - Min (set data)) * 0.75)) < 2"
  shows "analyzeECGSignal data = signal_error_result"
  using assms by (simp add: analyzeECGSignal_nonempty Let_def)

theorem analyze_few_peaks_error_witness:
  "spike_signal [20] 45 \<noteq> [] \<and>
   \<not> Max (set (spike_signal [20] 45)) - Min (set (spike_signal [20] 45)) < 0.05 \<and>
   length (detect_peaks (spike_signal [20] 45)
     (Min (set (spike_signal [20] 45)) + (Max (set (spike_signal [20] 45)) - Min (set (spike_signal [20] 45))) * 0.75)) < 2 \<and>
   rhythm (analyzeECGSignal (spike_signal [20] 45)) = ''Signal Error''"
proof -
  have set: "set (spike_signal [20] 45) = {0, 1}" by (rule set_spike_signal) auto
  have "filter (peak_candidate (spike_signal [20] 45) (3 / 4)) [windowSize..<45 - windowSize] = [20]"
    by (rule spike_candidates) (auto simp: windowSize_def)
  then have peaks: "detect_peaks (spike_signal [20] 45) (3 / 4) = [20]"
    by (simp add: detect_peaks_def foldl_peak_step Let_def)
  have ne: "spike_signal [20] 45 \<noteq> []" using set by auto
  show ?thesis
    using analyze_few_peaks_error [of "spike_signal [20] 45"] set peaks ne
    by (simp add: signal_error_result_def)
qed

text \<open>
  C3. The accepted R-peaks are strictly increasing and any two consecutive ones lie more than 40 samples (200 ms at 200 Hz) apart: the refractory distance holds for every recording and threshold.
\<close>

theorem detect_peaks_spaced: "sorted_wrt (\<lambda>p q. p + 40 < q) (detect_peaks data thr)"
  using thin_refractory_gap by (simp add: detect_peaks_def foldl_peak_step Let_def)

text \<open>
  C4. For every recording the result is in range: the risk lies in [0, 100] and the rate in [0, 60000/205] BPM (the refractory distance bounds every R-R interval below by 205 ms).
\<close>

theorem analyze_result_bounds:
  "0 \<le> risk (analyzeECGSignal data) \<and> risk (analyzeECGSignal data) \<le> 100 \<and>
   0 \<le> hr (analyzeECGSignal data) \<and> hr (analyzeECGSignal data) \<le> 60000 / 205"
proof (cases "data = []")
  case True
  then show ?thesis by (simp add: analyzeECGSignal_def asystole_result_def)
next
  case ne: False
  define thr where "thr = Min (set data) + (Max (set data) - Min (set data)) * 0.75"
  let ?peaks = "detect_peaks data thr"
  show ?thesis
  proof (cases "Max (set data) - Min (set data) < 0.05 \<or> length ?peaks < 2")
    case True
    with ne show ?thesis
      by (auto simp: analyzeECGSignal_nonempty Let_def thr_def result_defs)
  next
    case many: False
    obtain bpm sdnn where st: "rr_stats (rr_intervals ?peaks) = (bpm, sdnn)" by fastforce
    have "0 < length (rr_intervals ?peaks)"
      using many by (simp add: length_rr_intervals)
    then have ne_iv: "rr_intervals ?peaks \<noteq> []" by simp
    have "sorted_wrt (\<lambda>p q. p + 40 < q) ?peaks"
      using thin_refractory_gap by (simp add: detect_peaks_def foldl_peak_step Let_def)
    then have ge: "\<And>v. v \<in> set (rr_intervals ?peaks) \<Longrightarrow> 205 \<le> v"
      using rr_intervals_ge by blast
    have "0 < fst (rr_stats (rr_intervals ?peaks)) \<and> fst (rr_stats (rr_intervals ?peaks)) \<le> 60000 / 205"
      by (rule rr_stats_bpm_bounds [OF ne_iv ge])
    then have "0 < bpm \<and> bpm \<le> 60000 / 205" using st by simp
    moreover have "analyzeECGSignal data = classify bpm sdnn"
      using many st unfolding analyzeECGSignal_nonempty [OF ne] Let_def thr_def [symmetric] by simp
    ultimately show ?thesis using classify_hr_risk [of bpm sdnn] by auto
  qed
qed

text \<open>
  C5. The classification by successive overrides equals the ordered rule table of the design note: noise above 180 BPM first, then irregularity (SDNN above 100 ms), then tachycardia, bradycardia, and normal sinus rhythm by default.
\<close>

theorem classify_matches_rule_table: "classify bpm sdnn = classify_table bpm sdnn"
  by (simp add: classify_def classify_table_def Let_def)

text \<open>
  C6. The fused scan loop computes the specification's two-stage detector: the candidates of the scan range (above the threshold, maximal in their window) thinned greedily by the refractory distance from the initial last-peak index -100.
\<close>

theorem detect_peaks_thin:
  "detect_peaks data thr =
     thin_refractory (-100) (filter (peak_candidate data thr) [windowSize..<length data - windowSize])"
  by (simp add: detect_peaks_def foldl_peak_step Let_def)

text \<open>
  C7. Every accepted R-peak lies inside the scan range [10, length - 10), exceeds the threshold and is a local maximum of its window.
\<close>

theorem detect_peaks_sound:
  "p \<in> set (detect_peaks data thr) \<Longrightarrow>
     windowSize \<le> p \<and> p + windowSize < length data \<and> thr < data ! p \<and> isMax data p"
  using set_thin_refractory by (fastforce simp: detect_peaks_def foldl_peak_step Let_def peak_candidate_def)

theorem detect_peaks_sound_witness:
  "20 \<in> set (detect_peaks (spike_signal [20] 45) (3 / 4)) \<and> windowSize \<le> 20 \<and> 20 + windowSize < 45"
proof -
  have "filter (peak_candidate (spike_signal [20] 45) (3 / 4)) [windowSize..<45 - windowSize] = [20]"
    by (rule spike_candidates) (auto simp: windowSize_def)
  then have peaks: "detect_peaks (spike_signal [20] 45) (3 / 4) = [20]"
    by (simp add: detect_peaks_def foldl_peak_step Let_def)
  show ?thesis
    using detect_peaks_sound [of 20 "spike_signal [20] 45" "3 / 4"] peaks by simp
qed

text \<open>
  C8. A recording of n >= 2 evenly spaced beats 150 samples (750 ms) apart is classified as normal sinus rhythm at exactly 80 BPM with risk 15 and no alert.
\<close>

theorem analyze_80bpm_normal:
  assumes "2 \<le> n" and "windowSize \<le> a" and "a + (n - 1) * 150 + windowSize < len"
  shows "hr (analyzeECGSignal (spike_signal (train a 150 n) len)) = 80 \<and>
         rhythm (analyzeECGSignal (spike_signal (train a 150 n) len)) = ''Normal Sinus'' \<and>
         risk (analyzeECGSignal (spike_signal (train a 150 n) len)) = 15 \<and>
         alert (analyzeECGSignal (spike_signal (train a 150 n) len)) = None"
  using regular_train_classify [of 150 n a len] assms by (simp add: classify_def Let_def)

theorem analyze_80bpm_normal_witness:
  "2 \<le> (3::nat) \<and> windowSize \<le> 10 \<and> 10 + (3 - 1) * 150 + windowSize < 330 \<and>
   rhythm (analyzeECGSignal (spike_signal (train 10 150 3) 330)) = ''Normal Sinus''"
  using analyze_80bpm_normal [of 3 10 330] by (simp add: windowSize_def)

text \<open>
  C9. The same recording with beats 100 samples (500 ms) apart is classified as sinus tachycardia at 120 BPM with risk 65, and the explanation prints the rounded rate.
\<close>

theorem analyze_120bpm_tachycardia:
  assumes "2 \<le> n" and "windowSize \<le> a" and "a + (n - 1) * 100 + windowSize < len"
  shows "hr (analyzeECGSignal (spike_signal (train a 100 n) len)) = 120 \<and>
         rhythm (analyzeECGSignal (spike_signal (train a 100 n) len)) = ''Sinus Tachycardia'' \<and>
         risk (analyzeECGSignal (spike_signal (train a 100 n) len)) = 65 \<and>
         explanation (analyzeECGSignal (spike_signal (train a 100 n) len)) =
           ''Heart rate elevated (120 BPM). R-R intervals consistent but shortened.''"
proof -
  have "int_to_string (js_round 120) = ''120''" by code_simp
  then show ?thesis
    using regular_train_classify [of 100 n a len] assms by (simp add: classify_def Let_def)
qed

theorem analyze_120bpm_tachycardia_witness:
  "2 \<le> (3::nat) \<and> windowSize \<le> 10 \<and> 10 + (3 - 1) * 100 + windowSize < 230 \<and>
   rhythm (analyzeECGSignal (spike_signal (train 10 100 3) 230)) = ''Sinus Tachycardia''"
  using analyze_120bpm_tachycardia [of 3 10 230] by (simp add: windowSize_def)

text \<open>
  C10. Beats alternating 41 and 250 samples apart (205 ms / 1250 ms, mean rate about 82 BPM, SDNN 522.5 ms) are classified as irregular with risk 85, overriding the normal rate tier.
\<close>

theorem analyze_irregular_example:
  "rhythm (analyzeECGSignal (spike_signal [10, 51, 301, 342, 592] 620)) = ''Arrhythmia / Irregular'' \<and>
   risk (analyzeECGSignal (spike_signal [10, 51, 301, 342, 592] 620)) = 85"
proof -
  have "analyzeECGSignal (spike_signal [10, 51, 301, 342, 592] 620) =
          (let peaks = thin_refractory (-100) [10, 51, 301, 342, 592] in
           if length peaks < 2 then signal_error_result
           else case rr_stats (rr_intervals peaks) of (bpm, sdnn) \<Rightarrow> classify bpm sdnn)"
    by (rule analyze_spike_signal) (auto simp: windowSize_def)
  also have "\<dots> = classify (fst (rr_stats [205, 1250, 205, 1250])) (snd (rr_stats [205, 1250, 205, 1250]))"
    by (simp add: case_prod_beta)
  finally have eq: "analyzeECGSignal (spike_signal [10, 51, 301, 342, 592] 620) = classify (fst (rr_stats [205, 1250, 205, 1250])) (snd (rr_stats [205, 1250, 205, 1250]))" .
  have b: "fst (rr_stats [205, 1250, 205, 1250]) = 60000 / 727.5"
    and s: "100 < snd (rr_stats [205, 1250, 205, 1250])"
    by (simp_all add: rr_stats_def Let_def less_sqrt_iff)
  show ?thesis
    unfolding eq b using classify_fields [of "60000 / 727.5" "snd (rr_stats [205, 1250, 205, 1250])"] s
    by simp
qed

text \<open>
  C11. Beats alternating 100 ms and 900 ms apart (20 and 180 samples), the specification\'s irregular example, are not seen as irregular: the refractory distance discards every second beat, the remaining intervals are a regular 1000 ms, and the verdict is normal sinus rhythm at 60 BPM.
\<close>

theorem analyze_100_900_ms_collapses:
  "analyzeECGSignal (spike_signal [10, 30, 210, 230, 410, 430] 450) = classify 60 0 \<and>
   rhythm (analyzeECGSignal (spike_signal [10, 30, 210, 230, 410, 430] 450)) = ''Normal Sinus''"
proof -
  have "analyzeECGSignal (spike_signal [10, 30, 210, 230, 410, 430] 450) =
          (let peaks = thin_refractory (-100) [10, 30, 210, 230, 410, 430] in
           if length peaks < 2 then signal_error_result
           else case rr_stats (rr_intervals peaks) of (bpm, sdnn) \<Rightarrow> classify bpm sdnn)"
    by (rule analyze_spike_signal) (auto simp: windowSize_def)
  moreover have "rr_stats (rr_intervals [10, 210, 410]) = (60, 0)"
    by (simp add: rr_stats_def Let_def)
  ultimately show ?thesis
    by (simp add: classify_def Let_def)
qed

text \<open>
  C12. Ties do not disqualify a peak: on a two-sample plateau the first sample is accepted (the window test is a strict comparison), and the second is removed only by the refractory distance.
\<close>

theorem plateau_first_sample_is_peak:
  "detect_peaks (spike_signal [20, 21] 45) (3 / 4) = [20]"
proof -
  have "filter (peak_candidate (spike_signal [20, 21] 45) (3 / 4)) [windowSize..<45 - windowSize] = [20, 21]"
    by (rule spike_candidates) (auto simp: windowSize_def)
  then show ?thesis by (simp add: detect_peaks_def foldl_peak_step Let_def)
qed

text \<open>
  C18. Every result of the analysis is one of the seven verdicts of the engine: its
  rhythm label, risk and alert form a row of the verdict table, whatever the input.
\<close>

theorem analysis_well_typed: "well_typed_analysis (analyzeECGSignal data)"
  by (auto simp: analyzeECGSignal_def classify_def Let_def well_typed_analysis_def verdicts_def result_defs
      split: list.split prod.split)

end
