(* ===== verification/SampleBuffer.thy ===== *)
theory SampleBuffer
  imports Prelude
begin

text \<open>
  The display window of \<open>App\<close> (\<open>displayData\<close>): the state updater passed to
  \<open>setDisplayData\<close> in \<open>updateSimulation\<close>, \<open>src/src/main.jsx\<close> lines 386--395.  Each
  animation frame appends the chunk of samples it consumed and keeps the last
  \<open>POINTS_PER_WINDOW = 600\<close> of them.  The lemmas show that the window never exceeds its
  capacity and that, after any sequence of chunks, it is exactly the last 600 samples of
  everything appended (first in, first out).
\<close>

section \<open>Definitions\<close>

text \<open>
  \<open>prev => { if (newPoints.length === 0) return prev; const newBuffer = [...prev,
  ...newPoints]; if (newBuffer.length > POINTS_PER_WINDOW) return
  newBuffer.slice(newBuffer.length - POINTS_PER_WINDOW); return newBuffer; }\<close>
\<close>

definition append_window :: "signal \<Rightarrow> signal \<Rightarrow> signal" where
  "append_window prev newPoints =
     (if newPoints = [] then prev
      else
        (let newBuffer = prev @ newPoints in
         if length newBuffer > POINTS_PER_WINDOW
         then drop (length newBuffer - POINTS_PER_WINDOW) newBuffer
         else newBuffer))"

text \<open>The window after a sequence of frames, each contributing one chunk.\<close>

definition window_after :: "signal \<Rightarrow> signal list \<Rightarrow> signal" where
  "window_after w chunks = foldl append_window w chunks"

section \<open>Lemmas\<close>

text \<open>On a window within capacity, one append is the abstract \<open>slice(-600)\<close> of the concatenation.\<close>

lemma append_window_slice_last:
  "length prev \<le> POINTS_PER_WINDOW \<Longrightarrow>
     append_window prev newPoints = slice_last POINTS_PER_WINDOW (prev @ newPoints)"
  by (auto simp: append_window_def slice_last_def Let_def)

lemma window_after_slice_last:
  "length w \<le> POINTS_PER_WINDOW \<Longrightarrow>
     window_after w chunks = slice_last POINTS_PER_WINDOW (w @ concat chunks)"
proof (induction chunks arbitrary: w rule: rev_induct)
  case Nil
  then show ?case by (simp add: window_after_def window_simps)
next
  case (snoc c chunks)
  then have "length (window_after w chunks) \<le> POINTS_PER_WINDOW"
    by (simp add: window_simps)
  with snoc show ?case
    by (simp add: window_after_def append_window_slice_last window_simps)
qed

section \<open>Properties of the display window\<close>

text \<open>
  Appending a chunk to a window within its capacity of 600 samples
  (\<open>SAMPLE_RATE * WINDOW_SIZE_SECONDS\<close>) leaves it within capacity, whatever the chunk.
\<close>

theorem append_window_bounded:
  assumes "length prev \<le> POINTS_PER_WINDOW"
  shows "length (append_window prev newPoints) \<le> POINTS_PER_WINDOW"
  using assms by (simp add: append_window_slice_last window_simps)

text \<open>
  C13. Starting from the empty window, after any sequence of frames the window holds
  exactly the last 600 samples of all samples appended, in order: the oldest samples are
  evicted first.
\<close>

theorem window_is_last_samples:
  "window_after [] chunks = slice_last POINTS_PER_WINDOW (concat chunks)"
  using window_after_slice_last [of "[]" chunks] by simp

end
