(* ===== verification/AlertManager.thy ===== *)
theory AlertManager
  imports Prelude
begin

text \<open>
  The alert list of \<open>App\<close> and its function \<open>triggerAlert\<close> (\<open>src/src/main.jsx\<close> lines
  326--335).  A trigger applies a state updater to \<open>alerts\<close> (suppress a duplicate
  message, otherwise keep the last two alerts and append the new one) and schedules a
  timeout that, 3000 ms later, removes every alert with that message.  The state is the
  alert list together with the pending timeouts; time is passed in explicitly as
  \<open>now\<close>, so that the application (theory \<open>Playback\<close>) drives both with one clock.

  The lemmas show that at most three alerts with pairwise distinct messages are ever
  active, that a duplicate trigger leaves the list unchanged, that a fourth message evicts
  the oldest, that every alert is gone at most 3000 ms after it was created, and that
  an alert can disappear earlier than that: the timeout of a suppressed duplicate
  trigger still runs and removes a later alert with the same message.
\<close>

section \<open>Definitions\<close>

text \<open>The \<open>type\<close> argument: \<open>'info'\<close>, \<open>'warning'\<close> or \<open>'critical'\<close> (the default).\<close>

datatype severity = Info | Warning | Critical

text \<open>An entry \<open>{ id, msg, type }\<close>; the id is \<open>Date.now()\<close> at creation.\<close>

record alert_entry =
  alert_id :: msec
  alert_msg :: string
  alert_type :: severity

text \<open>
  The alert list and the pending \<open>setTimeout\<close> callbacks, each as its due time and the
  message it filters out.
\<close>

record alert_state =
  alerts :: "alert_entry list"
  timers :: "(msec \<times> string) list"

definition ALERT_TTL :: msec where
  "ALERT_TTL = 3000"

definition alert_init :: alert_state where
  "alert_init = \<lparr>alerts = [], timers = []\<rparr>"

text \<open>The updater of lines 327--331.\<close>

definition add_alert :: "msec \<Rightarrow> string \<Rightarrow> severity \<Rightarrow> alert_entry list \<Rightarrow> alert_entry list" where
  "add_alert now msg type prev =
     (if list_ex (\<lambda>a. alert_msg a = msg) prev then prev
      else slice_last 2 prev @ [\<lparr>alert_id = now, alert_msg = msg, alert_type = type\<rparr>])"

text \<open>The updater of the timeout, line 333.\<close>

definition remove_alert :: "string \<Rightarrow> alert_entry list \<Rightarrow> alert_entry list" where
  "remove_alert msg prev = filter (\<lambda>a. alert_msg a \<noteq> msg) prev"

text \<open>\<open>triggerAlert(msg, type)\<close>: the update and, unconditionally, the timeout.\<close>

definition triggerAlert :: "msec \<Rightarrow> string \<Rightarrow> severity \<Rightarrow> alert_state \<Rightarrow> alert_state" where
  "triggerAlert now msg type st =
     st\<lparr>alerts := add_alert now msg type (alerts st),
       timers := timers st @ [(now + ALERT_TTL, msg)]\<rparr>"

text \<open>
  The event loop reaching time \<open>now\<close>: every timeout due by then has run (each removes its
  message; the removals commute, so their order does not matter) and is no longer pending.
\<close>

definition fire_alert_timers :: "msec \<Rightarrow> alert_state \<Rightarrow> alert_state" where
  "fire_alert_timers now st =
     st\<lparr>alerts := fold (\<lambda>(due, msg). remove_alert msg) (filter (\<lambda>(due, msg). due \<le> now) (timers st))
                      (alerts st),
       timers := filter (\<lambda>(due, msg). \<not> due \<le> now) (timers st)\<rparr>"

text \<open>
  The alert manager on its own: triggers at the current time and the passing of time,
  from the empty list at time 0.
\<close>

inductive alert_reach :: "msec \<Rightarrow> alert_state \<Rightarrow> bool" where
  init: "alert_reach 0 alert_init"
| trigger: "alert_reach now st \<Longrightarrow> alert_reach now (triggerAlert now msg type st)"
| wait: "alert_reach now st \<Longrightarrow> alert_reach (now + d) (fire_alert_timers (now + d) st)"

text \<open>
  The invariant: at most three alerts, distinct messages, each created in the past and
  with a pending timeout for its message due at most \<open>ALERT_TTL\<close> after its creation.
\<close>

definition alert_inv :: "msec \<Rightarrow> alert_state \<Rightarrow> bool" where
  "alert_inv now st \<longleftrightarrow>
     length (alerts st) \<le> 3 \<and> distinct (map alert_msg (alerts st)) \<and>
     list_all (\<lambda>a. alert_id a \<le> now \<and>
                    list_ex (\<lambda>(due, msg). msg = alert_msg a \<and> due \<le> alert_id a + ALERT_TTL) (timers st))
              (alerts st)"

section \<open>Lemmas\<close>

lemma set_remove_alert [simp]: "set (remove_alert msg as) = {a \<in> set as. alert_msg a \<noteq> msg}"
  by (auto simp: remove_alert_def)

lemma set_fold_remove_alert:
  "set (fold (\<lambda>(due, msg). remove_alert msg) ts as) = {a \<in> set as. alert_msg a \<notin> snd ` set ts}"
  by (induction ts arbitrary: as) auto

lemma length_fold_remove_alert: "length (fold (\<lambda>(due, msg). remove_alert msg) ts as) \<le> length as"
proof (induction ts arbitrary: as)
  case (Cons t ts)
  then show ?case
    by (cases t) (simp add: remove_alert_def, meson le_trans length_filter_le)
qed simp

lemma distinct_fold_remove_alert:
  "distinct (map alert_msg as) \<Longrightarrow> distinct (map alert_msg (fold (\<lambda>(due, msg). remove_alert msg) ts as))"
  by (induction ts arbitrary: as) (auto simp: remove_alert_def distinct_map_filter)

lemma alerts_fire [simp]:
  "set (alerts (fire_alert_timers now st)) =
     {a \<in> set (alerts st). \<forall>(due, msg) \<in> set (timers st). due \<le> now \<longrightarrow> msg \<noteq> alert_msg a}"
  by (auto simp: fire_alert_timers_def set_fold_remove_alert image_iff)

lemma length_add_alert: "length (add_alert now msg type as) \<le> max (length as) 3"
  by (auto simp: add_alert_def window_simps min_def max_def)

lemma distinct_add_alert:
  "distinct (map alert_msg as) \<Longrightarrow> distinct (map alert_msg (add_alert now msg type as))"
proof -
  assume d: "distinct (map alert_msg as)"
  have "distinct (map alert_msg (slice_last 2 as))"
    using d by (simp add: slice_last_def distinct_drop drop_map [symmetric])
  moreover have "set (slice_last 2 as) \<subseteq> set as"
    by (simp add: slice_last_def set_drop_subset)
  ultimately show ?thesis
    using d by (auto simp: add_alert_def list_ex_iff)
qed

lemma set_add_alert:
  "set (add_alert now msg type as) \<subseteq> insert \<lparr>alert_id = now, alert_msg = msg, alert_type = type\<rparr> (set as)"
  by (auto simp: add_alert_def slice_last_def dest: in_set_dropD)

lemma alert_inv_init: "alert_inv 0 alert_init"
  by (simp add: alert_inv_def alert_init_def)

lemma alert_inv_trigger: "alert_inv now st \<Longrightarrow> alert_inv now (triggerAlert now msg type st)"
  using set_add_alert [of now msg type "alerts st"] length_add_alert [of now msg type "alerts st"]
  by (fastforce simp: alert_inv_def triggerAlert_def list_all_iff list_ex_iff distinct_add_alert)

lemma alert_inv_fire: "alert_inv now st \<Longrightarrow> alert_inv (now + d) (fire_alert_timers (now + d) st)"
proof -
  assume inv: "alert_inv now st"
  let ?st' = "fire_alert_timers (now + d) st"
  have len: "length (alerts ?st') \<le> 3"
    using inv length_fold_remove_alert le_trans by (fastforce simp: alert_inv_def fire_alert_timers_def)
  have dist: "distinct (map alert_msg (alerts ?st'))"
    using inv by (simp add: alert_inv_def fire_alert_timers_def distinct_fold_remove_alert)
  have "list_all (\<lambda>a. alert_id a \<le> now + d \<and>
          list_ex (\<lambda>(due, msg). msg = alert_msg a \<and> due \<le> alert_id a + ALERT_TTL) (timers ?st'))
          (alerts ?st')"
  proof (unfold list_all_iff, intro ballI)
    fix a assume a: "a \<in> set (alerts ?st')"
    then have a0: "a \<in> set (alerts st)"
      and nd: "\<forall>(due, msg) \<in> set (timers st). due \<le> now + d \<longrightarrow> msg \<noteq> alert_msg a"
      by auto
    from inv a0 obtain due where t: "(due, alert_msg a) \<in> set (timers st)"
      and due: "due \<le> alert_id a + ALERT_TTL" and past: "alert_id a \<le> now"
      by (fastforce simp: alert_inv_def list_all_iff list_ex_iff)
    from t nd have "(due, alert_msg a) \<in> set (timers ?st')"
      by (auto simp: fire_alert_timers_def)
    with due past show "alert_id a \<le> now + d \<and>
        list_ex (\<lambda>(due, msg). msg = alert_msg a \<and> due \<le> alert_id a + ALERT_TTL) (timers ?st')"
      by (auto simp: list_ex_iff)
  qed
  with len dist show ?thesis by (simp add: alert_inv_def)
qed

lemma alert_reach_inv: "alert_reach now st \<Longrightarrow> alert_inv now st"
  by (induction rule: alert_reach.induct) (auto intro: alert_inv_init alert_inv_trigger alert_inv_fire)

section \<open>Properties of the alert manager\<close>

text \<open>
  C14. In every reachable state at most three alerts are active and no two active alerts
  carry the same message.
\<close>

theorem alert_capacity_distinct:
  assumes "alert_reach now st"
  shows "length (alerts st) \<le> 3 \<and> distinct (map alert_msg (alerts st))"
  using alert_reach_inv [OF assms] by (simp add: alert_inv_def)

theorem alert_capacity_distinct_witness:
  "alert_reach 0 (triggerAlert 0 ''b'' Info (triggerAlert 0 ''a'' Critical alert_init)) \<and>
   length (alerts (triggerAlert 0 ''b'' Info (triggerAlert 0 ''a'' Critical alert_init))) = 2 \<and>
   distinct (map alert_msg (alerts (triggerAlert 0 ''b'' Info (triggerAlert 0 ''a'' Critical alert_init))))"
proof -
  have r: "alert_reach 0 (triggerAlert 0 ''b'' Info (triggerAlert 0 ''a'' Critical alert_init))"
    by (intro alert_reach.trigger alert_reach.init)
  have "length (alerts (triggerAlert 0 ''b'' Info (triggerAlert 0 ''a'' Critical alert_init))) = 2"
    by (simp add: triggerAlert_def add_alert_def alert_init_def slice_last_def)
  with r show ?thesis using alert_capacity_distinct [OF r] by simp
qed

text \<open>
  Triggering a message that is already active leaves the alert list unchanged
  (the trigger is idempotent on the list).
\<close>

theorem trigger_duplicate_noop:
  assumes "list_ex (\<lambda>a. alert_msg a = msg) (alerts st)"
  shows "alerts (triggerAlert now msg type st) = alerts st"
  using assms by (simp add: triggerAlert_def add_alert_def)

text \<open>
  Triggering a fourth, new message while three alerts are active drops the oldest
  alert and appends the new one at the end.
\<close>

theorem trigger_evicts_oldest:
  assumes "length (alerts st) = 3" and "\<not> list_ex (\<lambda>a. alert_msg a = msg) (alerts st)"
  shows "alerts (triggerAlert now msg type st) =
           tl (alerts st) @ [\<lparr>alert_id = now, alert_msg = msg, alert_type = type\<rparr>]"
  using assms by (simp add: triggerAlert_def add_alert_def slice_last_def drop_Suc)

text \<open>
  C15. \<open>triggerAlert\<close> on every branch: an active message leaves the list unchanged; a
  new message is appended, evicting the oldest alert when three are active; in every
  case the removal timeout of the message is scheduled 3000 ms ahead.
\<close>

theorem triggerAlert_branches:
  "(list_ex (\<lambda>a. alert_msg a = msg) (alerts st) \<longrightarrow> alerts (triggerAlert now msg type st) = alerts st) \<and>
   (\<not> list_ex (\<lambda>a. alert_msg a = msg) (alerts st) \<longrightarrow> length (alerts st) < 3 \<longrightarrow>
      alerts (triggerAlert now msg type st) = alerts st @ [\<lparr>alert_id = now, alert_msg = msg, alert_type = type\<rparr>]) \<and>
   (\<not> list_ex (\<lambda>a. alert_msg a = msg) (alerts st) \<longrightarrow> length (alerts st) = 3 \<longrightarrow>
      alerts (triggerAlert now msg type st) = tl (alerts st) @ [\<lparr>alert_id = now, alert_msg = msg, alert_type = type\<rparr>]) \<and>
   timers (triggerAlert now msg type st) = timers st @ [(now + 3000, msg)]"
  using trigger_duplicate_noop [of msg st now type] trigger_evicts_oldest [of st msg now type]
  by (simp add: triggerAlert_def add_alert_def slice_last_def ALERT_TTL_def)

theorem triggerAlert_branches_witness:
  "alerts (triggerAlert 5 ''x'' Info \<lparr>alerts = [\<lparr>alert_id = 0, alert_msg = ''x'', alert_type = Critical\<rparr>], timers = []\<rparr>) =
     [\<lparr>alert_id = 0, alert_msg = ''x'', alert_type = Critical\<rparr>] \<and>
   alerts (triggerAlert 4 ''d'' Warning alert_init) = [\<lparr>alert_id = 4, alert_msg = ''d'', alert_type = Warning\<rparr>] \<and>
   map alert_msg (alerts (triggerAlert 4 ''d'' Warning
       \<lparr>alerts = [\<lparr>alert_id = 1, alert_msg = ''a'', alert_type = Info\<rparr>,
                  \<lparr>alert_id = 2, alert_msg = ''b'', alert_type = Info\<rparr>,
                  \<lparr>alert_id = 3, alert_msg = ''c'', alert_type = Info\<rparr>], timers = []\<rparr>)) = [''b'', ''c'', ''d'']"
proof -
  note D = triggerAlert_branches [of "''x''" "\<lparr>alerts = [\<lparr>alert_id = 0, alert_msg = ''x'', alert_type = Critical\<rparr>], timers = []\<rparr>" 5 Info]
  note N = triggerAlert_branches [of "''d''" alert_init 4 Warning]
  note E = triggerAlert_branches [of "''d''" "\<lparr>alerts = [\<lparr>alert_id = 1, alert_msg = ''a'', alert_type = Info\<rparr>,
                  \<lparr>alert_id = 2, alert_msg = ''b'', alert_type = Info\<rparr>,
                  \<lparr>alert_id = 3, alert_msg = ''c'', alert_type = Info\<rparr>], timers = []\<rparr>" 4 Warning]
  show ?thesis using D N E by (simp add: alert_init_def)
qed

text \<open>
  C16. Every alert is gone once 3000 ms have passed since it was created: whatever
  happened meanwhile, the timeout of some trigger of its message is due by then.
\<close>

theorem alert_gone_after_ttl:
  assumes "alert_reach now st" and "a \<in> set (alerts st)" and "alert_id a + ALERT_TTL \<le> now + d"
  shows "a \<notin> set (alerts (fire_alert_timers (now + d) st))"
proof -
  from alert_reach_inv [OF assms(1)] assms(2) obtain due where
    t: "(due, alert_msg a) \<in> set (timers st)" and due: "due \<le> alert_id a + ALERT_TTL"
    by (fastforce simp: alert_inv_def list_all_iff list_ex_iff)
  with assms(3) show ?thesis by fastforce
qed

theorem alert_gone_after_ttl_witness:
  "alert_reach 0 (triggerAlert 0 ''x'' Critical alert_init) \<and>
   \<lparr>alert_id = 0, alert_msg = ''x'', alert_type = Critical\<rparr> \<in> set (alerts (triggerAlert 0 ''x'' Critical alert_init)) \<and>
   alert_id \<lparr>alert_id = 0, alert_msg = ''x'', alert_type = Critical\<rparr> + ALERT_TTL \<le> 0 + 3000 \<and>
   alerts (fire_alert_timers (0 + 3000) (triggerAlert 0 ''x'' Critical alert_init)) = []"
proof -
  have r: "alert_reach 0 (triggerAlert 0 ''x'' Critical alert_init)"
    by (intro alert_reach.trigger alert_reach.init)
  have a: "alerts (triggerAlert 0 ''x'' Critical alert_init) = [\<lparr>alert_id = 0, alert_msg = ''x'', alert_type = Critical\<rparr>]"
    by (simp add: triggerAlert_def add_alert_def alert_init_def slice_last_def)
  have "\<lparr>alert_id = 0, alert_msg = ''x'', alert_type = Critical\<rparr> \<notin>
          set (alerts (fire_alert_timers (0 + 3000) (triggerAlert 0 ''x'' Critical alert_init)))"
    using alert_gone_after_ttl [OF r, of "\<lparr>alert_id = 0, alert_msg = ''x'', alert_type = Critical\<rparr>" 3000] a
    by (simp add: ALERT_TTL_def)
  moreover have "set (alerts (fire_alert_timers (0 + 3000) (triggerAlert 0 ''x'' Critical alert_init)))
      \<subseteq> {\<lparr>alert_id = 0, alert_msg = ''x'', alert_type = Critical\<rparr>}"
    using a by auto
  ultimately have "alerts (fire_alert_timers (0 + 3000) (triggerAlert 0 ''x'' Critical alert_init)) = []"
    by (metis empty_iff last_in_set singletonD subset_eq)
  with r a show ?thesis by (simp add: ALERT_TTL_def)
qed

text \<open>
  C17. An alert can disappear before its 3000 ms have passed.  A message triggered at
  0 ms and again at 2500 ms (suppressed as a duplicate, but its timeout is still
  scheduled for 5500 ms) expires at 3000 ms; triggered once more at 3500 ms it creates a
  new alert, which the stale 5500 ms timeout removes after only 2000 ms.
\<close>

theorem stale_timeout_removes_new_alert:
  "let s1 = triggerAlert 0 ''m'' Warning alert_init;
       s2 = triggerAlert 2500 ''m'' Warning (fire_alert_timers 2500 s1);
       s3 = triggerAlert 3500 ''m'' Warning (fire_alert_timers 3500 s2);
       s4 = fire_alert_timers 5500 s3
   in alert_reach 5500 s4 \<and>
      alerts s3 = [\<lparr>alert_id = 3500, alert_msg = ''m'', alert_type = Warning\<rparr>] \<and>
      alerts s4 = []"
proof -
  define s1 where "s1 = triggerAlert 0 ''m'' Warning alert_init"
  define s2 where "s2 = triggerAlert 2500 ''m'' Warning (fire_alert_timers 2500 s1)"
  define s3 where "s3 = triggerAlert 3500 ''m'' Warning (fire_alert_timers 3500 s2)"
  have r1: "alert_reach 0 s1" unfolding s1_def by (intro alert_reach.trigger alert_reach.init)
  have "alert_reach (0 + 2500) (fire_alert_timers (0 + 2500) s1)" using r1 by (rule alert_reach.wait)
  then have r2: "alert_reach 2500 s2" unfolding s2_def by (simp add: alert_reach.trigger)
  have "alert_reach (2500 + 1000) (fire_alert_timers (2500 + 1000) s2)" using r2 by (rule alert_reach.wait)
  then have r3: "alert_reach 3500 s3" unfolding s3_def by (simp add: alert_reach.trigger)
  have "alert_reach (3500 + 2000) (fire_alert_timers (3500 + 2000) s3)" using r3 by (rule alert_reach.wait)
  then have r4: "alert_reach 5500 (fire_alert_timers 5500 s3)" by simp
  have a3: "alerts s3 = [\<lparr>alert_id = 3500, alert_msg = ''m'', alert_type = Warning\<rparr>]"
    by (simp add: s1_def s2_def s3_def triggerAlert_def add_alert_def alert_init_def
        fire_alert_timers_def remove_alert_def slice_last_def ALERT_TTL_def)
  have a4: "alerts (fire_alert_timers 5500 s3) = []"
    by (simp add: s1_def s2_def s3_def triggerAlert_def add_alert_def alert_init_def
        fire_alert_timers_def remove_alert_def slice_last_def ALERT_TTL_def)
  show ?thesis
    unfolding Let_def s1_def [symmetric] s2_def [symmetric] s3_def [symmetric]
    using r4 a3 a4 by simp
qed

end
