(* ===== verification/CsvInput.thy ===== *)
theory CsvInput
  imports Prelude
begin

text \<open>
  The parsing step of \<open>handleFileUpload\<close> (\<open>src/src/main.jsx\<close> line 273):
  \<open>text.split('\n').map(r => parseFloat(r.split(',')[0])).filter(n => !isNaN(n))\<close>.
  \<open>js_split\<close> is \<open>String.prototype.split\<close> with a one-character separator and
  \<open>parse_float\<close> the global \<open>parseFloat\<close> on the finite decimal literals it accepts
  (leading white space, sign, digits, fraction, exponent; the longest valid prefix is
  read and the rest ignored).  \<open>None\<close> stands for \<open>NaN\<close>.  The literal
  \<open>Infinity\<close>, which \<open>parseFloat\<close> reads as an infinite number, is not a real and is
  outside the model (\<open>parse_float\<close> gives \<open>None\<close> for it).

  The lemmas are round trips: splitting and re-joining a text gives it back, parsing the
  decimal text of an integer gives the integer, and a CSV column of integers written one
  per line is read back as those samples.
\<close>

section \<open>Definitions\<close>

fun split_acc :: "char \<Rightarrow> string \<Rightarrow> string \<Rightarrow> string list" where
  "split_acc c acc [] = [rev acc]"
| "split_acc c acc (x # xs) = (if x = c then rev acc # split_acc c [] xs else split_acc c (x # acc) xs)"

definition js_split :: "char \<Rightarrow> string \<Rightarrow> string list" where
  "js_split c s = split_acc c [] s"

definition is_digit :: "char \<Rightarrow> bool" where
  "is_digit c \<longleftrightarrow> (let n = (of_char c :: nat) in 48 \<le> n \<and> n \<le> 57)"

text \<open>The white space \<open>parseFloat\<close> skips (the ASCII part of \<open>StrWhiteSpaceChar\<close>).\<close>

definition is_js_space :: "char \<Rightarrow> bool" where
  "is_js_space c \<longleftrightarrow> (of_char c :: nat) \<in> {9, 10, 11, 12, 13, 32}"

definition digits_val :: "string \<Rightarrow> nat" where
  "digits_val ds = foldl (\<lambda>acc d. 10 * acc + (of_char d - 48)) 0 ds"

text \<open>An optional sign.\<close>

definition parse_sign :: "string \<Rightarrow> real \<times> string" where
  "parse_sign s =
     (case s of
        c # t \<Rightarrow> if c = CHR ''-'' then (-1, t) else if c = CHR ''+'' then (1, t) else (1, s)
      | [] \<Rightarrow> (1, s))"

text \<open>An optional fraction \<open>.digits\<close> (the digits may be empty, as in \<open>7.\<close>).\<close>

definition parse_fraction :: "string \<Rightarrow> string \<times> string" where
  "parse_fraction s =
     (case s of
        c # t \<Rightarrow> if c = CHR ''.'' then (takeWhile is_digit t, dropWhile is_digit t) else ([], s)
      | [] \<Rightarrow> ([], s))"

text \<open>An optional exponent part \<open>e[+-]digits\<close>; an incomplete one is not part of the number.\<close>

definition exponent_part :: "string \<Rightarrow> int" where
  "exponent_part s =
     (case s of
        e # r \<Rightarrow>
          if e = CHR ''e'' \<or> e = CHR ''E'' then
            (let (sg, r') = (case r of
                               c # t \<Rightarrow> if c = CHR ''-'' then (-1, t)
                                        else if c = CHR ''+'' then (1, t) else (1 :: int, r)
                             | [] \<Rightarrow> (1, r));
                 ds = takeWhile is_digit r'
             in if ds = [] then 0 else sg * int (digits_val ds))
          else 0
      | [] \<Rightarrow> 0)"

definition parse_float :: "string \<Rightarrow> real option" where
  "parse_float s =
     (let (sg, s2) = parse_sign (dropWhile is_js_space s);
          ip = takeWhile is_digit s2;
          (fp, s4) = parse_fraction (dropWhile is_digit s2)
      in if ip = [] \<and> fp = [] then None
         else Some (sg * real (digits_val (ip @ fp)) / 10 ^ length fp * 10 powi exponent_part s4))"

text \<open>\<open>Array.prototype.join\<close> with a one-character separator, to state the round trips.\<close>

fun join_with :: "char \<Rightarrow> string list \<Rightarrow> string" where
  "join_with c [] = []"
| "join_with c [w] = w"
| "join_with c (w # ws) = w @ c # join_with c ws"

text \<open>The rows of the upload: first field of each line, unparsable lines dropped.\<close>

definition parse_rows :: "string \<Rightarrow> signal" where
  "parse_rows text =
     List.map_filter (\<lambda>r. parse_float (hd (js_split CHR '','' r))) (js_split CHR ''\<newline>'' text)"

section \<open>Lemmas\<close>

lemma split_acc_nonempty: "split_acc c acc s \<noteq> []"
  by (induction c acc s rule: split_acc.induct) auto

lemma join_split_acc: "join_with c (split_acc c acc s) = rev acc @ s"
proof (induction c acc s rule: split_acc.induct)
  case (2 c acc x xs)
  then show ?case
    using split_acc_nonempty [of c "[]" xs]
    by (cases "split_acc c [] xs") auto
qed simp

lemma split_acc_append: "c \<notin> set w \<Longrightarrow> split_acc c acc (w @ rest) = split_acc c (rev w @ acc) rest"
  by (induction w arbitrary: acc) auto

lemma split_acc_join:
  "ws \<noteq> [] \<Longrightarrow> \<forall>w \<in> set ws. c \<notin> set w \<Longrightarrow>
     split_acc c acc (join_with c ws) = (rev acc @ hd ws) # tl ws"
proof (induction c ws arbitrary: acc rule: join_with.induct)
  case (2 c w)
  then show ?case using split_acc_append [of c w acc "[]"] by simp
next
  case (3 c w v vs)
  then show ?case using split_acc_append [of c w acc] by simp
qed simp

lemma set_nat_digits_digit: "d \<in> set (nat_digits n) \<Longrightarrow> is_digit d"
proof (induction n rule: nat_digits.induct)
  case (1 n)
  have small: "is_digit (char_of (48 + k))" if "k < 10" for k :: nat
    using that by (simp add: is_digit_def)
  from "1.prems" show ?case
    by (subst (asm) nat_digits.simps) (auto split: if_splits intro: small "1.IH")
qed

lemma digits_val_snoc: "digits_val (ds @ [d]) = 10 * digits_val ds + (of_char d - 48)"
  by (simp add: digits_val_def)

lemma digits_val_nat_digits: "digits_val (nat_digits n) = n"
proof (induction n rule: nat_digits.induct)
  case (1 n)
  show ?case
  proof (cases "n < 10")
    case True
    then show ?thesis by (subst nat_digits.simps) (simp add: digits_val_def)
  next
    case False
    with "1.IH" have "digits_val (nat_digits (n div 10)) = n div 10" by simp
    with False show ?thesis by (subst nat_digits.simps) (simp add: digits_val_snoc)
  qed
qed

lemma parse_float_digits:
  assumes "ds = nat_digits n"
  shows "parse_float ds = Some (real n) \<and> parse_float (CHR ''-'' # ds) = Some (- real n)"
proof -
  have all: "\<forall>d \<in> set ds. is_digit d" using assms set_nat_digits_digit by blast
  then have tw: "takeWhile is_digit ds = ds" and dw: "dropWhile is_digit ds = []" by simp_all
  have "ds \<noteq> []" using assms nat_digits_nonempty by simp
  then obtain d r where dr: "ds = d # r" by (cases ds) auto
  have "is_digit d" using all dr by simp
  then have nd: "\<not> is_js_space d \<and> d \<noteq> CHR ''-'' \<and> d \<noteq> CHR ''+''"
    by (auto simp: is_digit_def is_js_space_def)
  then have sp: "dropWhile is_js_space ds = ds" and sg: "parse_sign ds = (1, ds)"
    using dr by (simp_all add: parse_sign_def)
  have "\<not> is_js_space CHR ''-''" by (simp add: is_js_space_def)
  then have sp': "dropWhile is_js_space (CHR ''-'' # ds) = CHR ''-'' # ds" by simp
  have fr: "parse_fraction [] = ([], [])" and ex: "exponent_part [] = 0"
    by (simp_all add: parse_fraction_def exponent_part_def)
  have sg': "parse_sign (CHR ''-'' # ds) = (-1, ds)" by (simp add: parse_sign_def)
  have dv: "digits_val ds = n" using assms digits_val_nat_digits by simp
  have ne: "ds \<noteq> []" using dr by simp
  show ?thesis
    using sp sp' ne by (simp add: parse_float_def Let_def tw dw sg sg' fr ex dv)
qed

lemma int_to_string_chars: "d \<in> set (int_to_string i) \<Longrightarrow> is_digit d \<or> d = CHR ''-''"
  by (auto simp: int_to_string_def split: if_splits dest: set_nat_digits_digit)

lemma split_acc_no_sep: "c \<notin> set w \<Longrightarrow> split_acc c [] w = [w]"
  using split_acc_append [of c w "[]" "[]"] by simp

lemma sep_not_in_int_to_string:
  "CHR ''\<newline>'' \<notin> set (int_to_string i) \<and> CHR '','' \<notin> set (int_to_string i)"
  using int_to_string_chars [of _ i] by (fastforce simp: is_digit_def)

text \<open>\<open>parseFloat\<close> reads back the decimal text of every integer, negative ones included.\<close>

lemma parse_float_int_to_string: "parse_float (int_to_string i) = Some (real_of_int i)"
proof (cases "i < 0")
  case True
  then show ?thesis using parse_float_digits [of "nat_digits (nat (- i))" "nat (- i)"]
    by (simp add: int_to_string_def)
next
  case False
  then show ?thesis using parse_float_digits [of "nat_digits (nat i)" "nat i"]
    by (simp add: int_to_string_def)
qed

text \<open>A text of lines without line breaks is parsed line by line.\<close>

lemma parse_rows_lines:
  "ls \<noteq> [] \<Longrightarrow> \<forall>l \<in> set ls. CHR ''\<newline>'' \<notin> set l \<Longrightarrow>
     parse_rows (join_with CHR ''\<newline>'' ls) =
       List.map_filter (\<lambda>r. parse_float (hd (js_split CHR '','' r))) ls"
  using split_acc_join [of ls "CHR ''\<newline>''" "[]"] by (cases ls) (auto simp: parse_rows_def js_split_def)

section \<open>Properties of the CSV input\<close>

text \<open>
  Splitting a text at a separator and joining the pieces with it gives the text back:
  \<open>split\<close> loses nothing but the separators.
\<close>

theorem split_join_roundtrip: "join_with c (js_split c s) = s"
  using join_split_acc [of c "[]" s] by (simp add: js_split_def)

text \<open>
  C19. A CSV column of integer samples written one per line is read back by the upload's
  parsing step as exactly those samples, in order.
\<close>

theorem parse_rows_roundtrip:
  "parse_rows (join_with CHR ''\<newline>'' (map int_to_string xs)) = map real_of_int xs"
proof (cases "xs = []")
  case True
  then show ?thesis
    by (simp add: parse_rows_def js_split_def parse_float_def Let_def parse_sign_def
        parse_fraction_def List.map_filter_def)
next
  case False
  have "\<forall>l \<in> set (map int_to_string xs). CHR ''\<newline>'' \<notin> set l"
    using sep_not_in_int_to_string by auto
  moreover have "\<And>i. parse_float (hd (js_split CHR '','' (int_to_string i))) = Some (real_of_int i)"
    using sep_not_in_int_to_string by (simp add: js_split_def split_acc_no_sep parse_float_int_to_string)
  ultimately show ?thesis
    using False by (simp add: parse_rows_lines List.map_filter_def comp_def)
qed

end
