(* ===== verification/Playback.thy ===== *)
theory Playback
  imports SignalAnalyzer SampleBuffer AlertManager CsvInput
begin

text \<open>
  The application state and its event handlers: the component \<open>App\<close> of
  \<open>src/src/main.jsx\<close> (state lines 139--163, handlers 259--335, animation loop
  337--440).  The state of all \<open>useState\<close> hooks and \<open>useRef\<close> refs is one record
  \<open>app\<close>; the host's pending callbacks are made explicit in it: whether an animation
  frame is requested (\<open>framePending\<close>), the file reads in flight, and the timeouts of
  the demo revert and of the report.  Each handler is a function on \<open>app\<close>; after it
  runs, \<open>commit\<close> applies the effect of lines 435--440, which cancels the requested
  frame and requests a new one while playing whenever one of its dependencies changed.
  \<open>app_step\<close> is one event of the host (a user action, a file read completing, an
  animation frame, or time passing) and \<open>app_reach\<close> the states reachable from the
  initial one.  \<open>Math.random()\<close> is an input of the frame event (\<open>frame_rng\<close>), so
  the randomised demo events are an interface the scheduler treats opaquely.
\<close>

section \<open>Definitions\<close>

subsection \<open>State\<close>

record app =
  isPlaying :: bool
  ecgData :: signal
  displayData :: signal
  uploadedFileName :: "string option"
  playbackProgress :: real
  activeModel :: string
  heartRate :: real
  currentRhythm :: string
  confidence :: real
  riskScore :: int
  aiExplanation :: string
  alertState :: alert_state
  isGeneratingReport :: bool
  analysisResult :: "analysis option"
  dataIndex :: nat
  simTime :: real
  clock :: msec
  framePending :: bool
  pendingReads :: "string list"
  revertTimers :: "(msec \<times> analysis option) list"
  reportTimers :: "msec list"

text \<open>
  The initial values of lines 139--163 (\<open>currentTime\<close> is never updated and is left
  out); the host has nothing pending.
\<close>

definition app_init :: app where
  "app_init =
     \<lparr>isPlaying = False, ecgData = [], displayData = [], uploadedFileName = None,
      playbackProgress = 0, activeModel = ''mit-bih'', heartRate = 0,
      currentRhythm = ''System Paused'', confidence = 0, riskScore = 0,
      aiExplanation = ''System in standby. Please upload ECG data to begin.'',
      alertState = alert_init, isGeneratingReport = False, analysisResult = None,
      dataIndex = 0, simTime = 0, clock = 0, framePending = False, pendingReads = [],
      revertTimers = [], reportTimers = []\<rparr>"

text \<open>\<open>triggerAlert\<close> at the current time.\<close>

definition app_alert :: "string \<Rightarrow> severity \<Rightarrow> app \<Rightarrow> app" where
  "app_alert msg type s = s\<lparr>alertState := triggerAlert (clock s) msg type (alertState s)\<rparr>"

text \<open>
  The effect of lines 435--440: when one of \<open>[isPlaying, ecgData, activeModel,
  analysisResult, alerts]\<close> changed, the cleanup cancels the requested frame and the
  effect requests a new one if playing.  Dependencies are compared by value.
\<close>

definition effect_deps :: "app \<Rightarrow> bool \<times> signal \<times> string \<times> analysis option \<times> alert_entry list" where
  "effect_deps s = (isPlaying s, ecgData s, activeModel s, analysisResult s, alerts (alertState s))"

definition commit :: "app \<Rightarrow> app \<Rightarrow> app" where
  "commit old new =
     (if effect_deps new \<noteq> effect_deps old then new\<lparr>framePending := isPlaying new\<rparr> else new)"

subsection \<open>Handlers\<close>

text \<open>
  \<open>handleFileUpload\<close>, synchronous part (lines 259--270, 290): no file selected does
  nothing; a name without the provenance tags raises a critical alert and changes nothing
  else; otherwise the name is stored and the read starts.
\<close>

definition handleFileUpload :: "(string \<times> string) option \<Rightarrow> app \<Rightarrow> app" where
  "handleFileUpload file s =
     (case file of
        None \<Rightarrow> s
      | Some (name, text) \<Rightarrow>
          (let fileNameLower = to_lower name in
           if \<not> js_includes fileNameLower ''mit'' \<and> \<not> js_includes fileNameLower ''physionet''
           then app_alert ''Invalid Source: Upload MIT or PhysioNet CSV'' Critical s
           else s\<lparr>uploadedFileName := Some name, pendingReads := pendingReads s @ [text]\<rparr>))"

text \<open>
  \<open>reader.onload\<close> (lines 271--289): parse, reset the cursor and the progress, analyse
  once and cache the result, show it, raise its alert, start playing.
\<close>

definition reader_onload :: "app \<Rightarrow> app" where
  "reader_onload s =
     (case pendingReads s of
        [] \<Rightarrow> s
      | text # rest \<Rightarrow>
          (let rows = parse_rows text;
               analysis = analyzeECGSignal rows;
               s1 = s\<lparr>pendingReads := rest, ecgData := rows, dataIndex := 0, playbackProgress := 0,
                      analysisResult := Some analysis, heartRate := hr analysis,
                      currentRhythm := rhythm analysis, riskScore := risk analysis,
                      aiExplanation := explanation analysis, confidence := 99.5\<rparr>;
               s2 = (case alert analysis of
                       None \<Rightarrow> s1
                     | Some msg \<Rightarrow> app_alert msg (if risk analysis > 70 then Critical else Warning) s1)
           in s2\<lparr>isPlaying := True\<rparr>))"

text \<open>
  \<open>togglePlay\<close> (lines 294--312): without a file, a critical alert; at or past the end,
  replay from the start with an empty window and the settled rhythm; otherwise flip
  \<open>isPlaying\<close>.
\<close>

definition togglePlay :: "app \<Rightarrow> app" where
  "togglePlay s =
     (if uploadedFileName s = None then app_alert ''Upload CSV Required'' Critical s
      else if length (ecgData s) \<le> dataIndex s then
        (let s1 = s\<lparr>dataIndex := 0, displayData := [], playbackProgress := 0, isPlaying := True\<rparr> in
         case analysisResult s of
           None \<Rightarrow> s1
         | Some a \<Rightarrow> s1\<lparr>currentRhythm := rhythm a, aiExplanation := explanation a\<rparr>)
      else s\<lparr>isPlaying := \<not> isPlaying s\<rparr>)"

text \<open>\<open>generateReport\<close> (lines 314--324); \<open>window.print()\<close> is external.\<close>

definition generateReport :: "app \<Rightarrow> app" where
  "generateReport s =
     (if uploadedFileName s = None then app_alert ''No Data to Report'' Warning s
      else s\<lparr>isGeneratingReport := True, reportTimers := reportTimers s @ [clock s + 1500]\<rparr>)"

subsection \<open>Demo events\<close>

text \<open>The values \<open>Math.random()\<close> returns during one frame, in the order they are drawn.\<close>

record frame_rng =
  jitter_rand :: real
  event_rand :: real
  pick_rand :: real

text \<open>\<open>Math.random()\<close> returns a number in [0, 1).\<close>

definition valid_rng :: "frame_rng \<Rightarrow> bool" where
  "valid_rng rng \<longleftrightarrow>
     0 \<le> jitter_rand rng \<and> jitter_rand rng < 1 \<and> 0 \<le> event_rand rng \<and> event_rand rng < 1 \<and>
     0 \<le> pick_rand rng \<and> pick_rand rng < 1"

record demo_event =
  ev_rhythm :: string
  ev_score :: int
  ev_expl :: string
  ev_alert :: string
  ev_type :: severity

definition anomalies :: "demo_event list" where
  "anomalies =
     [\<lparr>ev_rhythm = ''Ventricular Ectopy'', ev_score = 65,
       ev_expl = ''Real-time analysis detected isolated PVC.'', ev_alert = ''PVC Detected'', ev_type = Warning\<rparr>,
      \<lparr>ev_rhythm = ''Signal Artifact'', ev_score = 20,
       ev_expl = ''Motion artifact detected in signal stream.'', ev_alert = ''Signal Noise'', ev_type = Info\<rparr>,
      \<lparr>ev_rhythm = ''T-Wave Alternans'', ev_score = 55,
       ev_expl = ''Beat-to-beat variation in repolarization.'', ev_alert = ''Repolarization Risk'', ev_type = Warning\<rparr>]"

definition criticalEvent :: demo_event where
  "criticalEvent =
     \<lparr>ev_rhythm = ''Non-Sustained V-Tach'', ev_score = 88,
      ev_expl = ''CRITICAL: Run of 3+ ventricular beats > 100bpm detected.'',
      ev_alert = ''V-Tach Warning'', ev_type = Critical\<rparr>"

definition show_event :: "demo_event \<Rightarrow> app \<Rightarrow> app" where
  "show_event e s =
     app_alert (ev_alert e) (ev_type e)
       (s\<lparr>currentRhythm := ev_rhythm e, riskScore := ev_score e, aiExplanation := ev_expl e\<rparr>)"

text \<open>
  \<open>injectDemoEvents\<close> (lines 402--433).  The revert timeout captures the frame's
  \<open>analysisResult\<close>; its \<open>isPlaying\<close> test reads the frame's closure, which is always
  \<open>true\<close> in a running frame, so it is not a test at fire time.
\<close>

definition injectDemoEvents :: "frame_rng \<Rightarrow> app \<Rightarrow> app" where
  "injectDemoEvents rng s =
     (let rand = event_rand rng in
      if rand > 0.6 then
        (let s1 = (if rand > 0.92 then show_event criticalEvent s
                   else show_event (anomalies ! nat \<lfloor>pick_rand rng * 3\<rfloor>) s)
         in s1\<lparr>revertTimers := revertTimers s1 @ [(clock s + 4000, analysisResult s)]\<rparr>)
      else s)"

text \<open>The revert callback (lines 425--431).\<close>

definition revert_event :: "analysis option \<Rightarrow> app \<Rightarrow> app" where
  "revert_event captured s =
     (case captured of
        None \<Rightarrow> s
      | Some a \<Rightarrow> s\<lparr>currentRhythm := rhythm a, riskScore := risk a, aiExplanation := explanation a\<rparr>)"

subsection \<open>The animation frame\<close>

text \<open>The batch loop of lines 363--368, \<open>k\<close> iterations left.\<close>

fun consume_loop :: "nat \<Rightarrow> signal \<Rightarrow> nat \<Rightarrow> signal \<Rightarrow> signal \<times> nat" where
  "consume_loop 0 data idx pts = (pts, idx)"
| "consume_loop (Suc k) data idx pts =
     (if idx < length data then consume_loop k data (Suc idx) (pts @ [data ! idx])
      else consume_loop k data idx pts)"

text \<open>
  The completion branch of lines 348--360: stop, progress 100, restore the cached result
  with the terminal label, announce the end of the stream.
\<close>

definition complete_playback :: "app \<Rightarrow> app" where
  "complete_playback s =
     (let s1 = s\<lparr>isPlaying := False, playbackProgress := 100\<rparr> in
      case analysisResult s of
        None \<Rightarrow> s1
      | Some a \<Rightarrow>
          app_alert ''Signal Stream Ended'' Info
            (s1\<lparr>heartRate := hr a, riskScore := risk a, confidence := 100,
                currentRhythm := ''Analysis Complete'',
                aiExplanation := ''File processing complete. Final Classification: ''
                  @ rhythm a @ ''. '' @ explanation a\<rparr>))"

text \<open>The cosmetic rate jitter of lines 375--377, at cursor \<open>idx\<close>.\<close>

definition jitter_rate :: "frame_rng \<Rightarrow> nat \<Rightarrow> app \<Rightarrow> app" where
  "jitter_rate rng idx s =
     (case analysisResult s of
        Some a \<Rightarrow> if hr a > 0 \<and> idx mod 20 = 0 then s\<lparr>heartRate := hr a + (jitter_rand rng - 0.5) * 2\<rparr> else s
      | None \<Rightarrow> s)"

text \<open>
  The consuming branch of lines 362--382: the batch, the progress, the jitter and the
  demo events; the chunk is returned for the window.
\<close>

definition advance_playback :: "frame_rng \<Rightarrow> app \<Rightarrow> signal \<times> app" where
  "advance_playback rng s =
     (case consume_loop SAMPLES_PER_FRAME (ecgData s) (dataIndex s) [] of
        (newPoints, idx) \<Rightarrow>
          (let s1 = s\<lparr>dataIndex := idx,
                       playbackProgress := min 100 (real idx / real (length (ecgData s)) * 100)\<rparr>;
               s2 = jitter_rate rng idx s1;
               s3 = (if idx mod 300 = 0 then injectDemoEvents rng s2 else s2)
           in (newPoints, s3)))"

text \<open>
  \<open>updateSimulation\<close> (lines 339--400).  The clock of the simulation advances; completion
  is tested before any sample is consumed and returns without requesting another frame;
  otherwise the frame consumes up to four samples, appends them to the window
  (lines 386--395) and requests the next frame while playing (lines 397--399).
\<close>

definition updateSimulation :: "frame_rng \<Rightarrow> app \<Rightarrow> app" where
  "updateSimulation rng s =
     (let s0 = s\<lparr>simTime := simTime s + 1 / 60\<rparr> in
      if uploadedFileName s \<noteq> None \<and> ecgData s \<noteq> [] then
        (if length (ecgData s) \<le> dataIndex s then (complete_playback s0)\<lparr>framePending := False\<rparr>
         else
           (case advance_playback rng s0 of
              (newPoints, s3) \<Rightarrow>
                s3\<lparr>displayData := append_window (displayData s3) newPoints, framePending := isPlaying s\<rparr>))
      else s0\<lparr>displayData := append_window (displayData s0) [], framePending := isPlaying s\<rparr>)"

subsection \<open>Time and events\<close>

text \<open>
  Time passing by \<open>d\<close> ms: every alert, revert and report timeout due by then runs.  The
  three kinds write disjoint parts of the state; the reverts run in the order they were
  scheduled, which is their due order.
\<close>

definition fire_timers :: "msec \<Rightarrow> app \<Rightarrow> app" where
  "fire_timers now s =
     (let dueReverts = filter (\<lambda>(t, a). t \<le> now) (revertTimers s);
          s1 = fold (\<lambda>(t, a). revert_event a) dueReverts s
      in s1\<lparr>clock := now,
            alertState := fire_alert_timers now (alertState s),
            revertTimers := filter (\<lambda>(t, a). \<not> t \<le> now) (revertTimers s),
            isGeneratingReport := (if list_ex (\<lambda>t. t \<le> now) (reportTimers s) then False
                                   else isGeneratingReport s),
            reportTimers := filter (\<lambda>t. \<not> t \<le> now) (reportTimers s)\<rparr>)"

datatype event =
    Upload "(string \<times> string) option"
  | ReaderLoad
  | TogglePlay
  | GenerateReport
  | SelectModel string
  | Frame frame_rng
  | Wait msec

text \<open>
  One event of the host: the controls of lines 550, 557, 564 and 684, a completed read,
  an animation frame (it runs only when one is requested), time passing.  The report
  button is \<open>disabled={isGeneratingReport || !uploadedFileName}\<close> (line 566), so a
  click on it then does nothing.
\<close>

fun app_step :: "app \<Rightarrow> event \<Rightarrow> app" where
  "app_step s (Upload f) = commit s (handleFileUpload f s)"
| "app_step s ReaderLoad = commit s (reader_onload s)"
| "app_step s TogglePlay = commit s (togglePlay s)"
| "app_step s GenerateReport =
     (if isGeneratingReport s \<or> uploadedFileName s = None then s else commit s (generateReport s))"
| "app_step s (SelectModel m) = commit s (s\<lparr>activeModel := m\<rparr>)"
| "app_step s (Frame rng) = (if framePending s then commit s (updateSimulation rng s) else s)"
| "app_step s (Wait d) = commit s (fire_timers (clock s + d) s)"

definition app_run :: "app \<Rightarrow> event list \<Rightarrow> app" where
  "app_run s evs = foldl app_step s evs"

text \<open>
  \<open>ModelSelector\<close>'s models (lines 112--116).  Its buttons call \<open>onSelect(m.id)\<close>
  (line 123), and \<open>onSelect\<close> is \<open>setActiveModel\<close> (line 684), its only caller.
\<close>

record model_entry =
  model_id :: string
  model_name :: string
  model_desc :: string

definition models :: "model_entry list" where
  "models =
     [\<lparr>model_id = ''mit-bih'', model_name = ''MIT-BIH'', model_desc = ''Arrhythmia''\<rparr>,
      \<lparr>model_id = ''ptb'', model_name = ''PTB-XL'', model_desc = ''Infarction''\<rparr>,
      \<lparr>model_id = ''physionet'', model_name = ''PhysioNet'', model_desc = ''AFib/Noise''\<rparr>]"

text \<open>
  The events the host can produce: a frame's random draws come from \<open>Math.random()\<close>,
  a selected model is the id of one of the selector's buttons.
\<close>

fun valid_event :: "event \<Rightarrow> bool" where
  "valid_event (Frame rng) = valid_rng rng"
| "valid_event (SelectModel m) = (m \<in> set (map model_id models))"
| "valid_event _ = True"

inductive app_reach :: "app \<Rightarrow> bool" where
  init: "app_reach app_init"
| step: "app_reach s \<Longrightarrow> valid_event e \<Longrightarrow> app_reach (app_step s e)"

subsection \<open>Invariant\<close>

text \<open>
  The scheduler's invariant: the cursor within the recording, the progress within
  [0, 100], the window within its capacity, the alert manager's invariant at the current
  time, and a frame requested exactly while playing (no stale frame after a pause, the
  completion or a replay).
\<close>

definition playback_inv :: "app \<Rightarrow> bool" where
  "playback_inv s \<longleftrightarrow>
     dataIndex s \<le> length (ecgData s) \<and> 0 \<le> playbackProgress s \<and> playbackProgress s \<le> 100 \<and>
     length (displayData s) \<le> POINTS_PER_WINDOW \<and> alert_inv (clock s) (alertState s)"

definition app_inv :: "app \<Rightarrow> bool" where
  "app_inv s \<longleftrightarrow> playback_inv s \<and> (framePending s \<longleftrightarrow> isPlaying s)"

text \<open>What each handler must show: the core invariant, and frames in step with playing.\<close>

definition keeps_inv :: "app \<Rightarrow> app \<Rightarrow> bool" where
  "keeps_inv old new \<longleftrightarrow>
     playback_inv new \<and> ((framePending new \<longleftrightarrow> isPlaying new) \<or> isPlaying new \<noteq> isPlaying old)"

section \<open>Lemmas\<close>

lemma consume_loop_eq:
  "idx \<le> length data \<Longrightarrow>
     consume_loop k data idx pts =
       (pts @ take (min k (length data - idx)) (drop idx data), idx + min k (length data - idx))"
proof (induction k arbitrary: idx pts)
  case 0
  then show ?case by simp
next
  case (Suc k)
  show ?case
  proof (cases "idx < length data")
    case True
    then have d: "drop idx data = data ! idx # drop (Suc idx) data" by (simp add: Cons_nth_drop_Suc)
    have m: "min (Suc k) (length data - idx) = Suc (min k (length data - Suc idx))" using True by simp
    show ?thesis using True Suc.IH [of "Suc idx" "pts @ [data ! idx]"] by (simp add: d m)
  next
    case False
    with Suc.prems have "idx = length data" by simp
    then show ?thesis using Suc.IH [of idx pts] by simp
  qed
qed

lemma app_inv_playing: "app_inv s \<Longrightarrow> framePending s \<Longrightarrow> isPlaying s"
  by (simp add: app_inv_def)

lemma commit_sync:
  "(framePending new \<longleftrightarrow> isPlaying new) \<or> isPlaying new \<noteq> isPlaying old \<Longrightarrow>
     framePending (commit old new) \<longleftrightarrow> isPlaying (commit old new)"
  by (auto simp: commit_def effect_deps_def)

lemma commit_fields [simp]:
  "isPlaying (commit old new) = isPlaying new" "ecgData (commit old new) = ecgData new"
  "displayData (commit old new) = displayData new" "dataIndex (commit old new) = dataIndex new"
  "playbackProgress (commit old new) = playbackProgress new" "alertState (commit old new) = alertState new"
  "clock (commit old new) = clock new" "uploadedFileName (commit old new) = uploadedFileName new"
  "analysisResult (commit old new) = analysisResult new" "currentRhythm (commit old new) = currentRhythm new"
  "revertTimers (commit old new) = revertTimers new" "pendingReads (commit old new) = pendingReads new"
  "riskScore (commit old new) = riskScore new" "aiExplanation (commit old new) = aiExplanation new"
  "heartRate (commit old new) = heartRate new" "confidence (commit old new) = confidence new"
  "activeModel (commit old new) = activeModel new"
  "isGeneratingReport (commit old new) = isGeneratingReport new"
  "reportTimers (commit old new) = reportTimers new"
  by (simp_all add: commit_def)

lemma app_alert_fields [simp]:
  "isPlaying (app_alert m t s) = isPlaying s" "ecgData (app_alert m t s) = ecgData s"
  "displayData (app_alert m t s) = displayData s" "dataIndex (app_alert m t s) = dataIndex s"
  "playbackProgress (app_alert m t s) = playbackProgress s" "clock (app_alert m t s) = clock s"
  "framePending (app_alert m t s) = framePending s" "uploadedFileName (app_alert m t s) = uploadedFileName s"
  "analysisResult (app_alert m t s) = analysisResult s" "currentRhythm (app_alert m t s) = currentRhythm s"
  "revertTimers (app_alert m t s) = revertTimers s" "pendingReads (app_alert m t s) = pendingReads s"
  "alertState (app_alert m t s) = triggerAlert (clock s) m t (alertState s)"
  by (simp_all add: app_alert_def)

lemma app_inv_init: "app_inv app_init"
  by (simp add: app_inv_def playback_inv_def app_init_def alert_inv_init)

lemma app_inv_commit: "keeps_inv old new \<Longrightarrow> app_inv (commit old new)"
proof -
  assume k: "keeps_inv old new"
  then have "framePending (commit old new) \<longleftrightarrow> isPlaying (commit old new)"
    by (intro commit_sync) (simp add: keeps_inv_def)
  moreover have "playback_inv (commit old new)"
    using k by (simp add: keeps_inv_def playback_inv_def)
  ultimately show ?thesis by (simp add: app_inv_def)
qed

lemma playback_inv_alert: "playback_inv s \<Longrightarrow> playback_inv (app_alert m t s)"
  by (simp add: playback_inv_def alert_inv_trigger)

lemma keeps_handleFileUpload: "app_inv s \<Longrightarrow> keeps_inv s (handleFileUpload f s)"
  by (auto simp: keeps_inv_def app_inv_def handleFileUpload_def playback_inv_alert Let_def
      split: option.splits) (auto simp: playback_inv_def)

lemma keeps_reader_onload: "app_inv s \<Longrightarrow> keeps_inv s (reader_onload s)"
  by (auto simp: keeps_inv_def app_inv_def reader_onload_def Let_def playback_inv_def alert_inv_trigger
      split: list.splits option.splits)

lemma keeps_togglePlay: "app_inv s \<Longrightarrow> keeps_inv s (togglePlay s)"
  by (auto simp: keeps_inv_def app_inv_def togglePlay_def Let_def playback_inv_def alert_inv_trigger
      split: option.splits)

lemma keeps_generateReport: "app_inv s \<Longrightarrow> keeps_inv s (generateReport s)"
  by (auto simp: keeps_inv_def app_inv_def generateReport_def playback_inv_def alert_inv_trigger)

lemma keeps_selectModel: "app_inv s \<Longrightarrow> keeps_inv s (s\<lparr>activeModel := m\<rparr>)"
  by (simp add: keeps_inv_def app_inv_def playback_inv_def)


lemma revert_event_fields [simp]:
  "isPlaying (revert_event c s) = isPlaying s" "framePending (revert_event c s) = framePending s"
  "dataIndex (revert_event c s) = dataIndex s" "ecgData (revert_event c s) = ecgData s"
  "displayData (revert_event c s) = displayData s" "playbackProgress (revert_event c s) = playbackProgress s"
  "uploadedFileName (revert_event c s) = uploadedFileName s"
  "analysisResult (revert_event c s) = analysisResult s" "pendingReads (revert_event c s) = pendingReads s"
  "activeModel (app_alert m t s) = activeModel s" "confidence (app_alert m t s) = confidence s"
  "isGeneratingReport (app_alert m t s) = isGeneratingReport s" "reportTimers (app_alert m t s) = reportTimers s"
  "activeModel (revert_event c s) = activeModel s" "confidence (revert_event c s) = confidence s"
  by (simp_all add: revert_event_def app_alert_def split: option.split)

lemma revert_fold_fields:
  "isPlaying (fold (\<lambda>(t, a). revert_event a) ts s) = isPlaying s \<and>
   framePending (fold (\<lambda>(t, a). revert_event a) ts s) = framePending s \<and>
   dataIndex (fold (\<lambda>(t, a). revert_event a) ts s) = dataIndex s \<and>
   ecgData (fold (\<lambda>(t, a). revert_event a) ts s) = ecgData s \<and>
   displayData (fold (\<lambda>(t, a). revert_event a) ts s) = displayData s \<and>
   playbackProgress (fold (\<lambda>(t, a). revert_event a) ts s) = playbackProgress s \<and>
   uploadedFileName (fold (\<lambda>(t, a). revert_event a) ts s) = uploadedFileName s \<and>
   analysisResult (fold (\<lambda>(t, a). revert_event a) ts s) = analysisResult s \<and>
   pendingReads (fold (\<lambda>(t, a). revert_event a) ts s) = pendingReads s \<and>
   activeModel (fold (\<lambda>(t, a). revert_event a) ts s) = activeModel s \<and>
   confidence (fold (\<lambda>(t, a). revert_event a) ts s) = confidence s"
  by (induction ts arbitrary: s) (simp_all add: split_beta)

lemma keeps_fire_timers: "app_inv s \<Longrightarrow> keeps_inv s (fire_timers (clock s + d) s)"
  using revert_fold_fields [of "filter (\<lambda>(t, a). t \<le> clock s + d) (revertTimers s)" s]
  by (simp add: keeps_inv_def app_inv_def playback_inv_def fire_timers_def Let_def alert_inv_fire)

lemma show_event_fields [simp]:
  "isPlaying (show_event e s) = isPlaying s" "framePending (show_event e s) = framePending s"
  "dataIndex (show_event e s) = dataIndex s" "ecgData (show_event e s) = ecgData s"
  "displayData (show_event e s) = displayData s" "playbackProgress (show_event e s) = playbackProgress s"
  "clock (show_event e s) = clock s" "uploadedFileName (show_event e s) = uploadedFileName s"
  "analysisResult (show_event e s) = analysisResult s" "pendingReads (show_event e s) = pendingReads s"
  "alertState (show_event e s) = triggerAlert (clock s) (ev_alert e) (ev_type e) (alertState s)"
  "activeModel (show_event e s) = activeModel s" "confidence (show_event e s) = confidence s"
  "isGeneratingReport (show_event e s) = isGeneratingReport s" "reportTimers (show_event e s) = reportTimers s"
  by (simp_all add: show_event_def)

lemma injectDemoEvents_fields [simp]:
  "isPlaying (injectDemoEvents rng s) = isPlaying s" "framePending (injectDemoEvents rng s) = framePending s"
  "dataIndex (injectDemoEvents rng s) = dataIndex s" "ecgData (injectDemoEvents rng s) = ecgData s"
  "displayData (injectDemoEvents rng s) = displayData s"
  "playbackProgress (injectDemoEvents rng s) = playbackProgress s"
  "clock (injectDemoEvents rng s) = clock s" "uploadedFileName (injectDemoEvents rng s) = uploadedFileName s"
  "analysisResult (injectDemoEvents rng s) = analysisResult s"
  "pendingReads (injectDemoEvents rng s) = pendingReads s"
  "activeModel (injectDemoEvents rng s) = activeModel s" "confidence (injectDemoEvents rng s) = confidence s"
  "isGeneratingReport (injectDemoEvents rng s) = isGeneratingReport s"
  "reportTimers (injectDemoEvents rng s) = reportTimers s"
  by (simp_all add: injectDemoEvents_def Let_def)

lemma injectDemoEvents_alert_inv:
  "alert_inv c (alertState s) \<Longrightarrow> clock s = c \<Longrightarrow> alert_inv c (alertState (injectDemoEvents rng s))"
  by (auto simp: injectDemoEvents_def Let_def alert_inv_trigger)

lemma complete_playback_fields [simp]:
  "isPlaying (complete_playback s) = False" "dataIndex (complete_playback s) = dataIndex s"
  "ecgData (complete_playback s) = ecgData s" "displayData (complete_playback s) = displayData s"
  "playbackProgress (complete_playback s) = 100" "clock (complete_playback s) = clock s"
  "uploadedFileName (complete_playback s) = uploadedFileName s"
  "analysisResult (complete_playback s) = analysisResult s"
  "revertTimers (complete_playback s) = revertTimers s" "pendingReads (complete_playback s) = pendingReads s"
  "activeModel (complete_playback s) = activeModel s"
  "isGeneratingReport (complete_playback s) = isGeneratingReport s"
  "reportTimers (complete_playback s) = reportTimers s"
  by (simp_all add: complete_playback_def Let_def split: option.splits)

lemma complete_playback_alert_inv:
  "alert_inv (clock s) (alertState s) \<Longrightarrow> alert_inv (clock s) (alertState (complete_playback s))"
  by (simp add: complete_playback_def Let_def alert_inv_trigger split: option.splits)

lemma jitter_rate_fields [simp]:
  "isPlaying (jitter_rate rng i s) = isPlaying s" "framePending (jitter_rate rng i s) = framePending s"
  "dataIndex (jitter_rate rng i s) = dataIndex s" "ecgData (jitter_rate rng i s) = ecgData s"
  "displayData (jitter_rate rng i s) = displayData s"
  "playbackProgress (jitter_rate rng i s) = playbackProgress s" "clock (jitter_rate rng i s) = clock s"
  "uploadedFileName (jitter_rate rng i s) = uploadedFileName s"
  "analysisResult (jitter_rate rng i s) = analysisResult s" "alertState (jitter_rate rng i s) = alertState s"
  "revertTimers (jitter_rate rng i s) = revertTimers s" "currentRhythm (jitter_rate rng i s) = currentRhythm s"
  "pendingReads (jitter_rate rng i s) = pendingReads s" "riskScore (jitter_rate rng i s) = riskScore s"
  "activeModel (jitter_rate rng i s) = activeModel s" "confidence (jitter_rate rng i s) = confidence s"
  "isGeneratingReport (jitter_rate rng i s) = isGeneratingReport s"
  "reportTimers (jitter_rate rng i s) = reportTimers s"
  by (simp_all add: jitter_rate_def split: option.splits)

lemma advance_playback_eq:
  assumes "dataIndex s \<le> length (ecgData s)"
  defines "k \<equiv> min SAMPLES_PER_FRAME (length (ecgData s) - dataIndex s)"
  shows "fst (advance_playback rng s) = take k (drop (dataIndex s) (ecgData s)) \<and>
         dataIndex (snd (advance_playback rng s)) = dataIndex s + k \<and>
         playbackProgress (snd (advance_playback rng s)) =
           min 100 (real (dataIndex s + k) / real (length (ecgData s)) * 100) \<and>
         isPlaying (snd (advance_playback rng s)) = isPlaying s \<and>
         ecgData (snd (advance_playback rng s)) = ecgData s \<and>
         displayData (snd (advance_playback rng s)) = displayData s \<and>
         clock (snd (advance_playback rng s)) = clock s \<and>
         uploadedFileName (snd (advance_playback rng s)) = uploadedFileName s \<and>
         analysisResult (snd (advance_playback rng s)) = analysisResult s"
  using assms(1) by (simp add: advance_playback_def consume_loop_eq k_def Let_def)

lemma advance_playback_alert_inv:
  "alert_inv (clock s) (alertState s) \<Longrightarrow> alert_inv (clock s) (alertState (snd (advance_playback rng s)))"
  by (auto simp: advance_playback_def Let_def split: prod.splits intro!: injectDemoEvents_alert_inv)

lemma keeps_updateSimulation:
  assumes "app_inv s" and "framePending s"
  shows "keeps_inv s (updateSimulation rng s)"
proof -
  have inv: "playback_inv s" and play: "isPlaying s" using assms by (simp_all add: app_inv_def)
  let ?s0 = "s\<lparr>simTime := simTime s + 1 / 60\<rparr>"
  show ?thesis
  proof (cases "uploadedFileName s \<noteq> None \<and> ecgData s \<noteq> []")
    case loaded: True
    show ?thesis
    proof (cases "length (ecgData s) \<le> dataIndex s")
      case True
      have "alert_inv (clock ?s0) (alertState (complete_playback ?s0))"
        using inv by (intro complete_playback_alert_inv) (simp add: playback_inv_def)
      with loaded True inv show ?thesis
        by (simp add: keeps_inv_def updateSimulation_def playback_inv_def)
    next
      case False
      obtain pts s3 where adv: "advance_playback rng ?s0 = (pts, s3)" by fastforce
      have idx: "dataIndex ?s0 \<le> length (ecgData ?s0)" using inv by (simp add: playback_inv_def)
      note eq = advance_playback_eq [OF idx, of rng, unfolded adv, simplified]
      have al: "alert_inv (clock s3) (alertState s3)"
        using advance_playback_alert_inv [of ?s0 rng] inv eq by (simp add: adv playback_inv_def)
      have win: "length (displayData s3) \<le> POINTS_PER_WINDOW"
        using inv eq by (simp add: playback_inv_def)
      show ?thesis
        using loaded False adv eq al win play
        by (simp add: keeps_inv_def updateSimulation_def playback_inv_def append_window_slice_last window_simps)
    qed
  next
    case False
    with inv play show ?thesis
      by (auto simp: keeps_inv_def updateSimulation_def playback_inv_def append_window_def)
  qed
qed

lemma app_inv_step: "app_inv s \<Longrightarrow> app_inv (app_step s e)"
proof (cases e)
  case (Frame rng)
  assume "app_inv s"
  then show ?thesis using Frame by (auto intro: app_inv_commit keeps_updateSimulation)
qed (auto intro: app_inv_commit keeps_handleFileUpload keeps_reader_onload keeps_togglePlay
       keeps_generateReport keeps_selectModel keeps_fire_timers)

lemma app_reach_inv: "app_reach s \<Longrightarrow> app_inv s"
  by (induction rule: app_reach.induct) (auto intro: app_inv_init app_inv_step)

lemma framePending_commit:
  "framePending (commit old new) = (if effect_deps new \<noteq> effect_deps old then isPlaying new else framePending new)"
  by (simp add: commit_def)

lemma frame_advance:
  assumes inv: "app_inv s" and fp: "framePending s" and up: "uploadedFileName s \<noteq> None"
    and lt: "dataIndex s < length (ecgData s)"
  defines "k \<equiv> min SAMPLES_PER_FRAME (length (ecgData s) - dataIndex s)"
  shows "dataIndex (app_step s (Frame rng)) = dataIndex s + k \<and>
         displayData (app_step s (Frame rng)) =
           slice_last POINTS_PER_WINDOW (displayData s @ take k (drop (dataIndex s) (ecgData s))) \<and>
         playbackProgress (app_step s (Frame rng)) = min 100 (real (dataIndex s + k) / real (length (ecgData s)) * 100) \<and>
         isPlaying (app_step s (Frame rng)) \<and> framePending (app_step s (Frame rng)) \<and>
         ecgData (app_step s (Frame rng)) = ecgData s \<and>
         uploadedFileName (app_step s (Frame rng)) = uploadedFileName s \<and>
         analysisResult (app_step s (Frame rng)) = analysisResult s"
proof -
  have pinv: "playback_inv s" and play: "isPlaying s" using inv fp by (simp_all add: app_inv_def)
  let ?s0 = "s\<lparr>simTime := simTime s + 1 / 60\<rparr>"
  obtain pts s3 where adv: "advance_playback rng ?s0 = (pts, s3)" by fastforce
  have idx: "dataIndex ?s0 \<le> length (ecgData ?s0)" using pinv by (simp add: playback_inv_def)
  note eq = advance_playback_eq [OF idx, of rng, unfolded adv, simplified]
  have ne: "ecgData s \<noteq> []" using lt by auto
  have win: "length (displayData s) \<le> POINTS_PER_WINDOW" using pinv by (simp add: playback_inv_def)
  have upd: "updateSimulation rng s =
               s3\<lparr>displayData := append_window (displayData s3) pts, framePending := isPlaying s\<rparr>"
    using up ne lt adv by (simp add: updateSimulation_def)
  show ?thesis
    using fp upd eq play win by (simp add: framePending_commit append_window_slice_last k_def)
qed

lemma take_chunk:
  "m < length xs \<Longrightarrow> take m xs @ take (min 4 (length xs - m)) (drop m xs) = take (m + 4) xs"
  by (simp add: take_add min_def)

lemma frames_advance:
  assumes inv: "app_inv s" and fp: "framePending s" and up: "uploadedFileName s \<noteq> None"
    and n: "4 * length rngs < length (ecgData s) - dataIndex s + 4"
  shows "app_inv (app_run s (map Frame rngs)) \<and> framePending (app_run s (map Frame rngs)) \<and>
         dataIndex (app_run s (map Frame rngs)) = min (length (ecgData s)) (dataIndex s + 4 * length rngs) \<and>
         displayData (app_run s (map Frame rngs)) =
           slice_last POINTS_PER_WINDOW (displayData s @ take (4 * length rngs) (drop (dataIndex s) (ecgData s))) \<and>
         ecgData (app_run s (map Frame rngs)) = ecgData s \<and>
         uploadedFileName (app_run s (map Frame rngs)) = uploadedFileName s \<and>
         analysisResult (app_run s (map Frame rngs)) = analysisResult s"
  using n
proof (induction rngs rule: rev_induct)
  case Nil
  have "dataIndex s \<le> length (ecgData s)" using inv by (simp add: app_inv_def playback_inv_def)
  moreover have "length (displayData s) \<le> POINTS_PER_WINDOW" using inv by (simp add: app_inv_def playback_inv_def)
  ultimately show ?case using inv fp by (simp add: app_run_def window_simps)
next
  case (snoc r rs)
  let ?t = "app_run s (map Frame rs)"
  from snoc.prems have "4 * length rs < length (ecgData s) - dataIndex s + 4" by simp
  note IH = snoc.IH [OF this]
  have lt: "dataIndex s + 4 * length rs < length (ecgData s)" using snoc.prems by simp
  then have idx: "dataIndex ?t = dataIndex s + 4 * length rs" using IH by simp
  have run: "app_run s (map Frame (rs @ [r])) = app_step ?t (Frame r)" by (simp add: app_run_def)
  have step: "app_inv ?t" "framePending ?t" "uploadedFileName ?t \<noteq> None"
      "dataIndex ?t < length (ecgData ?t)"
    using IH up lt idx by simp_all
  note fa = frame_advance [OF step, of r]
  have dl: "4 * length rs < length (drop (dataIndex s) (ecgData s))" using lt by simp
  have k: "min SAMPLES_PER_FRAME (length (ecgData ?t) - dataIndex ?t) = min 4 (length (drop (dataIndex s) (ecgData s)) - 4 * length rs)"
    using IH idx by simp
  have d: "drop (dataIndex ?t) (ecgData ?t) = drop (4 * length rs) (drop (dataIndex s) (ecgData s))"
    using IH idx by (simp add: add.commute)
  have tc: "take (4 * length rs) (drop (dataIndex s) (ecgData s)) @
             take (min 4 (length (ecgData s) - (dataIndex s + 4 * length rs)))
               (drop (4 * length rs + dataIndex s) (ecgData s)) =
           take (4 + 4 * length rs) (drop (dataIndex s) (ecgData s))"
    using take_chunk [OF dl] by (simp add: ac_simps)
  have w: "displayData (app_step ?t (Frame r)) =
             slice_last POINTS_PER_WINDOW (displayData s @ take (4 * length (rs @ [r])) (drop (dataIndex s) (ecgData s)))"
    using fa IH unfolding k d by (simp add: window_simps tc)
  have i: "dataIndex (app_step ?t (Frame r)) = min (length (ecgData s)) (dataIndex s + 4 * length (rs @ [r]))"
    unfolding conjunct1 [OF fa] k idx using lt IH by (simp add: min_def) linarith
  show ?case
    using fa IH w i app_inv_step [OF step(1), of "Frame r"] by (simp only: run)
qed
lemma updateSimulation_advance:
  "uploadedFileName s \<noteq> None \<Longrightarrow> dataIndex s < length (ecgData s) \<Longrightarrow>
     updateSimulation rng s =
       (case advance_playback rng (s\<lparr>simTime := simTime s + 1 / 60\<rparr>) of
          (pts, s3) \<Rightarrow> s3\<lparr>displayData := append_window (displayData s3) pts, framePending := isPlaying s\<rparr>)"
  by (auto simp: updateSimulation_def Let_def)

lemma frame_quiet:
  assumes "framePending s" "uploadedFileName s \<noteq> None" and lt: "dataIndex s < length (ecgData s)"
    and "(dataIndex s + min SAMPLES_PER_FRAME (length (ecgData s) - dataIndex s)) mod 300 \<noteq> 0"
  shows "revertTimers (app_step s (Frame rng)) = revertTimers s \<and>
         alertState (app_step s (Frame rng)) = alertState s \<and>
         currentRhythm (app_step s (Frame rng)) = currentRhythm s \<and> clock (app_step s (Frame rng)) = clock s"
  using assms less_imp_le [OF lt]
  by (simp add: updateSimulation_advance advance_playback_def consume_loop_eq Let_def)

lemma frame_inject:
  assumes "framePending s" "uploadedFileName s \<noteq> None" and lt: "dataIndex s < length (ecgData s)"
    and "(dataIndex s + min SAMPLES_PER_FRAME (length (ecgData s) - dataIndex s)) mod 300 = 0"
    and "0.92 < event_rand rng"
  shows "revertTimers (app_step s (Frame rng)) = revertTimers s @ [(clock s + 4000, analysisResult s)] \<and>
         currentRhythm (app_step s (Frame rng)) = ev_rhythm criticalEvent \<and>
         clock (app_step s (Frame rng)) = clock s"
  using assms less_imp_le [OF lt]
  by (simp add: updateSimulation_advance advance_playback_def consume_loop_eq Let_def
      injectDemoEvents_def show_event_def app_alert_def jitter_rate_def split: option.split)

lemma frame_complete:
  assumes "app_inv s" "framePending s" "uploadedFileName s \<noteq> None" "ecgData s \<noteq> []"
    "length (ecgData s) \<le> dataIndex s"
  shows "\<not> isPlaying (app_step s (Frame rng)) \<and> \<not> framePending (app_step s (Frame rng)) \<and>
         playbackProgress (app_step s (Frame rng)) = 100 \<and>
         dataIndex (app_step s (Frame rng)) = dataIndex s \<and>
         displayData (app_step s (Frame rng)) = displayData s \<and>
         ecgData (app_step s (Frame rng)) = ecgData s \<and>
         uploadedFileName (app_step s (Frame rng)) = uploadedFileName s \<and>
         revertTimers (app_step s (Frame rng)) = revertTimers s \<and>
         clock (app_step s (Frame rng)) = clock s \<and>
         analysisResult (app_step s (Frame rng)) = analysisResult s \<and>
         currentRhythm (app_step s (Frame rng)) =
           (case analysisResult s of None \<Rightarrow> currentRhythm s | Some a \<Rightarrow> ''Analysis Complete'')"
proof -
  have "isPlaying s" using assms by (simp add: app_inv_def)
  then show ?thesis
    using assms by (simp add: updateSimulation_def framePending_commit effect_deps_def
        complete_playback_def Let_def app_alert_def split: option.split)
qed

lemma frames_quiet:
  assumes inv: "app_inv s" and fp: "framePending s" and up: "uploadedFileName s \<noteq> None"
    and n: "dataIndex s + 4 * length rngs \<le> length (ecgData s)"
    and q: "\<forall>j \<in> {1..length rngs}. (dataIndex s + 4 * j) mod 300 \<noteq> 0"
  shows "revertTimers (app_run s (map Frame rngs)) = revertTimers s \<and>
         alertState (app_run s (map Frame rngs)) = alertState s \<and>
         currentRhythm (app_run s (map Frame rngs)) = currentRhythm s \<and>
         clock (app_run s (map Frame rngs)) = clock s"
  using n q
proof (induction rngs rule: rev_induct)
  case Nil
  then show ?case by (simp add: app_run_def)
next
  case (snoc r rs)
  let ?t = "app_run s (map Frame rs)"
  have IH: "revertTimers ?t = revertTimers s \<and> alertState ?t = alertState s \<and>
            currentRhythm ?t = currentRhythm s \<and> clock ?t = clock s"
    using snoc by simp
  have lt: "dataIndex s + 4 * length rs + 4 \<le> length (ecgData s)" using snoc.prems by simp
  then have "4 * length rs < length (ecgData s) - dataIndex s + 4" by simp
  note fa = frames_advance [OF inv fp up this]
  have idx: "dataIndex ?t = dataIndex s + 4 * length rs" using fa lt by simp
  have m: "(dataIndex s + 4 * Suc (length rs)) mod 300 \<noteq> 0"
    using bspec [OF snoc.prems(2), of "Suc (length rs)"] by simp
  have "revertTimers (app_step ?t (Frame r)) = revertTimers ?t \<and>
        alertState (app_step ?t (Frame r)) = alertState ?t \<and>
        currentRhythm (app_step ?t (Frame r)) = currentRhythm ?t \<and> clock (app_step ?t (Frame r)) = clock ?t"
  proof (rule frame_quiet)
    have "min SAMPLES_PER_FRAME (length (ecgData ?t) - dataIndex ?t) = 4" using fa lt idx by simp
    then show "(dataIndex ?t + min SAMPLES_PER_FRAME (length (ecgData ?t) - dataIndex ?t)) mod 300 \<noteq> 0"
      using idx m by (simp add: ac_simps)
  qed (use fa lt idx up in simp_all)
  then show ?case using IH by (simp add: app_run_def)
qed
lemma app_reach_run: "app_reach s \<Longrightarrow> list_all valid_event evs \<Longrightarrow> app_reach (app_run s evs)"
  by (induction evs arbitrary: s) (simp_all add: app_run_def app_reach.step)

lemma app_run_append: "app_run s (xs @ ys) = app_run (app_run s xs) ys"
  by (simp add: app_run_def)

lemma app_run_snoc: "app_run s (xs @ [e]) = app_step (app_run s xs) e"
  by (simp add: app_run_def)

lemma concat_chunks:
  "concat (map (\<lambda>j. take 4 (drop (i + 4 * j) xs)) [0..<n]) = take (4 * n) (drop i xs)"
proof (induction n)
  case (Suc n)
  have "take (4 * Suc n) (drop i xs) = take (4 * n + 4) (drop i xs)" by (simp add: add.commute)
  also have "\<dots> = take (4 * n) (drop i xs) @ take 4 (drop (i + 4 * n) xs)"
    unfolding take_add drop_drop by (simp add: add.commute)
  finally have e: "take (4 * Suc n) (drop i xs) = take (4 * n) (drop i xs) @ take 4 (drop (i + 4 * n) xs)" .
  have "concat (map (\<lambda>j. take 4 (drop (i + 4 * j) xs)) [0..<Suc n]) =
          take (4 * n) (drop i xs) @ take 4 (drop (i + 4 * n) xs)"
    using Suc.IH by simp
  then show ?case by (simp only: e)
qed simp

section \<open>Properties of playback\<close>

text \<open>
  C20. In every reachable state the cursor lies within the recording, the progress
  within [0, 100], the window within its 600 samples, at most three alerts are shown,
  and an animation frame is requested exactly while playing.
\<close>

theorem app_reachable_invariant:
  assumes "app_reach s"
  shows "dataIndex s \<le> length (ecgData s) \<and> 0 \<le> playbackProgress s \<and> playbackProgress s \<le> 100 \<and>
         length (displayData s) \<le> POINTS_PER_WINDOW \<and> length (alerts (alertState s)) \<le> 3 \<and>
         (framePending s \<longleftrightarrow> isPlaying s)"
  using app_reach_inv [OF assms] by (simp add: app_inv_def playback_inv_def alert_inv_def)

theorem app_reachable_invariant_witness:
  "app_reach app_init \<and> length (displayData app_init) \<le> POINTS_PER_WINDOW \<and> \<not> framePending app_init"
  using app_reachable_invariant [OF app_reach.init] app_reach.init by (simp add: app_init_def)

text \<open>
  C21. A frame of a playing recording with samples left consumes the next
  \<open>min 4 (length - cursor)\<close> samples: the cursor advances by that many, the window is the
  last 600 samples of the old window and the chunk, the progress is the cursor's share of
  the recording, and playing goes on with the next frame requested.
\<close>

theorem frame_advances:
  assumes "app_reach s" "isPlaying s" "uploadedFileName s \<noteq> None" "dataIndex s < length (ecgData s)"
  defines "k \<equiv> min SAMPLES_PER_FRAME (length (ecgData s) - dataIndex s)"
  shows "dataIndex (app_step s (Frame rng)) = dataIndex s + k \<and>
         displayData (app_step s (Frame rng)) =
           slice_last POINTS_PER_WINDOW (displayData s @ take k (drop (dataIndex s) (ecgData s))) \<and>
         playbackProgress (app_step s (Frame rng)) = min 100 (real (dataIndex s + k) / real (length (ecgData s)) * 100) \<and>
         isPlaying (app_step s (Frame rng)) \<and> framePending (app_step s (Frame rng))"
proof -
  have inv: "app_inv s" using assms(1) by (rule app_reach_inv)
  then have "framePending s" using assms(2) by (simp add: app_inv_def)
  from frame_advance [OF inv this assms(3,4), of rng] show ?thesis by (simp add: k_def)
qed

text \<open>
  C22. A frame at the end of the recording stops the playback for good: playing stops,
  no frame is requested (so every later frame callback is absent and changes nothing),
  the progress is 100, and the cursor and the window stay as they were.
\<close>

theorem frame_completion_stops:
  assumes "app_reach s" "isPlaying s" "uploadedFileName s \<noteq> None" "ecgData s \<noteq> []"
    "length (ecgData s) \<le> dataIndex s"
  shows "\<not> isPlaying (app_step s (Frame rng)) \<and> playbackProgress (app_step s (Frame rng)) = 100 \<and>
         dataIndex (app_step s (Frame rng)) = dataIndex s \<and>
         displayData (app_step s (Frame rng)) = displayData s \<and>
         (\<forall>rng'. app_step (app_step s (Frame rng)) (Frame rng') = app_step s (Frame rng))"
proof -
  have inv: "app_inv s" using assms(1) by (rule app_reach_inv)
  then have "framePending s" using assms(2) by (simp add: app_inv_def)
  from frame_complete [OF inv this assms(3-5), of rng] show ?thesis by simp
qed

text \<open>
  C23. Playback always ends: from any reachable playing state with a non-empty
  recording, \<open>\<lceil>(length - cursor) / 4\<rceil> + 1\<close> frames, whatever the random draws, play the
  rest of the recording into the window and stop at progress 100 with the cursor at the
  end.
\<close>

theorem playback_runs_to_completion:
  assumes "app_reach s" "isPlaying s" "uploadedFileName s \<noteq> None" "ecgData s \<noteq> []"
    and n: "length rngs = (length (ecgData s) - dataIndex s + 3) div 4 + 1"
  shows "\<not> isPlaying (app_run s (map Frame rngs)) \<and> playbackProgress (app_run s (map Frame rngs)) = 100 \<and>
         dataIndex (app_run s (map Frame rngs)) = length (ecgData s) \<and>
         displayData (app_run s (map Frame rngs)) =
           slice_last POINTS_PER_WINDOW (displayData s @ drop (dataIndex s) (ecgData s))"
proof -
  have inv: "app_inv s" using assms(1) by (rule app_reach_inv)
  then have fp: "framePending s" using assms(2) by (simp add: app_inv_def)
  obtain rs r where rs: "rngs = rs @ [r]" using n by (cases rngs rule: rev_cases) auto
  let ?m = "length (ecgData s) - dataIndex s"
  have l: "length rs = (?m + 3) div 4" using n rs by simp
  then have "4 * length rs < ?m + 4" by simp
  note A = frames_advance [OF inv fp assms(3) this]
  have i: "dataIndex (app_run s (map Frame rs)) = length (ecgData s)" using A l by simp
  have t: "take (4 * length rs) (drop (dataIndex s) (ecgData s)) = drop (dataIndex s) (ecgData s)"
    using l by simp
  have "app_inv (app_run s (map Frame rs))" "framePending (app_run s (map Frame rs))"
    "uploadedFileName (app_run s (map Frame rs)) \<noteq> None" "ecgData (app_run s (map Frame rs)) \<noteq> []"
    "length (ecgData (app_run s (map Frame rs))) \<le> dataIndex (app_run s (map Frame rs))"
    using A i assms(3,4) by simp_all
  from frame_complete [OF this, of r] show ?thesis using A i t by (simp add: rs app_run_snoc)
qed

text \<open>
  C24. Refinement of the frame loop by the display window of \<open>SampleBuffer\<close>: \<open>n\<close> frames
  that stay within the recording move the cursor by \<open>4 n\<close> and leave the window that
  \<open>window_after\<close> computes from the chunks of four consecutive samples at the cursor.
\<close>

theorem frames_refine_window:
  assumes "app_reach s" "isPlaying s" "uploadedFileName s \<noteq> None"
    and n: "dataIndex s + 4 * length rngs \<le> length (ecgData s)"
  shows "dataIndex (app_run s (map Frame rngs)) = dataIndex s + 4 * length rngs \<and>
         displayData (app_run s (map Frame rngs)) =
           window_after (displayData s)
             (map (\<lambda>j. take 4 (drop (dataIndex s + 4 * j) (ecgData s))) [0..<length rngs]) \<and>
         isPlaying (app_run s (map Frame rngs))"
proof -
  have inv: "app_inv s" using assms(1) by (rule app_reach_inv)
  then have fp: "framePending s" using assms(2) by (simp add: app_inv_def)
  have "4 * length rngs < length (ecgData s) - dataIndex s + 4" using n by simp
  note A = frames_advance [OF inv fp assms(3) this]
  have w: "length (displayData s) \<le> POINTS_PER_WINDOW" using inv by (simp add: app_inv_def playback_inv_def)
  have "isPlaying (app_run s (map Frame rngs))" using A unfolding app_inv_def by blast
  then show ?thesis
    using A n w by (simp add: window_after_slice_last concat_chunks)
qed
text \<open>
  Pause and resume: with samples left, \<open>togglePlay\<close> flips playing, requests a frame
  exactly when it resumes, and keeps the cursor and the window.
\<close>

theorem toggle_pauses_and_resumes:
  assumes "app_reach s" "uploadedFileName s \<noteq> None" "dataIndex s < length (ecgData s)"
  shows "isPlaying (app_step s TogglePlay) = (\<not> isPlaying s) \<and>
         framePending (app_step s TogglePlay) = (\<not> isPlaying s) \<and>
         dataIndex (app_step s TogglePlay) = dataIndex s \<and> displayData (app_step s TogglePlay) = displayData s"
  using assms by (auto simp: togglePlay_def framePending_commit effect_deps_def)

text \<open>
  Replay: at the end of the recording, \<open>togglePlay\<close> rewinds the cursor, clears the
  window and the progress, restores the cached rhythm, and plays with a frame requested
  (also when the stopped state already had the same dependencies).
\<close>

theorem replay_resets:
  assumes "app_reach s" "uploadedFileName s \<noteq> None" "length (ecgData s) \<le> dataIndex s"
    "analysisResult s = Some a"
  shows "dataIndex (app_step s TogglePlay) = 0 \<and> displayData (app_step s TogglePlay) = [] \<and>
         playbackProgress (app_step s TogglePlay) = 0 \<and> isPlaying (app_step s TogglePlay) \<and>
         framePending (app_step s TogglePlay) \<and> currentRhythm (app_step s TogglePlay) = rhythm a"
proof -
  have "framePending s \<longleftrightarrow> isPlaying s" using app_reach_inv [OF assms(1)] by (simp add: app_inv_def)
  then show ?thesis using assms by (auto simp: togglePlay_def framePending_commit effect_deps_def Let_def)
qed

text \<open>
  Without an uploaded file, \<open>togglePlay\<close> only raises the critical alert
  \<open>Upload CSV Required\<close>: the rest of the state is unchanged.
\<close>

theorem play_without_upload_alerts:
  assumes "app_reach s" "uploadedFileName s = None"
  shows "app_step s TogglePlay =
           s\<lparr>alertState := triggerAlert (clock s) ''Upload CSV Required'' Critical (alertState s)\<rparr>"
proof -
  have "framePending s \<longleftrightarrow> isPlaying s" using app_reach_inv [OF assms(1)] by (simp add: app_inv_def)
  then show ?thesis using assms by (simp add: togglePlay_def app_alert_def commit_def)
qed

text \<open>
  C25. \<open>togglePlay\<close> on every branch, from every reachable state: without a file it only
  raises the critical alert \<open>Upload CSV Required\<close>; at the end of the recording it
  replays (cursor, window and progress reset, the cached rhythm restored, playing with a
  frame requested, also when the stopped state had the same dependencies); otherwise it
  flips playing, requests a frame exactly when it resumes and keeps cursor and window.
\<close>

theorem togglePlay_branches:
  assumes "app_reach s"
  shows "(uploadedFileName s = None \<longrightarrow> app_step s TogglePlay =
            s\<lparr>alertState := triggerAlert (clock s) ''Upload CSV Required'' Critical (alertState s)\<rparr>) \<and>
         (uploadedFileName s \<noteq> None \<longrightarrow> length (ecgData s) \<le> dataIndex s \<longrightarrow>
            dataIndex (app_step s TogglePlay) = 0 \<and> displayData (app_step s TogglePlay) = [] \<and>
            playbackProgress (app_step s TogglePlay) = 0 \<and> isPlaying (app_step s TogglePlay) \<and>
            framePending (app_step s TogglePlay) \<and>
            (\<forall>a. analysisResult s = Some a \<longrightarrow> currentRhythm (app_step s TogglePlay) = rhythm a)) \<and>
         (uploadedFileName s \<noteq> None \<longrightarrow> dataIndex s < length (ecgData s) \<longrightarrow>
            isPlaying (app_step s TogglePlay) = (\<not> isPlaying s) \<and>
            framePending (app_step s TogglePlay) = (\<not> isPlaying s) \<and>
            dataIndex (app_step s TogglePlay) = dataIndex s \<and> displayData (app_step s TogglePlay) = displayData s)"
proof -
  have replay: "uploadedFileName s \<noteq> None \<longrightarrow> length (ecgData s) \<le> dataIndex s \<longrightarrow>
      dataIndex (app_step s TogglePlay) = 0 \<and> displayData (app_step s TogglePlay) = [] \<and>
      playbackProgress (app_step s TogglePlay) = 0 \<and> isPlaying (app_step s TogglePlay) \<and>
      framePending (app_step s TogglePlay)"
  proof (intro impI)
    assume "uploadedFileName s \<noteq> None" "length (ecgData s) \<le> dataIndex s"
    then show "dataIndex (app_step s TogglePlay) = 0 \<and> displayData (app_step s TogglePlay) = [] \<and>
      playbackProgress (app_step s TogglePlay) = 0 \<and> isPlaying (app_step s TogglePlay) \<and>
      framePending (app_step s TogglePlay)"
      using app_reach_inv [OF assms]
      by (auto simp: togglePlay_def framePending_commit effect_deps_def app_inv_def Let_def split: option.split)
  qed
  show ?thesis
    using play_without_upload_alerts [OF assms] replay_resets [OF assms] replay
      toggle_pauses_and_resumes [OF assms] by blast
qed

text \<open>
  C26. A file whose lower-cased name contains neither \<open>mit\<close> nor \<open>physionet\<close> is
  rejected: only the critical alert \<open>Invalid Source\<close> is raised, no read starts and the
  file name is not stored.
\<close>

theorem invalid_source_rejected:
  assumes "app_reach s" "\<not> sublist ''mit'' (to_lower name)" "\<not> sublist ''physionet'' (to_lower name)"
  shows "app_step s (Upload (Some (name, text))) =
           s\<lparr>alertState := triggerAlert (clock s) ''Invalid Source: Upload MIT or PhysioNet CSV'' Critical (alertState s)\<rparr>"
proof -
  have "framePending s \<longleftrightarrow> isPlaying s" using app_reach_inv [OF assms(1)] by (simp add: app_inv_def)
  then show ?thesis
    using assms by (simp add: handleFileUpload_def js_includes_sublist app_alert_def commit_def)
qed

theorem invalid_source_rejected_witness:
  "app_step app_init (Upload (Some (''ecg.csv'', ''1''))) =
     app_init\<lparr>alertState := triggerAlert 0 ''Invalid Source: Upload MIT or PhysioNet CSV'' Critical alert_init\<rparr>"
proof -
  have l: "to_lower ''ecg.csv'' = ''ecg.csv''" by code_simp
  have "\<not> sublist ''mit'' (to_lower ''ecg.csv'')" "\<not> sublist ''physionet'' (to_lower ''ecg.csv'')"
    unfolding l js_includes_sublist [symmetric] by simp_all
  from invalid_source_rejected [OF app_reach.init this, of "''1''"] show ?thesis by (simp add: app_init_def)
qed

text \<open>
  C27. A completed read parses the text, analyses it once and caches the result, shows
  it, rewinds the cursor and plays with a frame requested; the display window is not
  cleared, so the old recording's tail stays on screen before the new samples.
\<close>

theorem reader_load_analyses:
  assumes "app_reach s" "pendingReads s = text # rest"
  shows "ecgData (app_step s ReaderLoad) = parse_rows text \<and>
         analysisResult (app_step s ReaderLoad) = Some (analyzeECGSignal (parse_rows text)) \<and>
         currentRhythm (app_step s ReaderLoad) = rhythm (analyzeECGSignal (parse_rows text)) \<and>
         dataIndex (app_step s ReaderLoad) = 0 \<and> playbackProgress (app_step s ReaderLoad) = 0 \<and>
         isPlaying (app_step s ReaderLoad) \<and> framePending (app_step s ReaderLoad) \<and>
         displayData (app_step s ReaderLoad) = displayData s \<and>
         pendingReads (app_step s ReaderLoad) = rest"
proof -
  have "framePending s \<longleftrightarrow> isPlaying s" using app_reach_inv [OF assms(1)] by (simp add: app_inv_def)
  then show ?thesis
    using assms by (auto simp: reader_onload_def Let_def framePending_commit effect_deps_def split: option.split)
qed

theorem reader_load_analyses_witness:
  "app_reach (app_step app_init (Upload (Some (''mit.csv'', ''1'')))) \<and>
   pendingReads (app_step app_init (Upload (Some (''mit.csv'', ''1'')))) = [''1''] \<and>
   ecgData (app_step (app_step app_init (Upload (Some (''mit.csv'', ''1'')))) ReaderLoad) = [1] \<and>
   isPlaying (app_step (app_step app_init (Upload (Some (''mit.csv'', ''1'')))) ReaderLoad)"
proof -
  have l: "to_lower ''mit.csv'' = ''mit.csv''" by code_simp
  have p: "parse_rows ''1'' = [1]" by code_simp
  have r: "app_reach (app_step app_init (Upload (Some (''mit.csv'', ''1''))))"
    by (rule app_reach.step [OF app_reach.init]) simp
  have q: "pendingReads (app_step app_init (Upload (Some (''mit.csv'', ''1'')))) = ''1'' # []"
    by (simp add: handleFileUpload_def l app_init_def)
  from reader_load_analyses [OF r q] r q show ?thesis by (simp add: p)
qed

text \<open>
  C28. The analysis runs only when a read completes: no other event changes the cached
  result or the recording.
\<close>

theorem analysis_only_on_load:
  assumes "e \<noteq> ReaderLoad"
  shows "analysisResult (app_step s e) = analysisResult s \<and> ecgData (app_step s e) = ecgData s"
proof (cases e)
  case (Upload f)
  then show ?thesis by (simp add: handleFileUpload_def Let_def split: option.split prod.split)
next
  case (Frame rng)
  have "analysisResult (updateSimulation rng s) = analysisResult s \<and> ecgData (updateSimulation rng s) = ecgData s"
    by (simp add: updateSimulation_def advance_playback_def Let_def split: prod.split)
  then show ?thesis using Frame by simp
next
  case (Wait d)
  then show ?thesis
    using revert_fold_fields [of "filter (\<lambda>(t, a). t \<le> clock s + d) (revertTimers s)" s]
    by (simp add: fire_timers_def Let_def)
qed (use assms in \<open>simp_all add: togglePlay_def generateReport_def Let_def split: option.split\<close>)

theorem analysis_only_on_load_witness:
  "TogglePlay \<noteq> ReaderLoad \<and> analysisResult (app_step app_init TogglePlay) = None"
  using analysis_only_on_load [of TogglePlay app_init] by (simp add: app_init_def)

text \<open>
  C29. The report flag is cleared by its timeout: 1.5 s after a click on the enabled
  report button (a file loaded, no report in progress), \<open>isGeneratingReport\<close> is false
  again.
\<close>

theorem report_flag_cleared:
  assumes "uploadedFileName s \<noteq> None" "\<not> isGeneratingReport s"
  shows "isGeneratingReport (app_step s GenerateReport) \<and>
         \<not> isGeneratingReport (app_step (app_step s GenerateReport) (Wait 1500))"
proof -
  obtain nm where "uploadedFileName s = Some nm" using assms by auto
  then show ?thesis using assms(2) by (simp add: generateReport_def fire_timers_def commit_def Let_def list_ex_iff)
qed

theorem report_flag_cleared_witness:
  "isGeneratingReport (app_step (app_init\<lparr>uploadedFileName := Some ''mit.csv''\<rparr>) GenerateReport) \<and>
   \<not> isGeneratingReport (app_step (app_step (app_init\<lparr>uploadedFileName := Some ''mit.csv''\<rparr>) GenerateReport) (Wait 1500))"
  using report_flag_cleared [of "app_init\<lparr>uploadedFileName := Some ''mit.csv''\<rparr>"]
  by (simp add: app_init_def)

text \<open>
  Choosing a model changes nothing but the model's name: the analysis, the playback
  and the alerts are independent of it.
\<close>

theorem select_model_cosmetic:
  assumes "app_reach s"
  shows "app_step s (SelectModel m) = s\<lparr>activeModel := m\<rparr>"
proof -
  have "framePending s \<longleftrightarrow> isPlaying s" using app_reach_inv [OF assms(1)] by (simp add: app_inv_def)
  then show ?thesis by (simp add: commit_def)
qed

theorem select_model_cosmetic_witness:
  "app_step app_init (SelectModel ''ptb'') = app_init\<lparr>activeModel := ''ptb''\<rparr>"
  using select_model_cosmetic [OF app_reach.init] .

end
