(* ===== verification/FrameLoop.thy ===== *)
theory FrameLoop
  imports Playback
begin

text \<open>
  The animation loop of \<open>App\<close> as the host runs it when no user action intervenes:
  \<open>requestAnimationFrame(updateSimulation)\<close> (line 398, and the effect of lines
  435--440) keeps calling the frame while one is requested.  \<open>run_frames rng k s\<close> runs
  the frames of \<open>app_step\<close> from \<open>s\<close>, the \<open>k\<close>-th frame drawing \<open>rng k\<close>, and
  returns the state in which no frame is requested any more; it is a
  \<open>partial_function (option)\<close>, \<open>None\<close> standing for a chain that never ends.  The
  lemmas show that the chain ends, at the end of the recording, from every reachable
  state with a non-empty recording (a measure on the samples left), and that it never
  ends on an empty recording (rule induction over the fixpoint).
\<close>

section \<open>Definitions\<close>

partial_function (option) run_frames :: "(nat \<Rightarrow> frame_rng) \<Rightarrow> nat \<Rightarrow> app \<Rightarrow> app option" where
  "run_frames rng k s =
     (if framePending s then run_frames rng (Suc k) (app_step s (Frame (rng k))) else Some s)"

section \<open>Lemmas\<close>

lemma upload_inv_step:
  assumes "(isPlaying s \<or> pendingReads s \<noteq> []) \<longrightarrow> uploadedFileName s \<noteq> None"
  shows "(isPlaying (app_step s e) \<or> pendingReads (app_step s e) \<noteq> []) \<longrightarrow> uploadedFileName (app_step s e) \<noteq> None"
proof (cases e)
  case (Frame rng)
  have "pendingReads (updateSimulation rng s) = pendingReads s \<and>
        uploadedFileName (updateSimulation rng s) = uploadedFileName s \<and>
        (isPlaying (updateSimulation rng s) \<longrightarrow> isPlaying s)"
    by (simp add: updateSimulation_def advance_playback_def Let_def split: prod.split)
  then show ?thesis using Frame assms by auto
next
  case (Wait d)
  then show ?thesis using assms revert_fold_fields [of "filter (\<lambda>(t, a). t \<le> clock s + d) (revertTimers s)" s]
    by (simp add: fire_timers_def Let_def)
qed (use assms in \<open>auto simp: handleFileUpload_def reader_onload_def togglePlay_def generateReport_def Let_def
       split: option.splits list.splits\<close>)

text \<open>A recording is being read or played only after a file name was accepted.\<close>

lemma app_reach_upload:
  "app_reach s \<Longrightarrow> (isPlaying s \<or> pendingReads s \<noteq> []) \<longrightarrow> uploadedFileName s \<noteq> None"
  by (induction rule: app_reach.induct) (simp_all add: app_init_def upload_inv_step)

lemma run_frames_stop: "\<not> framePending s \<Longrightarrow> run_frames rng k s = Some s"
  by (simp add: run_frames.simps)

lemma run_frames_step:
  "framePending s \<Longrightarrow> run_frames rng k s = run_frames rng (Suc k) (app_step s (Frame (rng k)))"
  by (subst run_frames.simps) simp

lemma frame_empty_recording:
  assumes "app_reach s" "ecgData s = []" "isPlaying s" "valid_rng r"
  shows "framePending s \<and> app_reach (app_step s (Frame r)) \<and> ecgData (app_step s (Frame r)) = [] \<and>
         isPlaying (app_step s (Frame r))"
proof -
  have "framePending s" using app_reach_inv [OF assms(1)] assms(3) by (simp add: app_inv_def)
  moreover have "app_reach (app_step s (Frame r))" by (rule app_reach.step) (use assms in simp_all)
  ultimately show ?thesis using assms(2,3) by (simp add: updateSimulation_def)
qed

section \<open>Properties of the frame loop\<close>

text \<open>
  C34. The animation loop terminates: from every reachable state with a non-empty
  recording, whatever the random draws, the chain of frames ends in a reachable state
  that is not playing and requests no frame; if it was playing, the whole recording has
  been consumed and the progress is 100.
\<close>

theorem playback_frames_terminate:
  assumes "app_reach s" "ecgData s \<noteq> []" and rng: "\<forall>k. valid_rng (rng k)"
  shows "\<exists>t. run_frames rng k s = Some t \<and> app_reach t \<and> \<not> isPlaying t \<and> \<not> framePending t \<and>
             ecgData t = ecgData s \<and>
             (isPlaying s \<longrightarrow> dataIndex t = length (ecgData s) \<and> playbackProgress t = 100)"
  using assms
proof (induction s arbitrary: k rule: measure_induct_rule [where f =
    "\<lambda>s. length (ecgData s) - dataIndex s + (if framePending s then 1 else 0)"])
  case (less s)
  have inv: "app_inv s" using less.prems(1) by (rule app_reach_inv)
  show ?case
  proof (cases "framePending s")
    case False
    then show ?thesis using less.prems inv by (simp add: run_frames_stop app_inv_def)
  next
    case True
    let ?s' = "app_step s (Frame (rng k))"
    have play: "isPlaying s" using inv True by (simp add: app_inv_def)
    have up: "uploadedFileName s \<noteq> None" using app_reach_upload [OF less.prems(1)] play by simp
    have r': "app_reach ?s'" by (rule app_reach.step) (use less.prems(1) rng in simp_all)
    show ?thesis
    proof (cases "dataIndex s < length (ecgData s)")
      case lt: True
      note fa = frame_advance [OF inv True up lt, of "rng k"]
      have "length (ecgData ?s') - dataIndex ?s' + (if framePending ?s' then 1 else 0) <
            length (ecgData s) - dataIndex s + (if framePending s then 1 else 0)"
        using fa lt True by simp
      from less.IH [OF this r'] obtain t where
        t: "run_frames rng (Suc k) ?s' = Some t \<and> app_reach t \<and> \<not> isPlaying t \<and> \<not> framePending t \<and>
            ecgData t = ecgData ?s' \<and>
            (isPlaying ?s' \<longrightarrow> dataIndex t = length (ecgData ?s') \<and> playbackProgress t = 100)"
        using fa less.prems(2,3) by fastforce
      then show ?thesis using fa play by (auto simp: run_frames_step [OF True])
    next
      case False
      have idx: "dataIndex s = length (ecgData s)"
        using False inv by (simp add: app_inv_def playback_inv_def)
      note fc = frame_complete [OF inv True up less.prems(2), of "rng k"]
      show ?thesis
        using fc False idx r' by (simp add: run_frames_step [OF True] run_frames_stop)
    qed
  qed
qed

text \<open>
  C32. An empty recording never stops: after the read of a file without numeric rows
  the state plays, \<open>togglePlay\<close> takes the replay branch and keeps it playing, and the
  chain of animation frames never ends.
\<close>

theorem empty_recording_diverges:
  assumes "app_reach s" "uploadedFileName s \<noteq> None" "ecgData s = []" "isPlaying s"
    and rng: "\<forall>k. valid_rng (rng k)"
  shows "isPlaying (app_step s TogglePlay) \<and> run_frames rng k s = None"
proof -
  have "run_frames rng k s \<noteq> Some r" for r
  proof
    assume ret: "run_frames rng k s = Some r"
    have "(\<forall>k. valid_rng (rng k)) \<longrightarrow> app_reach s \<longrightarrow> ecgData s = [] \<longrightarrow> isPlaying s \<longrightarrow> False"
    proof (rule run_frames.raw_induct [where P = "\<lambda>g k s r. (\<forall>k. valid_rng (g k)) \<longrightarrow> app_reach s \<longrightarrow>
        ecgData s = [] \<longrightarrow> isPlaying s \<longrightarrow> False", OF _ ret])
      fix f g k s r
      assume IH: "\<And>g k s r. f g k s = Some r \<Longrightarrow>
          (\<forall>k. valid_rng (g k)) \<longrightarrow> app_reach s \<longrightarrow> ecgData s = [] \<longrightarrow> isPlaying s \<longrightarrow> False"
        and eq: "(if framePending s then f g (Suc k) (app_step s (Frame (g k))) else Some s) = Some r"
      show "(\<forall>k. valid_rng (g k)) \<longrightarrow> app_reach s \<longrightarrow> ecgData s = [] \<longrightarrow> isPlaying s \<longrightarrow> False"
      proof (intro impI)
        assume v: "\<forall>k. valid_rng (g k)" and "app_reach s" "ecgData s = []" "isPlaying s"
        note E = frame_empty_recording [OF this(2-4) spec [OF v, of k]]
        with eq have "f g (Suc k) (app_step s (Frame (g k))) = Some r" by simp
        from IH [OF this] v E show False by blast
      qed
    qed
    with assms(1,3,4) rng show False by simp
  qed
  then have "run_frames rng k s = None" by (cases "run_frames rng k s") auto
  moreover have "isPlaying (app_step s TogglePlay)"
    using assms by (auto simp: togglePlay_def Let_def split: option.split)
  ultimately show ?thesis by simp
qed

theorem empty_recording_diverges_witness:
  "app_reach (app_run app_init [Upload (Some (''mit.csv'', [])), ReaderLoad]) \<and>
   isPlaying (app_run app_init [Upload (Some (''mit.csv'', [])), ReaderLoad]) \<and>
   run_frames (\<lambda>_. \<lparr>jitter_rand = 0, event_rand = 0, pick_rand = 0\<rparr>) 0
     (app_run app_init [Upload (Some (''mit.csv'', [])), ReaderLoad]) = None"
proof -
  have l: "to_lower ''mit.csv'' = ''mit.csv''" by code_simp
  have p: "parse_rows [] = []" by code_simp
  have r: "app_reach (app_run app_init [Upload (Some (''mit.csv'', [])), ReaderLoad])"
    by (intro app_reach_run app_reach.init) simp
  have f: "uploadedFileName (app_run app_init [Upload (Some (''mit.csv'', [])), ReaderLoad]) \<noteq> None \<and>
      ecgData (app_run app_init [Upload (Some (''mit.csv'', [])), ReaderLoad]) = [] \<and>
      isPlaying (app_run app_init [Upload (Some (''mit.csv'', [])), ReaderLoad])"
    by (simp add: app_run_def app_init_def handleFileUpload_def l reader_onload_def p Let_def commit_def
        app_alert_def split: option.split)
  have v: "\<forall>k. valid_rng ((\<lambda>_. \<lparr>jitter_rand = 0, event_rand = 0, pick_rand = 0\<rparr>) k)"
    by (simp add: valid_rng_def)
  show ?thesis using empty_recording_diverges [OF r _ _ _ v, of 0] f r by simp
qed

end
