(* ===== verification/StatusView.thy ===== *)
theory StatusView
  imports Playback
begin

text \<open>
  The presentation logic of \<open>src/src/main.jsx\<close>: what the page shows is a pure function
  of the state of \<open>App\<close>.  \<open>StatusBadge\<close> (lines 33--60) picks a colour for the rhythm
  label by keyword; \<open>RiskGauge\<close> (lines 88--94) colours the risk bar; the JSX of \<open>App\<close>
  (lines 531--758) derives the header label, the play button, the heart-rate card, the
  risk figure and the alert banners from the state.  Colours are the Tailwind colour
  family of the class string (\<open>tone\<close>); icons follow the same branches as the colours.
  \<open>ECGGraph\<close> (lines 444--514) maps the window to the points of a polyline and a
  cursor.  \<open>render\<close> collects the derived values of one render.  The lemmas show that
  the risk of every reachable state is one of the scores the engine and the demo events
  produce, so that the gauge and the figure never disagree on its colour although their
  thresholds differ, and that the trace of a reachable state stays inside the view box
  in sample order (the window invariant of \<open>Playback\<close>).
\<close>

section \<open>Definitions\<close>

text \<open>The colour families of the class strings.\<close>

datatype tone = Slate | Emerald | Amber | Rose | Blue | Teal | Cyan

text \<open>\<open>StatusBadge\<close>, lines 33--52: the first matching keyword group decides.\<close>

definition statusBadge :: "string \<Rightarrow> tone" where
  "statusBadge status =
     (if js_includes status ''Tachycardia'' \<or> js_includes status ''Bradycardia'' \<or>
         js_includes status ''Warning'' \<or> js_includes status ''Irregular'' \<or>
         js_includes status ''Bigeminy'' \<or> js_includes status ''Ectopy'' then Amber
      else if js_includes status ''Critical'' \<or> js_includes status ''Fibrillation'' \<or>
         js_includes status ''Review'' \<or> js_includes status ''Infarction'' \<or>
         js_includes status ''V-Tach'' then Rose
      else if js_includes status ''Standby'' \<or> js_includes status ''Upload'' \<or>
         js_includes status ''Signal'' \<or> js_includes status ''Paused'' then Blue
      else if js_includes status ''Complete'' then Teal
      else if js_includes status ''Noise'' \<or> js_includes status ''Error'' \<or>
         js_includes status ''Artifact'' then Slate
      else Emerald)"

text \<open>
  The badge's text, line 57: \<open>{status} {confidence > 0 && `(${confidence}%)`}\<close>; React
  renders \<open>false\<close> as nothing.  The confidence passed is \<open>Math.round(confidence)\<close>
  (line 659).
\<close>

definition badge_text :: "string \<Rightarrow> int \<Rightarrow> string" where
  "badge_text status conf =
     status @ '' '' @ (if conf > 0 then ''('' @ int_to_string conf @ ''%)'' else [])"

text \<open>\<open>RiskGauge\<close>'s \<open>getColor\<close>, lines 89--94.\<close>

definition getColor :: "int \<Rightarrow> tone" where
  "getColor r = (if r = 0 then Slate else if r < 40 then Emerald else if r < 70 then Amber else Rose)"

text \<open>The header's status dot and label, lines 531 and 533.\<close>

definition status_dot :: "app \<Rightarrow> tone" where
  "status_dot s = (if uploadedFileName s = None then Slate else if isPlaying s then Emerald else Amber)"

definition status_label :: "app \<Rightarrow> string" where
  "status_label s =
     (if uploadedFileName s = None then ''System Paused''
      else if isPlaying s then ''Live Processing''
      else if currentRhythm s = ''Analysis Complete'' then ''Analysis Complete''
      else ''Paused'')"

text \<open>The model's short name in the header, line 543.\<close>

definition model_label :: "string \<Rightarrow> string" where
  "model_label m = (if m = ''mit-bih'' then ''MIT-BIH'' else if m = ''ptb'' then ''PTB-XL'' else ''PhysioNet'')"

text \<open>The play button, lines 558 and 560.\<close>

datatype play_icon = ReplayIcon | PauseIcon | PlayIcon

definition play_button_tone :: "app \<Rightarrow> tone" where
  "play_button_tone s =
     (if isPlaying s then Amber else if currentRhythm s = ''Analysis Complete'' then Teal else Emerald)"

definition play_button_icon :: "app \<Rightarrow> play_icon" where
  "play_button_icon s =
     (if currentRhythm s = ''Analysis Complete'' then ReplayIcon else if isPlaying s then PauseIcon else PlayIcon)"

text \<open>The report button's label, line 569, and the feed indicator, lines 587--589.\<close>

definition report_label :: "app \<Rightarrow> string" where
  "report_label s = (if isGeneratingReport s then ''Generating...'' else ''Report'')"

definition feed_label :: "app \<Rightarrow> string" where
  "feed_label s = (if uploadedFileName s = None then ''Offline'' else ''Live Feed'')"

text \<open>An alert banner's colour by its type, lines 617--620.\<close>

definition alert_tone :: "severity \<Rightarrow> tone" where
  "alert_tone t = (if t = Critical then Rose else if t = Info then Blue else Amber)"

text \<open>The heart-rate card, lines 696--700.\<close>

definition hr_card_tone :: "app \<Rightarrow> tone" where
  "hr_card_tone s =
     (if uploadedFileName s = None then Slate
      else if heartRate s > 100 \<or> (heartRate s > 0 \<and> heartRate s < 60) then Amber
      else Emerald)"

text \<open>The interval cards (QT, PR, QRS), lines 703--718: fixed values per model.\<close>

definition interval_cards :: "app \<Rightarrow> string \<times> string \<times> string" where
  "interval_cards s =
     (if uploadedFileName s = None then (''--'', ''--'', ''--'')
      else (if activeModel s = ''ptb'' then ''460'' else ''420'', ''160'',
            if activeModel s = ''ptb'' then ''110'' else ''90''))"

text \<open>The risk figure's colour, line 735, and the two sub-risk rows, lines 751--758.\<close>

definition risk_text_tone :: "app \<Rightarrow> tone" where
  "risk_text_tone s =
     (if uploadedFileName s = None then Slate
      else if riskScore s > 70 then Rose else if riskScore s > 40 then Amber else Emerald)"

definition sub_risks :: "app \<Rightarrow> (bool \<times> int) \<times> (bool \<times> int)" where
  "sub_risks s =
     ((riskScore s > 40, js_round (real_of_int (riskScore s) * 0.6)),
      (riskScore s > 70, js_round (real_of_int (riskScore s) * 0.1)))"

text \<open>
  The ECG graph (\<open>ECGGraph\<close>, lines 444--514) in its \<open>1000 \<times> 300\<close> view box: with
  fewer than two samples a flat dashed line; otherwise the polyline of the window, sample
  \<open>i\<close> at \<open>x = i / 600 * 1000\<close>, the value scaled from \<open>[minVal, minVal + range]\<close>
  to the height, and with a file loaded the cursor circle right of the last sample.  The
  polyline's \<open>points\<close> string is the list of coordinate pairs.
\<close>

datatype graph = Flatline | Trace "(real \<times> real) list" "(real \<times> real) option"

definition ecg_graph :: "signal \<Rightarrow> string option \<Rightarrow> graph" where
  "ecg_graph data name =
     (if length data < 2 then Flatline
      else
        (let minVal = (if name = None then -0.1 else -1) :: real;
             range = (if name = None then 0.2 else 3) :: real;
             plot_y = (\<lambda>v. 300 - (v - minVal) / range * 300);
             points = map (\<lambda>i. (real i / real POINTS_PER_WINDOW * 1000, plot_y (data ! i))) [0..<length data];
             cursor = (if 0 < length data \<and> name \<noteq> None
                       then Some (real (length data) / real POINTS_PER_WINDOW * 1000,
                                  plot_y (data ! (length data - 1)))
                       else None)
         in Trace points cursor))"

text \<open>The derived values of one render of \<open>App\<close>.\<close>

record view =
  v_badge :: tone
  v_badge_text :: string
  v_gauge :: tone
  v_status_dot :: tone
  v_status_label :: string
  v_model :: string
  v_play_tone :: tone
  v_play_icon :: play_icon
  v_report :: string
  v_feed :: string
  v_alerts :: "(string \<times> tone) list"
  v_hr_value :: int
  v_hr_tone :: tone
  v_intervals :: "string \<times> string \<times> string"
  v_risk_value :: int
  v_risk_tone :: tone
  v_risk_overlay :: bool
  v_sub_risks :: "(bool \<times> int) \<times> (bool \<times> int)"
  v_graph :: graph

definition render :: "app \<Rightarrow> view" where
  "render s =
     \<lparr>v_badge = statusBadge (currentRhythm s),
      v_badge_text = badge_text (currentRhythm s) (js_round (confidence s)),
      v_gauge = getColor (riskScore s),
      v_status_dot = status_dot s, v_status_label = status_label s,
      v_model = model_label (activeModel s),
      v_play_tone = play_button_tone s, v_play_icon = play_button_icon s,
      v_report = report_label s, v_feed = feed_label s,
      v_alerts = map (\<lambda>a. (alert_msg a, alert_tone (alert_type a))) (alerts (alertState s)),
      v_hr_value = js_round (heartRate s), v_hr_tone = hr_card_tone s,
      v_intervals = interval_cards s,
      v_risk_value = js_round (real_of_int (riskScore s)), v_risk_tone = risk_text_tone s,
      v_risk_overlay = (riskScore s > 70), v_sub_risks = sub_risks s,
      v_graph = ecg_graph (displayData s) (uploadedFileName s)\<rparr>"

text \<open>
  The scores the state can hold: those of the engine's verdicts and of the demo events.
\<close>

definition risk_levels :: "int list" where
  "risk_levels = [0, 15, 20, 45, 55, 65, 85, 88, 100]"

text \<open>Every score held by the state, shown or captured by a pending revert, is a level.\<close>

definition risk_inv :: "app \<Rightarrow> bool" where
  "risk_inv s \<longleftrightarrow>
     riskScore s \<in> set risk_levels \<and>
     (\<forall>a. analysisResult s = Some a \<longrightarrow> risk a \<in> set risk_levels) \<and>
     (\<forall>(t, c) \<in> set (revertTimers s). \<forall>a. c = Some a \<longrightarrow> risk a \<in> set risk_levels)"

section \<open>Lemmas\<close>

lemma analysis_risk_level: "risk (analyzeECGSignal data) \<in> set risk_levels"
  by (auto simp: analyzeECGSignal_def classify_def Let_def risk_levels_def result_defs
      split: list.split prod.split)

lemma risk_revert_fold:
  "riskScore s \<in> set risk_levels \<Longrightarrow> \<forall>(t, c) \<in> set ts. \<forall>a. c = Some a \<longrightarrow> risk a \<in> set risk_levels \<Longrightarrow>
     riskScore (fold (\<lambda>(t, a). revert_event a) ts s) \<in> set risk_levels"
  by (induction ts arbitrary: s) (auto simp: revert_event_def split: option.split)

lemma risk_inv_init: "risk_inv app_init"
  by (simp add: risk_inv_def app_init_def risk_levels_def)

lemma valid_anomaly: "valid_rng rng \<Longrightarrow> anomalies ! nat \<lfloor>pick_rand rng * 3\<rfloor> \<in> set anomalies"
proof -
  assume v: "valid_rng rng"
  have "nat \<lfloor>pick_rand rng * 3\<rfloor> < 3"
    using v by (simp add: valid_rng_def nat_less_iff floor_less_iff)
  then show ?thesis by (intro nth_mem) (simp add: anomalies_def)
qed

lemma risk_inv_inject: "risk_inv s \<Longrightarrow> valid_rng rng \<Longrightarrow> risk_inv (injectDemoEvents rng s)"
  using valid_anomaly [of rng]
  by (auto simp: risk_inv_def injectDemoEvents_def show_event_def app_alert_def criticalEvent_def Let_def
      risk_levels_def anomalies_def)

lemma risk_inv_jitter: "risk_inv (jitter_rate rng i s) = risk_inv s"
  by (simp add: risk_inv_def)

lemma risk_inv_complete: "risk_inv s \<Longrightarrow> risk_inv (complete_playback s)"
  by (auto simp: risk_inv_def complete_playback_def Let_def app_alert_def split: option.split)

lemma risk_inv_update: "risk_inv s \<Longrightarrow> valid_rng rng \<Longrightarrow> risk_inv (updateSimulation rng s)"
proof -
  assume r: "risk_inv s" and v: "valid_rng rng"
  let ?s0 = "s\<lparr>simTime := simTime s + 1 / 60\<rparr>"
  have r0: "risk_inv ?s0" using r by (simp add: risk_inv_def)
  have r1: "\<And>i p. risk_inv (?s0\<lparr>dataIndex := i, playbackProgress := p\<rparr>)" using r by (simp add: risk_inv_def)
  have "risk_inv (snd (advance_playback rng ?s0))"
  proof -
    have "\<And>x i p. risk_inv (injectDemoEvents rng (jitter_rate rng x (?s0\<lparr>dataIndex := i, playbackProgress := p\<rparr>)))"
      by (intro risk_inv_inject v) (simp add: risk_inv_jitter r1)
    then show ?thesis using r1 by (simp add: advance_playback_def Let_def risk_inv_jitter split: prod.split)
  qed
  moreover have "risk_inv (complete_playback ?s0)" using r0 by (rule risk_inv_complete)
  moreover obtain pts s3 where "advance_playback rng ?s0 = (pts, s3)" by fastforce
  ultimately show ?thesis
    using r0 by (simp add: updateSimulation_def Let_def risk_inv_def)
qed

lemma risk_inv_step: "risk_inv s \<Longrightarrow> valid_event e \<Longrightarrow> risk_inv (app_step s e)"
proof (cases e)
  case ReaderLoad
  assume "risk_inv s"
  then show ?thesis using ReaderLoad analysis_risk_level
    by (auto simp: risk_inv_def reader_onload_def Let_def app_alert_def split: list.split option.split)
next
  case (Frame rng)
  assume "risk_inv s" "valid_event e"
  then show ?thesis using Frame risk_inv_update [of s rng] by (simp add: risk_inv_def)
next
  case (Wait d)
  assume "risk_inv s"
  then show ?thesis using Wait risk_revert_fold [of s "filter (\<lambda>(t, a). t \<le> clock s + d) (revertTimers s)"]
      revert_fold_fields [of "filter (\<lambda>(t, a). t \<le> clock s + d) (revertTimers s)" s]
    by (auto simp: risk_inv_def fire_timers_def Let_def)
qed (auto simp: risk_inv_def handleFileUpload_def togglePlay_def generateReport_def Let_def app_alert_def
       split: option.split)

lemma ecg_graph_trace:
  assumes "length data \<le> POINTS_PER_WINDOW" "ecg_graph data name = Trace pts cur"
  shows "length pts = length data \<and> sorted_wrt (<) (map fst pts) \<and>
         (\<forall>p \<in> set pts. 0 \<le> fst p \<and> fst p < 1000) \<and>
         (\<forall>c. cur = Some c \<longrightarrow> snd c = snd (last pts) \<and> fst (last pts) < fst c \<and> fst c \<le> 1000)"
proof -
  have n: "2 \<le> length data" using assms(2) by (simp add: ecg_graph_def split: if_splits)
  define mv :: real where "mv = (if name = None then -0.1 else -1)"
  define rg :: real where "rg = (if name = None then 0.2 else 3)"
  define py where "py = (\<lambda>v. 300 - (v - mv) / rg * 300)"
  have pts: "pts = map (\<lambda>i. (real i / 600 * 1000, py (data ! i))) [0..<length data]"
   and cur: "cur = (if name \<noteq> None then Some (real (length data) / 600 * 1000, py (data ! (length data - 1))) else None)"
    using assms(2) n by (auto simp: ecg_graph_def Let_def mv_def rg_def py_def)
  have "sorted_wrt (<) (map fst pts)"
    unfolding pts by (simp add: sorted_wrt_map sorted_wrt_iff_nth_less divide_strict_right_mono)
  moreover have "\<forall>p \<in> set pts. 0 \<le> fst p \<and> fst p < 1000"
    using assms(1) by (auto simp: pts)
  moreover have "last pts = (real (length data - 1) / 600 * 1000, py (data ! (length data - 1)))"
  proof -
    obtain m where m: "length data = Suc m" using n by (cases "length data") auto
    show ?thesis unfolding pts m by simp
  qed
  ultimately show ?thesis using n assms(1) by (auto simp: pts cur)
qed

lemma app_reach_risk_inv: "app_reach s \<Longrightarrow> risk_inv s"
  by (induction rule: app_reach.induct) (simp_all add: risk_inv_init risk_inv_step)

section \<open>Properties of the presentation\<close>

text \<open>
  C30. Every render of a reachable state is consistent.  The risk shown is one of the
  scores of the engine's verdicts and of the demo events (0, 15, 20, 45, 55, 65, 85, 88,
  100), reverts and completion included; hence, with a file loaded and a non-zero risk,
  the gauge (thresholds \<open>< 40\<close>, \<open>< 70\<close>) and the risk figure (thresholds \<open>> 70\<close>,
  \<open>> 40\<close>) show the same colour, no reachable score lying where they differ.  The ECG
  trace has one point per sample of the window, in sample order, inside the view box
  horizontally, and the cursor sits right of its last point at the same height.
\<close>

theorem reachable_render_consistent:
  assumes "app_reach s"
  shows "riskScore s \<in> set risk_levels \<and>
         (uploadedFileName s \<noteq> None \<longrightarrow> riskScore s \<noteq> 0 \<longrightarrow> v_gauge (render s) = v_risk_tone (render s)) \<and>
         (\<forall>pts cur. v_graph (render s) = Trace pts cur \<longrightarrow>
            length pts = length (displayData s) \<and> sorted_wrt (<) (map fst pts) \<and>
            (\<forall>p \<in> set pts. 0 \<le> fst p \<and> fst p < 1000) \<and>
            (\<forall>c. cur = Some c \<longrightarrow> snd c = snd (last pts) \<and> fst (last pts) < fst c \<and> fst c \<le> 1000))"
proof -
  have r: "riskScore s \<in> set risk_levels" using app_reach_risk_inv [OF assms] by (simp add: risk_inv_def)
  have w: "length (displayData s) \<le> POINTS_PER_WINDOW"
    using app_reach_inv [OF assms] by (simp add: app_inv_def playback_inv_def)
  have v: "v_gauge (render s) = getColor (riskScore s)" "v_risk_tone (render s) = risk_text_tone s"
      "v_graph (render s) = ecg_graph (displayData s) (uploadedFileName s)"
    by (simp_all only: render_def view.select_convs)
  have "uploadedFileName s \<noteq> None \<longrightarrow> riskScore s \<noteq> 0 \<longrightarrow> getColor (riskScore s) = risk_text_tone s"
    using r by (auto simp: risk_levels_def getColor_def risk_text_tone_def)
  then show ?thesis using r ecg_graph_trace [OF w] unfolding v by blast
qed

end
