(* ===== verification/Dashboard.thy ===== *)
theory Dashboard
  imports StatusView
begin

text \<open>
  The rest of the page of \<open>src/src/main.jsx\<close>: the \<open>MetricCard\<close> component (lines
  62--86) with its colour map and the class strings it cuts out of it, \<open>RiskGauge\<close>
  (lines 88--109), \<open>ModelSelector\<close> (lines 111--135), and the panels of \<open>App\<close>'s
  JSX: the monitor header with the progress bar (lines 583--607), the alert overlay
  (lines 614--625), the reasoning and prediction panels (lines 628--671), the model card
  (lines 679--691), the four stat cards (lines 694--722), the risk card (lines 724--762)
  and the print-only report (lines 777--854) with the moment it is printed (the report
  timeout of lines 320--323).  The lemmas show that the model shown is always one of the
  selector's (header, buttons and description agree), that every stat card finds its
  colours (no \<open>undefined\<close> read), that every bar of the page is between 0 and 100 \%
  wide, what the printed report shows, and that the error alert of \<open>generateReport\<close>
  is never raised.
\<close>

section \<open>Definitions\<close>

subsection \<open>MetricCard\<close>

text \<open>The colour family a tone is written with: the cards' \<open>color\<close> props (line 700).\<close>

definition tone_name :: "tone \<Rightarrow> string" where
  "tone_name t =
     (case t of Slate \<Rightarrow> ''slate'' | Emerald \<Rightarrow> ''emerald'' | Amber \<Rightarrow> ''amber'' | Rose \<Rightarrow> ''rose''
      | Blue \<Rightarrow> ''blue'' | Teal \<Rightarrow> ''teal'' | Cyan \<Rightarrow> ''cyan'')"

text \<open>\<open>colorMap\<close>, lines 63--71: an object literal, read as an association list.\<close>

definition colorMap :: "(string \<times> string) list" where
  "colorMap =
     [(''cyan'', ''text-cyan-400 from-cyan-500/20 to-cyan-500/5 border-cyan-500/30''),
      (''emerald'', ''text-emerald-400 from-emerald-500/20 to-emerald-500/5 border-emerald-500/30''),
      (''rose'', ''text-rose-400 from-rose-500/20 to-rose-500/5 border-rose-500/30''),
      (''amber'', ''text-amber-400 from-amber-500/20 to-amber-500/5 border-amber-500/30''),
      (''blue'', ''text-blue-400 from-blue-500/20 to-blue-500/5 border-blue-500/30''),
      (''slate'', ''text-slate-400 from-slate-500/20 to-slate-500/5 border-slate-500/30''),
      (''teal'', ''text-teal-400 from-teal-500/20 to-teal-500/5 border-teal-500/30'')]"

text \<open>The props of a card (line 62); an absent \<open>unit\<close> or \<open>subtext\<close> is the empty string.\<close>

record metric_card =
  mc_label :: string
  mc_value :: string
  mc_unit :: string
  mc_color :: string
  mc_subtext :: string

text \<open>What a card shows: the classes it cuts from its map entry and its texts.\<close>

record card_view =
  cv_gradient :: string
  cv_border :: string
  cv_glow :: string
  cv_text :: string
  cv_label :: string
  cv_value :: string
  cv_unit :: "string option"
  cv_subtext :: "string option"

text \<open>
  \<open>MetricCard\<close>, lines 62--86: the gradient is the map entry without its first word
  (\<open>split(' ').slice(1).join(' ')\<close>), the border its last word (\<open>pop()\<close>), the value's
  colour its first word (\<open>[0]\<close>), the glow is built from the colour's name.  A colour
  outside the map reads \<open>undefined.split\<close> and the render throws: \<open>None\<close>.  \<open>{unit && ...}\<close>
  and \<open>{subtext && ...}\<close> show nothing for an empty or absent text.
\<close>

definition MetricCard :: "metric_card \<Rightarrow> card_view option" where
  "MetricCard c =
     (case map_of colorMap (mc_color c) of
        None \<Rightarrow> None
      | Some cls \<Rightarrow>
          (let parts = js_split CHR '' '' cls in
           Some \<lparr>cv_gradient = join_with CHR '' '' (drop 1 parts), cv_border = last parts,
                 cv_glow = ''bg-'' @ mc_color c @ ''-500/10'', cv_text = hd parts,
                 cv_label = mc_label c, cv_value = mc_value c,
                 cv_unit = (if mc_unit c = [] then None else Some (mc_unit c)),
                 cv_subtext = (if mc_subtext c = [] then None else Some (mc_subtext c))\<rparr>))"

text \<open>
  The stat cards of lines 694--722: the heart rate (\<open>Math.round(heartRate)\<close> rendered as
  a number) in the colour of \<open>hr_card_tone\<close>, and the three interval cards in cyan.
\<close>

definition stat_cards :: "app \<Rightarrow> metric_card list" where
  "stat_cards s =
     (case interval_cards s of
        (qt, pr, qrs) \<Rightarrow>
          [\<lparr>mc_label = ''Heart Rate'', mc_value = int_to_string (js_round (heartRate s)), mc_unit = ''BPM'',
            mc_color = tone_name (hr_card_tone s), mc_subtext = ''10s Avg''\<rparr>,
           \<lparr>mc_label = ''QT Interval'', mc_value = qt, mc_unit = ''ms'', mc_color = ''cyan'', mc_subtext = ''QTc''\<rparr>,
           \<lparr>mc_label = ''PR Interval'', mc_value = pr, mc_unit = ''ms'', mc_color = ''cyan'', mc_subtext = []\<rparr>,
           \<lparr>mc_label = ''QRS Width'', mc_value = qrs, mc_unit = ''ms'', mc_color = ''cyan'', mc_subtext = []\<rparr>])"

subsection \<open>RiskGauge and ModelSelector\<close>

text \<open>\<open>RiskGauge\<close>, lines 88--109: the bar's colour and its width in percent.\<close>

definition RiskGauge :: "int \<Rightarrow> tone \<times> int" where
  "RiskGauge r = (getColor r, r)"

text \<open>
  \<open>ModelSelector\<close>, lines 111--135: one button per model, labelled with its name and
  highlighted when its id is the active model.
\<close>

definition ModelSelector :: "string \<Rightarrow> (string \<times> bool) list" where
  "ModelSelector active = map (\<lambda>m. (model_name m, active = model_id m)) models"

text \<open>The model card's description, lines 685--690: one paragraph per matching id.\<close>

definition model_description :: "string \<Rightarrow> string list" where
  "model_description m =
     (if m = ''mit-bih'' then [''MIT-BIH Database: The gold standard for arrhythmia detection. Contains 48 half-hour excerpts of 2-channel ambulatory ECG recordings.''] else []) @
     (if m = ''ptb'' then [''PTB Diagnostic Database: Specialized for myocardial infarction detection. Contains 549 records from 290 subjects.''] else []) @
     (if m = ''physionet'' then [''PhysioNet Challenge 2017: Focused on AFib detection from single-lead short recordings. High noise robustness.''] else [])"

text \<open>The model's full name in the printed report, line 801.\<close>

definition model_full_name :: "string \<Rightarrow> string" where
  "model_full_name m =
     (if m = ''mit-bih'' then ''MIT-BIH Arrhythmia Database''
      else if m = ''ptb'' then ''PTB Diagnostic ECG Database'' else ''PhysioNet Challenge 2017'')"

subsection \<open>Panels of the page\<close>

text \<open>
  The monitor header and the progress bar, lines 583--607: the feed dot and label, the
  source (the file name, or \<open>NO SIGNAL SOURCE\<close>), and with a file the progress bar at
  \<open>playbackProgress\<close> percent.
\<close>

record monitor_header =
  mh_dot :: tone
  mh_label :: string
  mh_source :: string
  mh_progress :: "real option"

definition monitorHeader :: "app \<Rightarrow> monitor_header" where
  "monitorHeader s =
     (case uploadedFileName s of
        None \<Rightarrow> \<lparr>mh_dot = Slate, mh_label = feed_label s, mh_source = ''NO SIGNAL SOURCE'', mh_progress = None\<rparr>
      | Some name \<Rightarrow> \<lparr>mh_dot = Cyan, mh_label = feed_label s, mh_source = name,
                      mh_progress = Some (playbackProgress s)\<rparr>)"

text \<open>
  The alert overlay, lines 614--625: one banner per alert, keyed by its id, coloured and
  iconed by its type; all but \<open>info\<close> banners show \<open>new Date().toLocaleTimeString()\<close>,
  the time of the render (its formatting is not modelled).
\<close>

datatype alert_icon = ZapIcon | InfoIcon | TriangleIcon

record banner =
  b_key :: msec
  b_tone :: tone
  b_icon :: alert_icon
  b_msg :: string
  b_timestamp :: "msec option"

definition alert_banner :: "msec \<Rightarrow> alert_entry \<Rightarrow> banner" where
  "alert_banner now a =
     \<lparr>b_key = alert_id a, b_tone = alert_tone (alert_type a),
      b_icon = (if alert_type a = Critical then ZapIcon else if alert_type a = Info then InfoIcon else TriangleIcon),
      b_msg = alert_msg a, b_timestamp = (if alert_type a \<noteq> Info then Some now else None)\<rparr>"

definition alert_overlay :: "app \<Rightarrow> banner list" where
  "alert_overlay s = map (alert_banner (clock s)) (alerts (alertState s))"

text \<open>
  The reasoning panel, lines 628--649 (the explanation and the engine tag), and the
  prediction panel, lines 651--671 (the badge, the rounded confidence and the confidence
  bar at \<open>confidence\<close> percent).
\<close>

definition ai_panel :: "app \<Rightarrow> string \<times> string" where
  "ai_panel s = (aiExplanation s, if uploadedFileName s = None then ''System Idle'' else ''Heuristic V3'')"

record prediction_panel =
  pp_badge :: tone
  pp_badge_text :: string
  pp_confidence :: int
  pp_bar :: real

definition predictionPanel :: "app \<Rightarrow> prediction_panel" where
  "predictionPanel s =
     \<lparr>pp_badge = statusBadge (currentRhythm s),
      pp_badge_text = badge_text (currentRhythm s) (js_round (confidence s)),
      pp_confidence = js_round (confidence s), pp_bar = confidence s\<rparr>"

text \<open>
  The risk card, lines 724--762: the red glow above 70, the icon's colour, the figure
  (\<open>risk_text_tone\<close>, \<open>Math.round(riskScore)\<close>), the gauge and the two sub-risk rows.
\<close>

record risk_card =
  rc_glow :: bool
  rc_icon :: tone
  rc_figure_tone :: tone
  rc_figure :: int
  rc_gauge :: "tone \<times> int"
  rc_sub :: "(bool \<times> int) \<times> (bool \<times> int)"

definition riskCard :: "app \<Rightarrow> risk_card" where
  "riskCard s =
     \<lparr>rc_glow = (riskScore s > 70), rc_icon = (if riskScore s > 70 then Rose else Amber),
      rc_figure_tone = risk_text_tone s, rc_figure = js_round (real_of_int (riskScore s)),
      rc_gauge = RiskGauge (riskScore s), rc_sub = sub_risks s\<rparr>"

subsection \<open>The printed report\<close>

text \<open>
  The print-only block, lines 777--854: the patient id \<open>Math.floor(Math.random() *
  100000)\<close> drawn by the render (\<open>rnd\<close>), the model's full name, the vitals, the
  classification, the explanation and the two fixed notes.  The date
  (\<open>formatDate(new Date())\<close>, \<open>Intl.DateTimeFormat\<close>) is not modelled.
\<close>

record print_report =
  pr_patient :: int
  pr_model :: string
  pr_hr :: int
  pr_risk :: int
  pr_rhythm :: string
  pr_confidence :: int
  pr_explanation :: string
  pr_notes :: "string list"

definition print_view :: "real \<Rightarrow> app \<Rightarrow> print_report" where
  "print_view rnd s =
     \<lparr>pr_patient = \<lfloor>rnd * 100000\<rfloor>, pr_model = model_full_name (activeModel s),
      pr_hr = js_round (heartRate s), pr_risk = js_round (real_of_int (riskScore s)),
      pr_rhythm = currentRhythm s, pr_confidence = js_round (confidence s),
      pr_explanation = aiExplanation s,
      pr_notes = [''Verified by BiLSTM v2.4'', ''Signal Quality: Optimal'']\<rparr>"

text \<open>
  When the report is printed: the timeout of \<open>generateReport\<close> (lines 320--323) calls
  \<open>window.print()\<close> 1500 ms after the click, which prints the page as last rendered.  In
  a \<open>Wait\<close> that reaches a pending report timeout, the page printed is the state at that
  timeout's time, after the timeouts due by then (those due in the same millisecond are
  taken to run first).  The button is disabled while a report is pending, so at most one
  is.
\<close>

definition print_time :: "app \<Rightarrow> msec \<Rightarrow> msec option" where
  "print_time s now = (case filter (\<lambda>t. t \<le> now) (reportTimers s) of [] \<Rightarrow> None | t # _ \<Rightarrow> Some t)"

definition printed_report :: "real \<Rightarrow> app \<Rightarrow> event \<Rightarrow> print_report option" where
  "printed_report rnd s e =
     (case e of
        Wait d \<Rightarrow> map_option (\<lambda>t. print_view rnd (fire_timers t s)) (print_time s (clock s + d))
      | _ \<Rightarrow> None)"

subsection \<open>Reference definitions\<close>

text \<open>The card a colour is meant to give: text, gradient and border of its one family.\<close>

definition card_spec :: "metric_card \<Rightarrow> card_view" where
  "card_spec c =
     (let col = mc_color c in
      \<lparr>cv_gradient = ''from-'' @ col @ ''-500/20 to-'' @ col @ ''-500/5 border-'' @ col @ ''-500/30'',
       cv_border = ''border-'' @ col @ ''-500/30'', cv_glow = ''bg-'' @ col @ ''-500/10'',
       cv_text = ''text-'' @ col @ ''-400'', cv_label = mc_label c, cv_value = mc_value c,
       cv_unit = (if mc_unit c = [] then None else Some (mc_unit c)),
       cv_subtext = (if mc_subtext c = [] then None else Some (mc_subtext c))\<rparr>)"

text \<open>The active model is the id of one of the selector's buttons.\<close>

definition model_inv :: "app \<Rightarrow> bool" where
  "model_inv s \<longleftrightarrow> activeModel s \<in> set (map model_id models)"

text \<open>A message that neither an active alert nor a pending timeout carries.\<close>

definition lacks_msg :: "string \<Rightarrow> alert_state \<Rightarrow> bool" where
  "lacks_msg m st \<longleftrightarrow> m \<notin> alert_msg ` set (alerts st) \<and> m \<notin> snd ` set (timers st)"

section \<open>Lemmas\<close>

text \<open>What each event does to the fields the page reads besides those of \<open>Playback\<close>.\<close>

lemma activeModel_step:
  "activeModel (app_step s e) = (case e of SelectModel m \<Rightarrow> m | _ \<Rightarrow> activeModel s)"
proof (cases e)
  case (Frame rng)
  then show ?thesis by (simp add: updateSimulation_def advance_playback_def complete_playback_def Let_def
      split: prod.split option.split)
next
  case (Wait d)
  then show ?thesis using revert_fold_fields [of "filter (\<lambda>(t, a). t \<le> clock s + d) (revertTimers s)" s]
    by (simp add: fire_timers_def Let_def)
qed (auto simp: handleFileUpload_def reader_onload_def togglePlay_def generateReport_def Let_def app_alert_def
       split: option.split list.split)

lemma confidence_step: "confidence (app_step s e) \<in> {confidence s, 99.5, 100}"
proof (cases e)
  case (Frame rng)
  then show ?thesis by (simp add: updateSimulation_def advance_playback_def complete_playback_def Let_def
      split: prod.split option.split)
next
  case (Wait d)
  then show ?thesis using revert_fold_fields [of "filter (\<lambda>(t, a). t \<le> clock s + d) (revertTimers s)" s]
    by (simp add: fire_timers_def Let_def)
qed (auto simp: handleFileUpload_def reader_onload_def togglePlay_def generateReport_def Let_def app_alert_def
       split: option.split list.split)

lemma report_fields_step:
  assumes "e \<noteq> GenerateReport" "\<forall>d. e \<noteq> Wait d"
  shows "isGeneratingReport (app_step s e) = isGeneratingReport s \<and> reportTimers (app_step s e) = reportTimers s"
proof (cases e)
  case (Frame rng)
  then show ?thesis by (simp add: updateSimulation_def advance_playback_def Let_def split: prod.split)
qed (use assms in \<open>auto simp: handleFileUpload_def reader_onload_def togglePlay_def Let_def app_alert_def
       split: option.split list.split\<close>)

lemma report_fields_run:
  "list_all (\<lambda>e. e \<noteq> GenerateReport \<and> (\<forall>d. e \<noteq> Wait d)) evs \<Longrightarrow>
     isGeneratingReport (app_run s evs) = isGeneratingReport s \<and> reportTimers (app_run s evs) = reportTimers s"
proof (induction evs arbitrary: s)
  case (Cons e evs)
  then show ?case using report_fields_step [of e s] by (simp add: app_run_def del: app_step.simps)
qed (simp add: app_run_def)

text \<open>The completion frame restores the cached result's rate and risk at full confidence.\<close>

lemma frame_complete_result:
  assumes "app_inv s" "framePending s" "uploadedFileName s \<noteq> None" "ecgData s \<noteq> []"
    "length (ecgData s) \<le> dataIndex s" "analysisResult s = Some a"
  shows "riskScore (app_step s (Frame rng)) = risk a \<and> confidence (app_step s (Frame rng)) = 100 \<and>
         heartRate (app_step s (Frame rng)) = hr a \<and> reportTimers (app_step s (Frame rng)) = reportTimers s"
proof -
  have "isPlaying s" using assms by (simp add: app_inv_def)
  then show ?thesis
    using assms by (simp add: updateSimulation_def complete_playback_def Let_def app_alert_def)
qed

text \<open>The class surgery of \<open>MetricCard\<close> on every entry of the map.\<close>

lemma MetricCard_spec:
  "MetricCard c = (if map_of colorMap (mc_color c) = None then None else Some (card_spec c))"
proof (cases "map_of colorMap (mc_color c)")
  case (Some cls)
  then have "mc_color c \<in> {''cyan'', ''emerald'', ''rose'', ''amber'', ''blue'', ''slate'', ''teal''}"
    by (auto simp: colorMap_def split: if_splits)
  then show ?thesis using Some by (auto simp: MetricCard_def card_spec_def colorMap_def js_split_def)
qed (simp add: MetricCard_def)

lemma app_reach_model: "app_reach s \<Longrightarrow> model_inv s"
proof (induction rule: app_reach.induct)
  case init
  then show ?case by (simp add: model_inv_def app_init_def models_def)
next
  case (step s e)
  then show ?case using activeModel_step [of s e]
    by (cases e) (simp_all add: model_inv_def del: app_step.simps)
qed

lemma app_reach_confidence: "app_reach s \<Longrightarrow> confidence s \<in> {0, 99.5, 100}"
proof (induction rule: app_reach.induct)
  case init
  then show ?case by (simp add: app_init_def)
next
  case (step s e)
  then show ?case using confidence_step [of s e] by auto
qed

text \<open>
  The messages raised by the handlers: only \<open>generateReport\<close> raises
  \<open>No Data to Report\<close>, and the report button is disabled where it would.
\<close>

lemma lacks_trigger: "lacks_msg m st \<Longrightarrow> msg \<noteq> m \<Longrightarrow> lacks_msg m (triggerAlert now msg type st)"
  using set_add_alert [of now msg type "alerts st"] by (auto simp: lacks_msg_def triggerAlert_def)

lemma lacks_fire: "lacks_msg m st \<Longrightarrow> lacks_msg m (fire_alert_timers now st)"
  by (auto simp: lacks_msg_def fire_alert_timers_def set_fold_remove_alert)

lemma analysis_alert_no_data: "alert (analyzeECGSignal data) \<noteq> Some ''No Data to Report''"
  by (auto simp: analyzeECGSignal_def classify_def Let_def result_defs split: list.split prod.split)

lemma no_data_step:
  assumes "lacks_msg ''No Data to Report'' (alertState s)" "valid_event e"
  shows "lacks_msg ''No Data to Report'' (alertState (app_step s e))"
proof (cases e)
  case (Frame rng)
  have v: "valid_rng rng" using assms(2) Frame by simp
  have "\<forall>x \<in> set anomalies. ev_alert x \<noteq> ''No Data to Report''" by (simp add: anomalies_def)
  then have a: "ev_alert (anomalies ! nat \<lfloor>pick_rand rng * 3\<rfloor>) \<noteq> ''No Data to Report''"
    using valid_anomaly [OF v] by blast
  show ?thesis using Frame assms(1) a
    by (auto simp: updateSimulation_def advance_playback_def complete_playback_def injectDemoEvents_def
        show_event_def app_alert_def criticalEvent_def Let_def intro!: lacks_trigger split: prod.split option.split)
next
  case (Wait d)
  then show ?thesis using assms(1) by (simp add: fire_timers_def Let_def lacks_fire)
next
  case ReaderLoad
  then show ?thesis using assms(1) analysis_alert_no_data
    by (auto simp: reader_onload_def Let_def app_alert_def intro!: lacks_trigger split: list.split option.split)
qed (use assms in \<open>auto simp: handleFileUpload_def togglePlay_def generateReport_def app_alert_def Let_def
       intro!: lacks_trigger split: option.split\<close>)

section \<open>Properties of the page\<close>

text \<open>
  C31. The error branch of \<open>generateReport\<close> is dead: in no reachable state is the alert
  \<open>No Data to Report\<close> shown or its timeout pending, because the report button is
  disabled without a file (line 566) and no other handler raises that message.
\<close>

theorem no_data_alert_unreachable:
  assumes "app_reach s"
  shows "''No Data to Report'' \<notin> alert_msg ` set (alerts (alertState s)) \<and>
         ''No Data to Report'' \<notin> snd ` set (timers (alertState s))"
proof -
  have "lacks_msg ''No Data to Report'' (alertState s)"
    using assms
  proof (induction rule: app_reach.induct)
    case init
    then show ?case by (simp add: lacks_msg_def app_init_def alert_init_def)
  next
    case (step s e)
    then show ?case using no_data_step by blast
  qed
  then show ?thesis by (simp add: lacks_msg_def)
qed

theorem no_data_alert_unreachable_witness:
  "uploadedFileName app_init = None \<and>
   ''No Data to Report'' \<notin> alert_msg ` set (alerts (alertState (app_step app_init GenerateReport)))"
proof -
  have "app_reach (app_step app_init GenerateReport)" by (rule app_reach.step [OF app_reach.init]) simp
  from no_data_alert_unreachable [OF this] show ?thesis by (simp add: app_init_def)
qed

text \<open>
  C36. The model shown is always one of the selector's: in every reachable state the
  active model is a button's id, exactly one button is highlighted and carries the
  header's name, the model card shows exactly one description, and the printed report's
  fallback name is used for PhysioNet only.
\<close>

theorem model_views_agree:
  assumes "app_reach s"
  shows "activeModel s \<in> set (map model_id models) \<and>
         filter snd (ModelSelector (activeModel s)) = [(model_label (activeModel s), True)] \<and>
         length (model_description (activeModel s)) = 1 \<and>
         (model_full_name (activeModel s) = ''PhysioNet Challenge 2017'' \<longleftrightarrow> activeModel s = ''physionet'')"
proof -
  have "activeModel s \<in> {''mit-bih'', ''ptb'', ''physionet''}"
    using app_reach_model [OF assms] by (simp add: model_inv_def models_def)
  then show ?thesis
    by (auto simp: models_def ModelSelector_def model_label_def model_description_def model_full_name_def)
qed

theorem model_views_agree_witness:
  "activeModel (app_step app_init (SelectModel ''ptb'')) = ''ptb'' \<and>
   filter snd (ModelSelector ''ptb'') = [(''PTB-XL'', True)] \<and> length (model_description ''ptb'') = 1"
proof -
  have r: "app_reach (app_step app_init (SelectModel ''ptb''))"
    by (rule app_reach.step [OF app_reach.init]) (simp add: models_def)
  have a: "activeModel (app_step app_init (SelectModel ''ptb'')) = ''ptb''"
    by (simp add: commit_def)
  show ?thesis using model_views_agree [OF r] unfolding a by (simp add: model_label_def)
qed

text \<open>
  C37. Every stat card of every state renders: its colour is in \<open>colorMap\<close> (no
  \<open>undefined.split\<close>), and the words cut from the map entry give the text, gradient and
  border classes of that one colour family.
\<close>

theorem stat_cards_render: "map MetricCard (stat_cards s) = map (\<lambda>c. Some (card_spec c)) (stat_cards s)"
  by (simp add: stat_cards_def MetricCard_spec interval_cards_def hr_card_tone_def tone_name_def colorMap_def
      split: prod.split)

text \<open>
  C38. Every bar of the page of a reachable state is between 0 and 100 \% wide (progress,
  risk gauge, confidence), the risk figure is within [0, 100], the shown confidence is 0
  or 100 (99.5 rounds up), and the sub-risks are at most 60 and 10.
\<close>

theorem page_bars_bounded:
  assumes "app_reach s"
  shows "(\<forall>w. mh_progress (monitorHeader s) = Some w \<longrightarrow> 0 \<le> w \<and> w \<le> 100) \<and>
         0 \<le> snd (rc_gauge (riskCard s)) \<and> snd (rc_gauge (riskCard s)) \<le> 100 \<and>
         0 \<le> rc_figure (riskCard s) \<and> rc_figure (riskCard s) \<le> 100 \<and>
         0 \<le> pp_bar (predictionPanel s) \<and> pp_bar (predictionPanel s) \<le> 100 \<and>
         pp_confidence (predictionPanel s) \<in> {0, 100} \<and>
         snd (fst (rc_sub (riskCard s))) \<le> 60 \<and> snd (snd (rc_sub (riskCard s))) \<le> 10"
proof -
  have p: "0 \<le> playbackProgress s \<and> playbackProgress s \<le> 100"
    using app_reach_inv [OF assms] by (simp add: app_inv_def playback_inv_def)
  have r: "riskScore s \<in> set risk_levels"
    using app_reach_risk_inv [OF assms] by (simp add: risk_inv_def)
  have c: "confidence s \<in> {0, 99.5, 100}" using app_reach_confidence [OF assms] .
  have "\<forall>w. mh_progress (monitorHeader s) = Some w \<longrightarrow> 0 \<le> w \<and> w \<le> 100"
    using p by (simp add: monitorHeader_def split: option.split)
  moreover have "0 \<le> snd (rc_gauge (riskCard s)) \<and> snd (rc_gauge (riskCard s)) \<le> 100 \<and>
         0 \<le> rc_figure (riskCard s) \<and> rc_figure (riskCard s) \<le> 100 \<and>
         snd (fst (rc_sub (riskCard s))) \<le> 60 \<and> snd (snd (rc_sub (riskCard s))) \<le> 10"
    using r by (auto simp: riskCard_def RiskGauge_def sub_risks_def risk_levels_def js_round_def)
  moreover have "0 \<le> pp_bar (predictionPanel s) \<and> pp_bar (predictionPanel s) \<le> 100 \<and>
         pp_confidence (predictionPanel s) \<in> {0, 100}"
  proof -
    have "\<forall>x \<in> {0, 99.5, 100 :: real}. 0 \<le> x \<and> x \<le> 100 \<and> js_round x \<in> {0, 100}"
      by (simp add: js_round_def)
    from bspec [OF this c] show ?thesis by (simp add: predictionPanel_def)
  qed
  ultimately show ?thesis by blast
qed

theorem page_bars_bounded_witness:
  "mh_progress (monitorHeader app_init) = None \<and> rc_figure (riskCard app_init) \<le> 100 \<and>
   pp_confidence (predictionPanel app_init) \<in> {0, 100}"
  using page_bars_bounded [OF app_reach.init] by (simp add: monitorHeader_def app_init_def)

end
