(* ===== verification/Spec2Isabelle.thy ===== *)
theory Spec2Isabelle
  imports SignalAnalyzer SampleBuffer AlertManager CsvInput Playback FrameLoop StatusView Dashboard
begin

text \<open>
  CardioSense (\<open>src/src/main.jsx\<close>, a single React component \<open>App\<close>) replays an uploaded
  single-lead ECG recording at a fixed virtual rate, classifies its rhythm once when the
  file is read, injects randomised demo events during playback and shows self-expiring
  alerts.  The parts and the theories that model them:

  \<^item> \<open>Prelude\<close>: the configuration constants of \<open>App\<close> (lines 165--171), the JavaScript
    built-ins the code relies on (\<open>slice\<close> with a negative start, \<open>Math.round\<close>,
    \<open>toLowerCase\<close>, \<open>includes\<close>, number-to-string), and generic lemmas on lists,
    folds and square roots.
  \<^item> \<open>SignalAnalyzer\<close>: \<open>analyzeECGSignal\<close> (lines 175--254), one definition per block of
    the function: the flat-line test, the R-peak scan (\<open>isMax\<close>, \<open>peak_step\<close>,
    \<open>detect_peaks\<close>), the RR intervals, their statistics (\<open>rr_stats\<close>) and the rule
    chain (\<open>classify\<close>).  Reference definitions (\<open>peak_candidate\<close>,
    \<open>thin_refractory\<close>, \<open>classify_table\<close>) state what the scan and the rules promise.
  \<^item> \<open>SampleBuffer\<close>: the updater of \<open>setDisplayData\<close> (lines 386--395) as
    \<open>append_window\<close>, and \<open>window_after\<close>, its fold over the chunks of a run.
  \<^item> \<open>AlertManager\<close>: \<open>triggerAlert\<close> (lines 326--335) with its 3 s timeouts made
    explicit (\<open>alert_state\<close>: the list and the pending timeouts), the passing of time
    (\<open>fire_alert_timers\<close>) and the reachable states of the manager alone
    (\<open>alert_reach\<close>).
  \<^item> \<open>CsvInput\<close>: the parsing step of \<open>reader.onload\<close> (line 273): \<open>split\<close>,
    \<open>parseFloat\<close> and the row filter, as \<open>js_split\<close>, \<open>parse_float\<close>, \<open>parse_rows\<close>.
  \<^item> \<open>Playback\<close>: the whole component as a state machine.  The record \<open>app\<close> holds every
    \<open>useState\<close> and \<open>useRef\<close> of lines 139--163 and the callbacks the host holds for it
    (the requested animation frame, file reads in flight, demo-revert and report
    timeouts).  The handlers \<open>handleFileUpload\<close>, \<open>reader_onload\<close>, \<open>togglePlay\<close>,
    \<open>generateReport\<close> (lines 259--324) and the frame \<open>updateSimulation\<close> with
    \<open>injectDemoEvents\<close> (lines 339--433) are functions on \<open>app\<close>; \<open>commit\<close> is the
    effect of lines 435--440 that re-requests the frame when a dependency changed;
    \<open>app_step\<close> is one host event (user action, completed read, animation frame, time
    passing) and \<open>app_reach\<close> the reachable states, whose frames draw their random
    numbers in [0, 1) as \<open>Math.random()\<close> does (\<open>valid_rng\<close>).
  \<^item> \<open>FrameLoop\<close>: the chain of animation frames the host runs while one is requested
    (line 398 and the effect of lines 435--440), as \<open>partial_function (option)
    run_frames\<close>: \<open>None\<close> is a chain that never ends.
  \<^item> \<open>StatusView\<close>: the presentation logic, every value the page derives from the state:
    \<open>StatusBadge\<close> (lines 33--52), \<open>RiskGauge\<close>'s \<open>getColor\<close> (lines 89--94), the
    ECG graph (lines 444--514), the header, play and report buttons, alert banners,
    heart-rate, interval and risk cards of the JSX (lines 531--758), collected by
    \<open>render\<close>.
  \<^item> \<open>Dashboard\<close>: the rest of the page: \<open>MetricCard\<close> (lines 62--86) cutting its
    classes out of \<open>colorMap\<close> (an unknown colour reads \<open>undefined\<close> and throws:
    \<open>None\<close>), the four stat cards, \<open>RiskGauge\<close>, \<open>ModelSelector\<close> and the model card,
    the monitor header with the progress bar, the alert overlay, the reasoning and
    prediction panels, the risk card, and the print-only report (lines 777--854) with
    \<open>printed_report\<close>, the page printed by the report timeout (lines 320--323).  The
    selector's models (lines 112--116) are in \<open>Playback\<close>: a \<open>SelectModel\<close> event
    carries one of their ids (\<open>valid_event\<close>), as the buttons call \<open>onSelect(m.id)\<close>.

  The components interact through \<open>app_step\<close>: a completed read runs \<open>parse_rows\<close> and
  \<open>analyzeECGSignal\<close> and raises the result's alert with \<open>triggerAlert\<close>; each frame
  feeds its chunk to \<open>append_window\<close> and may raise demo alerts; time passing fires the
  alert timeouts, the demo reverts and the report's print.  The views of
  \<open>StatusView\<close> and \<open>Dashboard\<close> read the state and change nothing.

  What the lemmas show.  For the analyzer (C1--C12): the result on flat and on peak-less
  input, bounds on the rate and the risk, the peak scan equal to filter-then-thin and its
  refractory spacing, the rule chain equal to the rule table, and the classification of
  regular trains (80 and 120 bpm).  For the window (C13): first-in first-out within the
  capacity.  For the alerts (C14--C17): the capacity and distinctness invariant of every
  reachable state, \<open>triggerAlert\<close> on every branch (duplicate suppression, eviction of
  the oldest, the timeout), expiry after the TTL, and a behaviour of the code worth
  knowing (a stale timeout removes a newer alert with the same message).  Every result of
  the engine is one of its seven verdicts (C18).  For the input (C19): integer CSV
  columns are read back exactly.  For the application (C20--C31): the invariant of every reachable state (cursor, progress,
  window, alerts, frame requested exactly while playing), the effect of a frame, the end
  of playback and that it is always reached, the refinement of the frame loop by
  \<open>window_after\<close>, \<open>togglePlay\<close> on every branch, the error path of upload, the single
  analysis on load, the report timeout, the consistency of every render of a reachable
  state (the risk is a known score, so gauge and figure agree on its colour, and the ECG
  trace stays inside the view box in sample order, C30), and that the error alert of the
  report is never raised in any reachable state (C31).  For the frame chain: it terminates from every reachable state with a
  non-empty recording, at the end of the recording (C34), and never ends on an empty
  recording, which can then not be paused either (C32).  For the page (C36--C38): the
  model shown is always one of the selector's, every stat card finds its colours, and
  every bar of the page is between 0 and 100 \%.  This theory holds the end-to-end trace:
  a flat recording of 300 samples uploaded, played for 76 frames and left for 4 s, on
  which the demo revert scheduled before the end overwrites the final
  \<open>Analysis Complete\<close> (C33), on which the status badge shows the risk-100 asystole
  verdict in the blue information style (C35), and on which a report requested during
  the last demo event prints the state after the completion frame, not the one of the
  request (C39).

  Modelling choices.  JavaScript numbers are read as exact reals (samples, intervals,
  rates) or naturals (indices, the cursor, millisecond clocks): rounding error of doubles
  is not modelled, nor is \<open>Infinity\<close> from \<open>parseFloat\<close>.  \<open>Math.sqrt\<close> is \<open>sqrt\<close>,
  eliminated in the proofs by \<open>less_sqrt_iff\<close>.  \<open>Math.random()\<close> and \<open>Date.now()\<close> are
  inputs: the three draws of a frame are the \<open>frame_rng\<close> of its event, the report's
  patient id is drawn by the render (a parameter of \<open>print_view\<close>), and the clock is a
  field advanced by the \<open>Wait\<close> event.  A frame reads the current state; the code's
  frame reads the closure of the render that requested it, which is the same state since
  every value it reads other than \<open>uploadedFileName\<close> is an effect dependency (a change
  re-requests the frame with a fresh closure) and \<open>uploadedFileName\<close> only changes from
  one file name to another.  The revert timeout captures its frame's
  \<open>analysisResult\<close>, and its \<open>isPlaying\<close> test is always true there.  The report
  prints the state at its timeout's time after the timeouts due by then.  Class strings
  are read as their colour family (\<open>tone\<close>), except for \<open>MetricCard\<close>, whose class
  strings are computed and modelled as strings.  All loops of the program are bounded
  (the scans are over index ranges, the batch loop runs four times), so every definition
  but one is total and needs no fuel; the exception is the frame chain, whose
  termination depends on the state: \<open>run_frames\<close> is a \<open>partial_function (option)\<close>,
  its termination from reachable states is proved by a measure (samples left, plus one
  while a frame is requested) and its divergence on an empty recording by induction over
  the fixpoint.

  Not modelled: the static markup of the JSX (headings, footer, the SVG grid and
  gradient, fixed class strings), \<open>formatDate\<close> (\<open>Intl.DateTimeFormat\<close> on the wall
  clock) and the formatting of \<open>toLocaleTimeString\<close>, the SVG path text of the ECG
  graph (its points are modelled), \<open>window.print\<close> itself, the \<open>FileReader\<close> (its result
  is the text carried by the \<open>Upload\<close> event), \<open>event.target.value = null\<close>, and
  \<open>currentTime\<close>, which is never updated.
\<close>

section \<open>An end-to-end trace\<close>

text \<open>A recording of 300 zero samples, one per line, as a CSV file would hold it.\<close>

definition zero_recording :: string where
  "zero_recording = join_with CHR ''\<newline>'' (replicate 300 ''0'')"

text \<open>Random draws of a frame: no demo event, and the critical demo event.\<close>

definition quiet_rng :: frame_rng where
  "quiet_rng = \<lparr>jitter_rand = 0.5, event_rand = 0, pick_rand = 0\<rparr>"

definition critical_rng :: frame_rng where
  "critical_rng = \<lparr>jitter_rand = 0.5, event_rand = 0.95, pick_rand = 0\<rparr>"

text \<open>
  The states of the trace: the file read and playing; the last sample consumed by a
  frame that drew the critical demo event; the frame after it, which ends the playback.
\<close>

definition loaded :: app where
  "loaded = app_run app_init [Upload (Some (''mit.csv'', zero_recording)), ReaderLoad]"

definition at_end :: app where
  "at_end = app_run loaded (map Frame (replicate 74 quiet_rng @ [critical_rng]))"

definition completed :: app where
  "completed = app_step at_end (Frame quiet_rng)"

section \<open>Lemmas on the trace\<close>

lemma parse_zero_recording: "parse_rows zero_recording = replicate 300 0"
proof -
  have "parse_float (hd (js_split CHR '','' ''0'')) = Some 0" by code_simp
  then show ?thesis
    by (simp add: zero_recording_def parse_rows_lines List.map_filter_def)
qed

lemma analyze_zero_recording: "analyzeECGSignal (replicate 300 0) = asystole_result"
  by (simp add: analyzeECGSignal_nonempty)

lemma zero_recording_loaded:
  "app_reach loaded \<and> app_inv loaded \<and> isPlaying loaded \<and> framePending loaded \<and>
   ecgData loaded = replicate 300 0 \<and> dataIndex loaded = 0 \<and>
   uploadedFileName loaded = Some ''mit.csv'' \<and> revertTimers loaded = [] \<and> clock loaded = 0 \<and>
   analysisResult loaded = Some asystole_result \<and> riskScore loaded = 100 \<and> heartRate loaded = 0 \<and>
   currentRhythm loaded = ''Asystole / No Signal''"
proof -
  have low: "to_lower ''mit.csv'' = ''mit.csv''" by code_simp
  have r: "app_reach loaded" unfolding loaded_def by (intro app_reach_run app_reach.init) simp
  moreover have "app_inv loaded" using r by (rule app_reach_inv)
  ultimately show ?thesis
    by (simp add: loaded_def app_run_def app_init_def handleFileUpload_def low reader_onload_def
        parse_zero_recording analyze_zero_recording commit_def effect_deps_def app_alert_def Let_def
        asystole_result_def)
qed

lemma zero_recording_at_end:
  "app_reach at_end \<and> app_inv at_end \<and> isPlaying at_end \<and> framePending at_end \<and>
   ecgData at_end = replicate 300 0 \<and> dataIndex at_end = 300 \<and>
   uploadedFileName at_end = Some ''mit.csv'' \<and>
   revertTimers at_end = [(4000, Some asystole_result)] \<and> clock at_end = 0 \<and>
   analysisResult at_end = Some asystole_result \<and> currentRhythm at_end = ''Non-Sustained V-Tach''"
proof -
  note L = zero_recording_loaded
  define s76 where "s76 = app_run loaded (map Frame (replicate 74 quiet_rng))"
  have inv2: "app_inv loaded" and fp2: "framePending loaded" "uploadedFileName loaded \<noteq> None"
    using L by simp_all
  have r77: "at_end = app_step s76 (Frame critical_rng)"
    by (simp add: at_end_def app_run_def s76_def)
  have "4 * length (replicate 74 quiet_rng @ [critical_rng]) < length (ecgData loaded) - dataIndex loaded + 4"
    using L by simp
  note A77 = frames_advance [OF inv2 fp2 this, folded at_end_def]
  have "4 * length (replicate 74 quiet_rng) < length (ecgData loaded) - dataIndex loaded + 4"
    using L by simp
  note A76 = frames_advance [OF inv2 fp2 this, folded s76_def]
  have q: "\<forall>j \<in> {1..length (replicate 74 quiet_rng)}. (dataIndex loaded + 4 * j) mod 300 \<noteq> 0"
    using L by auto
  have "dataIndex loaded + 4 * length (replicate 74 quiet_rng) \<le> length (ecgData loaded)" using L by simp
  note Q76 = frames_quiet [OF inv2 fp2 this q, folded s76_def]
  have i76: "dataIndex s76 = 296" "ecgData s76 = replicate 300 0" using A76 L by simp_all
  have "revertTimers (app_step s76 (Frame critical_rng)) =
          revertTimers s76 @ [(clock s76 + 4000, analysisResult s76)] \<and>
        clock (app_step s76 (Frame critical_rng)) = clock s76"
    using A76 i76 L by (intro frame_inject [THEN conjunct1] frame_inject [THEN conjunct2, THEN conjunct2] conjI)
      (simp_all add: critical_rng_def)
  then have "revertTimers at_end = [(4000, Some asystole_result)] \<and> clock at_end = 0"
    using Q76 A76 L unfolding r77 by simp
  moreover have "currentRhythm at_end = ev_rhythm criticalEvent"
    unfolding r77 using A76 i76 L
    by (intro frame_inject [THEN conjunct2, THEN conjunct1]) (simp_all add: critical_rng_def)
  moreover have "app_reach at_end" unfolding at_end_def
    by (intro app_reach_run) (use L in \<open>simp_all add: valid_rng_def quiet_rng_def critical_rng_def list_all_iff\<close>)
  moreover have "isPlaying at_end" using A77 by (simp add: app_inv_playing)
  ultimately show ?thesis using A77 L by (simp add: criticalEvent_def)
qed

lemma zero_recording_completed:
  "app_reach completed \<and> \<not> isPlaying completed \<and> dataIndex completed = 300 \<and>
   ecgData completed = replicate 300 0 \<and> uploadedFileName completed = Some ''mit.csv'' \<and>
   revertTimers completed = [(4000, Some asystole_result)] \<and> clock completed = 0 \<and>
   analysisResult completed = Some asystole_result \<and> currentRhythm completed = ''Analysis Complete''"
proof -
  note E = zero_recording_at_end
  have "app_inv at_end" "framePending at_end" "uploadedFileName at_end \<noteq> None" "ecgData at_end \<noteq> []"
      "length (ecgData at_end) \<le> dataIndex at_end"
    using E by simp_all
  note frame_complete [OF this, of quiet_rng, folded completed_def]
  moreover have "app_reach completed" unfolding completed_def using E
    by (intro app_reach.step) (simp_all add: valid_rng_def quiet_rng_def)
  ultimately show ?thesis using E by simp
qed

section \<open>Properties of the whole application\<close>

text \<open>
  C33. The demo revert outlives the playback: on the flat recording, a critical demo
  event drawn by the frame that consumes the last sample schedules a revert; the next
  frame ends the playback and shows \<open>Analysis Complete\<close>; 4 s later the revert, whose
  \<open>isPlaying\<close> test read its frame's closure, overwrites the final label with the
  analysis rhythm although nothing is playing.
\<close>

theorem stale_revert_after_completion:
  "app_reach completed \<and> \<not> isPlaying completed \<and> currentRhythm completed = ''Analysis Complete'' \<and>
   currentRhythm (app_step completed (Wait 4000)) = ''Asystole / No Signal'' \<and>
   \<not> isPlaying (app_step completed (Wait 4000))"
proof -
  note C = zero_recording_completed
  have "currentRhythm (app_step completed (Wait 4000)) = ''Asystole / No Signal''"
    using C by (simp add: fire_timers_def revert_event_def asystole_result_def)
  moreover have "\<not> isPlaying (app_step completed (Wait 4000))"
    using C revert_fold_fields by (simp add: fire_timers_def Let_def)
  ultimately show ?thesis using C by simp
qed

section \<open>Witnesses of the playback properties on the trace\<close>

theorem frame_advances_witness:
  "dataIndex (app_step loaded (Frame quiet_rng)) = 4 \<and> isPlaying (app_step loaded (Frame quiet_rng))"
proof -
  note L = zero_recording_loaded
  have "app_reach loaded" "isPlaying loaded" "uploadedFileName loaded \<noteq> None"
      "dataIndex loaded < length (ecgData loaded)"
    using L by simp_all
  from frame_advances [OF this, of quiet_rng] show ?thesis using L by simp
qed

theorem frame_completion_stops_witness:
  "\<not> isPlaying completed \<and> playbackProgress completed = 100 \<and> dataIndex completed = 300"
proof -
  note E = zero_recording_at_end
  have "app_reach at_end" "isPlaying at_end" "uploadedFileName at_end \<noteq> None" "ecgData at_end \<noteq> []"
      "length (ecgData at_end) \<le> dataIndex at_end"
    using E by simp_all
  from frame_completion_stops [OF this, of quiet_rng, folded completed_def] show ?thesis using E by simp
qed

theorem playback_runs_to_completion_witness:
  "\<not> isPlaying (app_run loaded (map Frame (replicate 76 quiet_rng))) \<and>
   dataIndex (app_run loaded (map Frame (replicate 76 quiet_rng))) = 300"
proof -
  note L = zero_recording_loaded
  have "app_reach loaded" "isPlaying loaded" "uploadedFileName loaded \<noteq> None" "ecgData loaded \<noteq> []"
      "length (replicate 76 quiet_rng) = (length (ecgData loaded) - dataIndex loaded + 3) div 4 + 1"
    using L by simp_all
  from playback_runs_to_completion [OF this] show ?thesis using L by simp
qed

theorem frames_refine_window_witness:
  "dataIndex (app_run loaded (map Frame (replicate 75 quiet_rng))) = 300 \<and>
   isPlaying (app_run loaded (map Frame (replicate 75 quiet_rng)))"
proof -
  note L = zero_recording_loaded
  have "app_reach loaded" "isPlaying loaded" "uploadedFileName loaded \<noteq> None"
      "dataIndex loaded + 4 * length (replicate 75 quiet_rng) \<le> length (ecgData loaded)"
    using L by simp_all
  from frames_refine_window [OF this] show ?thesis using L by simp
qed

theorem togglePlay_branches_witness:
  "app_step app_init TogglePlay = app_init\<lparr>alertState := triggerAlert 0 ''Upload CSV Required'' Critical alert_init\<rparr> \<and>
   \<not> isPlaying (app_step loaded TogglePlay) \<and> \<not> framePending (app_step loaded TogglePlay) \<and>
   dataIndex (app_step completed TogglePlay) = 0 \<and> isPlaying (app_step completed TogglePlay) \<and>
   currentRhythm (app_step completed TogglePlay) = ''Asystole / No Signal''"
proof -
  note L = zero_recording_loaded and C = zero_recording_completed
  have "app_reach loaded" "app_reach completed" using L C by simp_all
  note T0 = togglePlay_branches [OF app_reach.init] and TL = togglePlay_branches [OF this(1)]
    and TC = togglePlay_branches [OF this(2)]
  have "app_step app_init TogglePlay = app_init\<lparr>alertState := triggerAlert 0 ''Upload CSV Required'' Critical alert_init\<rparr>"
    using T0 by (simp add: app_init_def)
  moreover have "\<not> isPlaying (app_step loaded TogglePlay) \<and> \<not> framePending (app_step loaded TogglePlay)"
    using TL L by simp
  moreover have "dataIndex (app_step completed TogglePlay) = 0 \<and> isPlaying (app_step completed TogglePlay) \<and>
      currentRhythm (app_step completed TogglePlay) = ''Asystole / No Signal''"
    using TC C by (simp add: asystole_result_def)
  ultimately show ?thesis by blast
qed

theorem playback_frames_terminate_witness:
  "\<exists>t. run_frames (\<lambda>_. quiet_rng) 0 loaded = Some t \<and> dataIndex t = 300 \<and> \<not> isPlaying t"
proof -
  note L = zero_recording_loaded
  have "app_reach loaded" "ecgData loaded \<noteq> []" using L by simp_all
  moreover have "\<forall>k. valid_rng ((\<lambda>_. quiet_rng) k)" by (simp add: valid_rng_def quiet_rng_def)
  ultimately show ?thesis using playback_frames_terminate [of loaded "\<lambda>_. quiet_rng" 0] L by auto
qed

theorem reachable_render_consistent_witness:
  "riskScore loaded \<noteq> 0 \<and> v_gauge (render loaded) = Rose \<and> v_risk_tone (render loaded) = Rose"
proof -
  note L = zero_recording_loaded
  have "app_reach loaded" using L by simp
  moreover have "v_gauge (render loaded) = getColor (riskScore loaded)"
    by (simp only: render_def view.select_convs)
  ultimately show ?thesis using reachable_render_consistent [of loaded] L by (simp add: getColor_def)
qed

text \<open>
  C35. The status badge contradicts the severity of what it shows: the flat recording's
  verdict \<open>Asystole / No Signal\<close> at risk 100 is shown with the blue information badge
  (its label matches the keyword \<open>Signal\<close>) and a green heart-rate card (a rate of 0 is
  neither above 100 nor in (0, 60)), while the gauge is red; the demo event
  \<open>T-Wave Alternans\<close> at risk 55 matches no keyword and gets the green normal badge.
\<close>

theorem status_badge_misreports_severity:
  "currentRhythm loaded = ''Asystole / No Signal'' \<and> riskScore loaded = 100 \<and>
   v_badge (render loaded) = Blue \<and> v_hr_tone (render loaded) = Emerald \<and> v_gauge (render loaded) = Rose \<and>
   ev_rhythm (anomalies ! 2) = ''T-Wave Alternans'' \<and> ev_score (anomalies ! 2) = 55 \<and>
   statusBadge (ev_rhythm (anomalies ! 2)) = Emerald"
proof -
  note L = zero_recording_loaded
  have b: "statusBadge ''Asystole / No Signal'' = Blue" by code_simp
  have t: "statusBadge ''T-Wave Alternans'' = Emerald" by code_simp
  have v: "v_badge (render loaded) = statusBadge (currentRhythm loaded)"
      "v_hr_tone (render loaded) = hr_card_tone loaded" "v_gauge (render loaded) = getColor (riskScore loaded)"
    by (simp_all only: render_def view.select_convs)
  have a: "ev_rhythm (anomalies ! 2) = ''T-Wave Alternans''" "ev_score (anomalies ! 2) = 55"
    by (simp_all add: anomalies_def)
  show ?thesis
    using L b t unfolding v a by (simp add: hr_card_tone_def getColor_def)
qed

text \<open>
  C39. The printed report is not the snapshot of the request: the report button is
  clicked while the critical demo event is shown (\<open>Non-Sustained V-Tach\<close>), the
  playback completes before the 1500 ms timeout prints, and the report shows
  \<open>Analysis Complete\<close> at risk 100 and confidence 100, with the fixed note
  \<open>Signal Quality: Optimal\<close> on a recording whose verdict is \<open>No Signal\<close>.
\<close>

theorem report_prints_later_state:
  "currentRhythm (app_step at_end GenerateReport) = ''Non-Sustained V-Tach'' \<and>
   (\<exists>r. printed_report rnd (app_step (app_step at_end GenerateReport) (Frame quiet_rng)) (Wait 1500) = Some r \<and>
        pr_rhythm r = ''Analysis Complete'' \<and> pr_risk r = 100 \<and> pr_confidence r = 100 \<and>
        ''Signal Quality: Optimal'' \<in> set (pr_notes r))"
proof -
  note E = zero_recording_at_end
  have rf: "isGeneratingReport at_end = False \<and> reportTimers at_end = []"
  proof -
    have "isGeneratingReport loaded = False \<and> reportTimers loaded = []"
      unfolding loaded_def using report_fields_run [of "[Upload (Some (''mit.csv'', zero_recording)), ReaderLoad]" app_init]
      by (simp add: app_init_def)
    then show ?thesis unfolding at_end_def
      using report_fields_run [of "map Frame (replicate 74 quiet_rng @ [critical_rng])" loaded]
      by (simp add: list_all_iff)
  qed
  define c where "c = app_step at_end GenerateReport"
  have c_eq: "c = at_end\<lparr>isGeneratingReport := True, reportTimers := [1500]\<rparr>"
    using E rf by (simp add: c_def generateReport_def commit_def effect_deps_def)
  have "app_reach c" unfolding c_def using E by (intro app_reach.step) simp_all
  then have inv: "app_inv c" by (rule app_reach_inv)
  have pre: "framePending c" "uploadedFileName c \<noteq> None" "ecgData c \<noteq> []" "length (ecgData c) \<le> dataIndex c"
      "analysisResult c = Some asystole_result"
    using E by (simp_all add: c_eq)
  note F = frame_complete [OF inv pre(1-4), of quiet_rng] frame_complete_result [OF inv pre, of quiet_rng]
  define f where "f = app_step c (Frame quiet_rng)"
  have ff: "reportTimers f = [1500]" "clock f = 0" "revertTimers f = [(4000, Some asystole_result)]"
      "currentRhythm f = ''Analysis Complete''" "riskScore f = 100" "confidence f = 100"
    using F E pre by (simp_all add: f_def c_eq asystole_result_def)
  have "printed_report rnd f (Wait 1500) = Some (print_view rnd (fire_timers 1500 f))"
    using ff by (simp add: printed_report_def print_time_def)
  moreover have "currentRhythm (fire_timers 1500 f) = ''Analysis Complete'' \<and> riskScore (fire_timers 1500 f) = 100 \<and>
      confidence (fire_timers 1500 f) = 100"
    using ff by (simp add: fire_timers_def Let_def)
  moreover have "currentRhythm c = ''Non-Sustained V-Tach''" using E by (simp add: c_eq)
  ultimately show ?thesis unfolding c_def [symmetric] f_def [symmetric] by (simp add: print_view_def js_round_def)
qed

end
